theory Spec2Isabelle
  imports Main "HOL-Library.Sublist" "HOL-Library.AList"
begin

section \<open>Data model\<close>

text \<open>
  Python values that travel as \<^verbatim>\<open>Dict[str, Any]\<close> (tool input schemas, chat messages,
  parsed tool arguments) are JSON trees. A dict is an association list in insertion
  order; a number is an integer. The values are trees: no object is reachable along
  two paths, as is the case for data decoded from the wire.
\<close>

datatype json =
    JNull
  | JBool bool
  | JNum int
  | JStr string
  | JArr "json list"
  | JObj "(string \<times> json) list"

text \<open>
  The exceptions the modelled code can raise, as values. Each carries its message, the
  text that \<^verbatim>\<open>str(e)\<close> gives. The messages of the interpreter's own exceptions are
  those of CPython 3.11 to 3.13; \<open>quoted\<close> puts a name between single quotes, and
  \<open>no_attribute\<close> is the message of reading an attribute that an object of the named
  type does not have.
\<close>

datatype py_error =
    AttributeError string
  | TypeError string
  | IndexError string
  | ValueError string
  | JSONDecodeError string
  | ExternalError string

definition quoted :: "string \<Rightarrow> string" where
  "quoted s = [CHR 0x27] @ s @ [CHR 0x27]"

definition no_attribute :: "string \<Rightarrow> string \<Rightarrow> py_error" where
  "no_attribute type_name attribute =
     AttributeError (quoted type_name @ '' object has no attribute '' @ quoted attribute)"

definition list_index_out_of_range :: py_error where
  "list_index_out_of_range = IndexError ''list index out of range''"

text \<open>\<^verbatim>\<open>type(v).__name__\<close> of a JSON value.\<close>

fun type_name :: "json \<Rightarrow> string" where
  "type_name JNull = ''NoneType''"
| "type_name (JBool b) = ''bool''"
| "type_name (JNum n) = ''int''"
| "type_name (JStr s) = ''str''"
| "type_name (JArr xs) = ''list''"
| "type_name (JObj d) = ''dict''"

text \<open>A tool as listed by a session: \<^verbatim>\<open>tool.name\<close>, \<^verbatim>\<open>tool.description\<close>
  (a string or \<^verbatim>\<open>None\<close>), \<^verbatim>\<open>tool.inputSchema\<close> (a \<^verbatim>\<open>Dict[str, Any]\<close>).\<close>

type_synonym py_dict = "(string \<times> json) list"

record tool =
  name :: string
  description :: "string option"
  inputSchema :: py_dict

text \<open>One item of \<^verbatim>\<open>result.content\<close>; only a text item has the attribute \<^verbatim>\<open>text\<close>. An
  item of another kind is kept as the name of its type.\<close>

datatype content_item = TextContent string | OtherContent string

text \<open>
  A session (\<^verbatim>\<open>ClientSession\<close>) is an opaque capability of the MCP library. It is
  modelled by what its two calls answer: \<^verbatim>\<open>await session.list_tools()\<close> gives
  \<^verbatim>\<open>tools.tools\<close> or raises, and \<^verbatim>\<open>await session.call_tool(name, arguments=args)\<close>
  gives \<^verbatim>\<open>result.content\<close> or raises.
\<close>

record session =
  list_tools_response :: "py_error + tool list"
  call_tool_response :: "string \<Rightarrow> json \<Rightarrow> py_error + content_item list"

section \<open>Session registry: \<^verbatim>\<open>MultipleMCPClientManager.list_tools\<close>\<close>

text \<open>
  \<^verbatim>\<open>
  tool_map = {}
  consolidated_tools = []
  for server_name, session in self.sessions.items():
      tools = await session.list_tools()
      for tool in tools.tools:
          if tool.name not in tool_map:
              tool_map[tool.name] = server_name
              consolidated_tools.append(tool)
  return tool_map, consolidated_tools
  \<close>
  \<^verbatim>\<open>self.sessions\<close> is a dict, iterated in insertion order: an association list.
  The inner loop is \<open>add_tools\<close>, the outer loop \<open>list_tools_loop\<close>.
\<close>

type_synonym tool_map = "string \<rightharpoonup> string"

fun add_tools :: "string \<Rightarrow> tool list \<Rightarrow> tool_map \<times> tool list \<Rightarrow> tool_map \<times> tool list" where
  "add_tools server_name [] acc = acc"
| "add_tools server_name (t # ts) (tool_map, consolidated_tools) =
     (if tool_map (name t) = None
      then add_tools server_name ts (tool_map(name t \<mapsto> server_name), consolidated_tools @ [t])
      else add_tools server_name ts (tool_map, consolidated_tools))"

fun list_tools_loop ::
  "(string \<times> session) list \<Rightarrow> tool_map \<times> tool list \<Rightarrow> py_error + tool_map \<times> tool list" where
  "list_tools_loop [] acc = Inr acc"
| "list_tools_loop ((server_name, s) # rest) acc =
     (case list_tools_response s of
        Inl e \<Rightarrow> Inl e
      | Inr tools \<Rightarrow> list_tools_loop rest (add_tools server_name tools acc))"

definition list_tools :: "(string \<times> session) list \<Rightarrow> py_error + tool_map \<times> tool list" where
  "list_tools ss = list_tools_loop ss (Map.empty, [])"

text \<open>
  The specification's reading of the routing table: the owner of a tool name is the
  earliest session, in iteration order, whose listing has a tool of that name.
\<close>

fun listed_names :: "session \<Rightarrow> string set" where
  "listed_names s = (case list_tools_response s of Inl e \<Rightarrow> {} | Inr tools \<Rightarrow> set (map name tools))"

fun earliest_owner :: "(string \<times> session) list \<Rightarrow> string \<Rightarrow> string option" where
  "earliest_owner [] n = None"
| "earliest_owner ((server_name, s) # rest) n =
     (if n \<in> listed_names s then Some server_name else earliest_owner rest n)"

fun all_listings_answer :: "(string \<times> session) list \<Rightarrow> bool" where
  "all_listings_answer [] = True"
| "all_listings_answer ((server_name, s) # rest) =
     (case list_tools_response s of Inl e \<Rightarrow> False | Inr tools \<Rightarrow> all_listings_answer rest)"

text \<open>Two sample ss that both list a tool named \<open>search\<close>; the second also
  lists \<open>fetch\<close>.\<close>

definition search_tool :: "string \<Rightarrow> tool" where
  "search_tool d = \<lparr>name = ''search'', description = Some d, inputSchema = []\<rparr>"

definition fetch_tool :: tool where
  "fetch_tool = \<lparr>name = ''fetch'', description = Some ''fetch a page'', inputSchema = []\<rparr>"

definition session_a :: session where
  "session_a = \<lparr>list_tools_response = Inr [search_tool ''search of A''],
                 call_tool_response = (\<lambda>n args. Inr [TextContent ''answer of A''])\<rparr>"

definition session_b :: session where
  "session_b = \<lparr>list_tools_response = Inr [search_tool ''search of B'', fetch_tool],
                 call_tool_response = (\<lambda>n args. Inr [TextContent ''answer of B''])\<rparr>"

definition two_sessions :: "(string \<times> session) list" where
  "two_sessions = [(''A'', session_a), (''B'', session_b)]"

section \<open>Tool schema normalizer: \<^verbatim>\<open>MCPHelper.filter_mcp_input_schema\<close>\<close>

text \<open>
  Dict operations on association lists: \<^verbatim>\<open>k in d\<close> and \<^verbatim>\<open>d[k]\<close> are \<open>map_of d k\<close>,
  \<^verbatim>\<open>d[k] = v\<close> is \<open>AList.update k v d\<close> (the value is replaced where the key stands, a
  new key goes to the end), \<^verbatim>\<open>del d[k]\<close> is \<open>AList.delete k d\<close>.

  The loop that completes the list \<^verbatim>\<open>required\<close>:
  \<^verbatim>\<open>
  for key in input_schema["properties"].keys():
      if key not in input_schema["required"]:
          input_schema["required"].append(key)
  \<close>
\<close>

fun append_missing :: "string list \<Rightarrow> json list \<Rightarrow> json list" where
  "append_missing [] required = required"
| "append_missing (key # keys) required =
     (if JStr key \<in> set required then append_missing keys required
      else append_missing keys (required @ [JStr key]))"

text \<open>
  The body of the loop over \<^verbatim>\<open>input_schema["properties"].items()\<close>, for one value:
  \<^verbatim>\<open>
  if "default" in value:
      del value["default"]
  if "type" in value and isinstance(value["type"], list):
      if "null" in value["type"]:
          other_types = [t for t in value["type"] if t != "null"]
          if other_types:
              value["type"] = other_types[0]
              value["nullable"] = True
      else:
          value["type"] = value["type"][0]
  \<close>
  A value that is no dict: on a string \<^verbatim>\<open>in\<close> is the substring test and on a list the
  membership test, and the deletion or the subscript that follows a positive test raises
  TypeError; on any other value \<^verbatim>\<open>in\<close> itself raises TypeError. \<^verbatim>\<open>value["type"][0]\<close>
  on an empty list raises IndexError.
\<close>

definition filter_property :: "json \<Rightarrow> py_error + json" where
  "filter_property v =
     (case v of
        JObj d \<Rightarrow>
          (let d1 = AList.delete ''default'' d in
           case map_of d1 ''type'' of
             Some (JArr types) \<Rightarrow>
               if JStr ''null'' \<in> set types then
                 (case filter (\<lambda>t. t \<noteq> JStr ''null'') types of
                    [] \<Rightarrow> Inr (JObj d1)
                  | t # other \<Rightarrow>
                      Inr (JObj (AList.update ''nullable'' (JBool True)
                                  (AList.update ''type'' t d1))))
               else
                 (case types of
                    [] \<Rightarrow> Inl list_index_out_of_range
                  | t # other \<Rightarrow> Inr (JObj (AList.update ''type'' t d1)))
           | _ \<Rightarrow> Inr (JObj d1))
      | JStr s \<Rightarrow>
          if sublist ''default'' s
          then Inl (TypeError (quoted ''str'' @ '' object doesn't support item deletion''))
          else if sublist ''type'' s
          then Inl (TypeError (''string indices must be integers, not '' @ quoted ''str''))
          else Inr v
      | JArr xs \<Rightarrow>
          if JStr ''default'' \<in> set xs \<or> JStr ''type'' \<in> set xs
          then Inl (TypeError ''list indices must be integers or slices, not str'')
          else Inr v
      | _ \<Rightarrow>
          Inl (TypeError (''argument of type '' @ quoted (type_name v) @ '' is not iterable'')))"

fun filter_properties :: "py_dict \<Rightarrow> py_error + py_dict" where
  "filter_properties [] = Inr []"
| "filter_properties ((key, v) # rest) =
     (case filter_property v of
        Inl e \<Rightarrow> Inl e
      | Inr v' \<Rightarrow>
          (case filter_properties rest of
             Inl e \<Rightarrow> Inl e
           | Inr rest' \<Rightarrow> Inr ((key, v') # rest')))"

text \<open>
  \<^verbatim>\<open>
  if "properties" in input_schema:
      if "required" not in input_schema or not isinstance(input_schema["required"], list):
          input_schema["required"] = list(input_schema["properties"].keys())
      else:
          (the loop of append_missing)
      (the loop of filter_properties)
      if "additionalProperties" not in input_schema:
          input_schema["additionalProperties"] = False
  return input_schema
  \<close>
  The function rewrites its argument in place and returns that same object: the result
  \<open>Inr d'\<close> is both the returned value and the state of the argument after the call.
  When it raises, the argument is left partly rewritten; the model gives the error only.
  \<^verbatim>\<open>.keys()\<close> on a value of \<^verbatim>\<open>"properties"\<close> that is no dict raises AttributeError.
\<close>

definition filter_mcp_input_schema :: "py_dict \<Rightarrow> py_error + py_dict" where
  "filter_mcp_input_schema input_schema =
     (case map_of input_schema ''properties'' of
        None \<Rightarrow> Inr input_schema
      | Some (JObj props) \<Rightarrow>
          (let d1 = (case map_of input_schema ''required'' of
                       Some (JArr required) \<Rightarrow>
                         AList.update ''required''
                           (JArr (append_missing (map fst props) required)) input_schema
                     | _ \<Rightarrow>
                         AList.update ''required''
                           (JArr (map JStr (map fst props))) input_schema) in
           case filter_properties props of
             Inl e \<Rightarrow> Inl e
           | Inr props' \<Rightarrow>
               (let d2 = AList.update ''properties'' (JObj props') d1 in
                Inr (if map_of d2 ''additionalProperties'' = None
                     then AList.update ''additionalProperties'' (JBool False) d2
                     else d2)))
      | Some v \<Rightarrow> Inl (no_attribute (type_name v) ''keys''))"

text \<open>
  A schema has flat type lists when no property's \<^verbatim>\<open>"type"\<close> list has a list among its
  entries (JSON Schema allows strings only there).
\<close>

fun is_JArr :: "json \<Rightarrow> bool" where
  "is_JArr (JArr xs) = True"
| "is_JArr v = False"

definition flat_type_list :: "json \<Rightarrow> bool" where
  "flat_type_list v =
     (case v of
        JObj d \<Rightarrow>
          (case map_of d ''type'' of
             Some (JArr types) \<Rightarrow> list_all (\<lambda>t. \<not> is_JArr t) types
           | _ \<Rightarrow> True)
      | _ \<Rightarrow> True)"

definition flat_type_lists :: "py_dict \<Rightarrow> bool" where
  "flat_type_lists input_schema =
     (case map_of input_schema ''properties'' of
        Some (JObj props) \<Rightarrow> list_all (\<lambda>p. flat_type_list (snd p)) props
      | _ \<Rightarrow> True)"

section \<open>Formatting the tool list: \<^verbatim>\<open>MCPHelper.format_tools_object_for_llm_call\<close>\<close>

text \<open>\<^verbatim>\<open>provider.lower()\<close>, on the ASCII letters.\<close>

definition lower_char :: "char \<Rightarrow> char" where
  "lower_char c =
     (let n = (of_char c :: nat) in if 65 \<le> n \<and> n \<le> 90 then char_of (n + 32) else c)"

definition lower :: "string \<Rightarrow> string" where
  "lower s = map lower_char s"

definition json_of_description :: "string option \<Rightarrow> json" where
  "json_of_description d = (case d of None \<Rightarrow> JNull | Some s \<Rightarrow> JStr s)"

text \<open>
  \<^verbatim>\<open>
  if provider.lower() == 'anthropic':
      return [{"name": tool.name, "description": tool.description,
               "input_schema": tool.inputSchema} for tool in tool_objects]
  elif provider.lower() == "openai":
      return [{"type": "function",
               "function": {"name": tool.name, "description": tool.description,
                            "strict": True,
                            "parameters": MCPHelper.filter_mcp_input_schema(tool.inputSchema)}}
              for tool in tool_objects]
  return []
  \<close>
  The tool objects are state: the OpenAI branch hands each \<^verbatim>\<open>tool.inputSchema\<close> to
  \<open>filter_mcp_input_schema\<close>, which rewrites it in place, so the function returns
  the formatted list together with the tool objects as they are after the call.
\<close>

fun format_openai_tools :: "tool list \<Rightarrow> py_error + json list \<times> tool list" where
  "format_openai_tools [] = Inr ([], [])"
| "format_openai_tools (t # ts) =
     (case filter_mcp_input_schema (inputSchema t) of
        Inl e \<Rightarrow> Inl e
      | Inr schema \<Rightarrow>
          (case format_openai_tools ts of
             Inl e \<Rightarrow> Inl e
           | Inr (formatted, ts') \<Rightarrow>
               Inr (JObj [(''type'', JStr ''function''),
                          (''function'',
                             JObj [(''name'', JStr (name t)),
                                   (''description'', json_of_description (description t)),
                                   (''strict'', JBool True),
                                   (''parameters'', JObj schema)])] # formatted,
                    t\<lparr>inputSchema := schema\<rparr> # ts')))"

definition format_anthropic_tool :: "tool \<Rightarrow> json" where
  "format_anthropic_tool t =
     JObj [(''name'', JStr (name t)),
           (''description'', json_of_description (description t)),
           (''input_schema'', JObj (inputSchema t))]"

definition format_tools_object_for_llm_call ::
  "tool list \<Rightarrow> string \<Rightarrow> py_error + json list \<times> tool list" where
  "format_tools_object_for_llm_call tool_objects provider =
     (if lower provider = ''anthropic''
      then Inr (map format_anthropic_tool tool_objects, tool_objects)
      else if lower provider = ''openai'' then format_openai_tools tool_objects
      else Inr ([], tool_objects))"

text \<open>Sample schemas.\<close>

definition nested_schema :: py_dict where
  "nested_schema =
     [(''properties'',
        JObj [(''a'', JObj [(''type'', JArr [JArr [JStr ''string'', JStr ''null'']])])])]"

definition city_schema :: py_dict where
  "city_schema =
     [(''type'', JStr ''object''),
      (''properties'',
        JObj [(''city'', JObj [(''type'', JArr [JStr ''string'', JStr ''null'']),
                               (''default'', JStr ''Paris'')])])]"

definition city_tool :: tool where
  "city_tool = \<lparr>name = ''weather'', description = Some ''weather of a city'',
                 inputSchema = city_schema\<rparr>"

fun parameters_of :: "json \<Rightarrow> json option" where
  "parameters_of (JObj d) =
     (case map_of d ''function'' of Some (JObj f) \<Rightarrow> map_of f ''parameters'' | _ \<Rightarrow> None)"
| "parameters_of v = None"

definition nested_schema_once :: py_dict where
  "nested_schema_once =
     [(''properties'', JObj [(''a'', JObj [(''type'', JArr [JStr ''string'', JStr ''null''])])]),
      (''required'', JArr [JStr ''a'']),
      (''additionalProperties'', JBool False)]"

definition nested_schema_twice :: py_dict where
  "nested_schema_twice =
     [(''properties'',
        JObj [(''a'', JObj [(''type'', JStr ''string''), (''nullable'', JBool True)])]),
      (''required'', JArr [JStr ''a'']),
      (''additionalProperties'', JBool False)]"

definition city_schema_normalized :: py_dict where
  "city_schema_normalized =
     [(''type'', JStr ''object''),
      (''properties'',
        JObj [(''city'', JObj [(''type'', JStr ''string''), (''nullable'', JBool True)])]),
      (''required'', JArr [JStr ''city'']),
      (''additionalProperties'', JBool False)]"

definition city_formatted :: json where
  "city_formatted =
     JObj [(''type'', JStr ''function''),
           (''function'',
              JObj [(''name'', JStr ''weather''),
                    (''description'', JStr ''weather of a city''),
                    (''strict'', JBool True),
                    (''parameters'', JObj city_schema_normalized)])]"

section \<open>Session registry: \<^verbatim>\<open>MultipleMCPClientManager.initialize\<close> and \<^verbatim>\<open>close\<close>\<close>

text \<open>
  The manager holds the two configuration tables, the dict \<^verbatim>\<open>self.sessions\<close> and the
  \<^verbatim>\<open>AsyncExitStack\<close>. The exit stack is the list of the contexts entered and not yet
  exited, the latest first: a transport or a session is open exactly as long as it is
  on that list. Of an \<^verbatim>\<open>MCPServerModel\<close> the registry reads \<^verbatim>\<open>mcp_name\<close> and
  \<^verbatim>\<open>sse_url\<close> only.
\<close>

record mcp_server =
  mcp_name :: string
  sse_url :: string

datatype endpoint = Stdio json | Sse string

datatype resource = Transport string | SessionCtx string

record manager =
  stdio_server_map :: "(string \<times> json) list"
  sse_server_map :: "mcp_server list"
  sessions :: "(string \<times> session) list"
  exit_stack :: "resource list"

text \<open>
  Connecting is the transport's business. What the environment does with one endpoint is
  one of four outcomes: entering the transport context raises; entering the
  \<^verbatim>\<open>ClientSession\<close> context raises; \<^verbatim>\<open>session.initialize()\<close> raises; or all three
  succeed and give a session. \<^verbatim>\<open>enter_async_context\<close> registers a context only when
  entering it succeeded.
\<close>

datatype connect_outcome =
    TransportFails py_error
  | SessionFails py_error
  | InitializeFails py_error
  | Connects session

definition open_session ::
  "(endpoint \<Rightarrow> connect_outcome) \<Rightarrow> string \<Rightarrow> endpoint \<Rightarrow> resource list \<Rightarrow>
   (py_error + session) \<times> resource list" where
  "open_session connect server_name ep stack =
     (case connect ep of
        TransportFails e \<Rightarrow> (Inl e, stack)
      | SessionFails e \<Rightarrow> (Inl e, Transport server_name # stack)
      | InitializeFails e \<Rightarrow> (Inl e, SessionCtx server_name # Transport server_name # stack)
      | Connects s \<Rightarrow> (Inr s, SessionCtx server_name # Transport server_name # stack))"

text \<open>
  \<^verbatim>\<open>
  try:
      for server_name, params in self.stdio_server_map.items():
          stdio_transport = await self.exit_stack.enter_async_context(stdio_client(params))
          read, write = stdio_transport
          session = await self.exit_stack.enter_async_context(ClientSession(read, write))
          await session.initialize()
          self.sessions[server_name] = session
      for mcp in self.sse_server_map:
          (the same with sse_client(url=mcp.sse_url) and self.sessions[mcp.mcp_name])
  except Exception as e:
      logger.error(...)
      raise
  \<close>
  The result is the exception that leaves \<^verbatim>\<open>initialize\<close>, if any, and the manager as it
  is at that moment.
\<close>

fun initialize_stdio ::
  "(endpoint \<Rightarrow> connect_outcome) \<Rightarrow> (string \<times> json) list \<Rightarrow> manager \<Rightarrow>
   py_error option \<times> manager" where
  "initialize_stdio connect [] m = (None, m)"
| "initialize_stdio connect ((server_name, params) # rest) m =
     (case open_session connect server_name (Stdio params) (exit_stack m) of
        (Inl e, stack) \<Rightarrow> (Some e, m\<lparr>exit_stack := stack\<rparr>)
      | (Inr s, stack) \<Rightarrow>
          initialize_stdio connect rest
            (m\<lparr>sessions := AList.update server_name s (sessions m), exit_stack := stack\<rparr>))"

fun initialize_sse ::
  "(endpoint \<Rightarrow> connect_outcome) \<Rightarrow> mcp_server list \<Rightarrow> manager \<Rightarrow>
   py_error option \<times> manager" where
  "initialize_sse connect [] m = (None, m)"
| "initialize_sse connect (mcp # rest) m =
     (case open_session connect (mcp_name mcp) (Sse (sse_url mcp)) (exit_stack m) of
        (Inl e, stack) \<Rightarrow> (Some e, m\<lparr>exit_stack := stack\<rparr>)
      | (Inr s, stack) \<Rightarrow>
          initialize_sse connect rest
            (m\<lparr>sessions := AList.update (mcp_name mcp) s (sessions m), exit_stack := stack\<rparr>))"

definition initialize ::
  "(endpoint \<Rightarrow> connect_outcome) \<Rightarrow> manager \<Rightarrow> py_error option \<times> manager" where
  "initialize connect m =
     (case initialize_stdio connect (stdio_server_map m) m of
        (Some e, m') \<Rightarrow> (Some e, m')
      | (None, m') \<Rightarrow> initialize_sse connect (sse_server_map m') m')"

text \<open>\<^verbatim>\<open>MultipleMCPClientManager.__init__\<close>.\<close>

definition new_manager :: "(string \<times> json) list \<Rightarrow> mcp_server list \<Rightarrow> manager" where
  "new_manager stdio sse =
     \<lparr>stdio_server_map = stdio, sse_server_map = sse, sessions = [], exit_stack = []\<rparr>"

text \<open>
  \<^verbatim>\<open>close\<close> is \<^verbatim>\<open>await self.exit_stack.aclose()\<close>: every context on the stack is exited,
  the latest first. The result is the list of the contexts it exits and the manager
  after.
\<close>

definition close :: "manager \<Rightarrow> resource list \<times> manager" where
  "close m = (exit_stack m, m\<lparr>exit_stack := []\<rparr>)"

text \<open>A sample environment: the endpoint of A connects, every other endpoint is
  refused by its transport.\<close>

definition server_a :: mcp_server where
  "server_a = \<lparr>mcp_name = ''A'', sse_url = ''https://a.example/sse''\<rparr>"


definition only_a_connects :: "endpoint \<Rightarrow> connect_outcome" where
  "only_a_connects ep =
     (if ep = Sse ''https://a.example/sse'' then Connects session_a
      else TransportFails (ExternalError ''connection refused''))"

section \<open>Synthetic chunks: \<^verbatim>\<open>create_llm_chunk\<close>\<close>

text \<open>
  \<^verbatim>\<open>MessageType.PROGRESS\<close> and \<^verbatim>\<open>MessageType.ERROR\<close> are the strings below. A custom
  chunk is kept as its chunk type and its content; the identifier and the timestamp of
  an \<^verbatim>\<open>OpenAICompatibleChunk\<close> come from \<^verbatim>\<open>uuid\<close> and \<^verbatim>\<open>time\<close> and are left out.
  What a generator yields is either a chunk of the provider, passed through, or a custom
  chunk.
\<close>

definition PROGRESS :: string where
  "PROGRESS = ''progress''"

definition ERROR :: string where
  "ERROR = ''error''"

datatype custom_chunk =
    OpenAICompatibleChunk string string
  | AnthropicCompatibleChunk string string

datatype 'c emitted = Passthrough 'c | Custom custom_chunk

definition create_llm_chunk :: "string \<Rightarrow> string \<Rightarrow> string \<Rightarrow> py_error + custom_chunk" where
  "create_llm_chunk chunk_type content provider =
     (if lower provider = ''anthropic'' then Inr (AnthropicCompatibleChunk chunk_type content)
      else if lower provider = ''openai'' then Inr (OpenAICompatibleChunk chunk_type content)
      else Inl (ValueError (''Unsupported provider: '' @ provider)))"

text \<open>\<^verbatim>\<open>str(e)\<close> of an exception: its message.\<close>

fun str_of_error :: "py_error \<Rightarrow> string" where
  "str_of_error (AttributeError msg) = msg"
| "str_of_error (TypeError msg) = msg"
| "str_of_error (IndexError msg) = msg"
| "str_of_error (ValueError msg) = msg"
| "str_of_error (JSONDecodeError msg) = msg"
| "str_of_error (ExternalError msg) = msg"

section \<open>Reassembly of tool calls, dialect A (OpenAI deltas)\<close>

text \<open>
  The parts of a streamed chunk the loop reads: \<^verbatim>\<open>chunk.choices[0].delta.tool_calls\<close>
  (absent, \<^verbatim>\<open>None\<close> or a list), \<^verbatim>\<open>chunk.choices[0].delta.content\<close> (absent,
  \<^verbatim>\<open>None\<close> or a string), and of each streamed tool call its \<^verbatim>\<open>index\<close>, \<^verbatim>\<open>id\<close>
  and \<^verbatim>\<open>function\<close> with \<^verbatim>\<open>name\<close> and \<^verbatim>\<open>arguments\<close>, each of which may be
  \<^verbatim>\<open>None\<close>. For \<^verbatim>\<open>tool_calls\<close> and \<^verbatim>\<open>content\<close>, which the code reads behind
  \<^verbatim>\<open>hasattr\<close>, an absent attribute and \<^verbatim>\<open>None\<close> are both \<open>None\<close>. The \<^verbatim>\<open>id\<close> of a
  streamed tool call can also be absent: then \<open>tc_id\<close> is \<open>None\<close> and \<open>tc_id_absent\<close>
  holds, and reading it raises AttributeError with the name of the object's type,
  \<open>tc_class\<close>. The attributes \<^verbatim>\<open>index\<close> and \<^verbatim>\<open>function\<close> are present.
\<close>

record function_delta =
  fn_name :: "string option"
  fn_arguments :: "string option"

record tool_call_delta =
  tc_class :: string
  tc_index :: int
  tc_id :: "string option"
  tc_id_absent :: bool
  tc_function :: "function_delta option"

record choice_delta =
  delta_tool_calls :: "tool_call_delta list option"
  delta_content :: "string option"

record openai_chunk =
  choices :: "choice_delta list"

text \<open>
  An entry of \<^verbatim>\<open>final_tool_calls\<close>:
  \<^verbatim>\<open>{"id": ..., "type": "function", "function": {"name": ..., "arguments": ...}}\<close>.
  \<^verbatim>\<open>final_tool_calls\<close> is a dict from index to entry, in insertion order.
\<close>

record tool_call =
  call_id :: string
  call_type :: string
  function_name :: string
  function_arguments :: string

type_synonym tool_calls = "(int \<times> tool_call) list"

text \<open>\<^verbatim>\<open>x or d\<close> on an optional string: \<open>x\<close> when it is a non-empty string, else \<open>d\<close>.\<close>

definition str_or :: "string option \<Rightarrow> string \<Rightarrow> string" where
  "str_or x d = (case x of None \<Rightarrow> d | Some s \<Rightarrow> if s = [] then d else s)"

text \<open>The decimal numeral of \<^verbatim>\<open>f"call_{tool_index}"\<close>.\<close>

fun str_nat :: "nat \<Rightarrow> string" where
  "str_nat n =
     (if n < 10 then [char_of (48 + n)] else str_nat (n div 10) @ [char_of (48 + n mod 10)])"

declare str_nat.simps [simp del]

text \<open>
  One streamed tool call:
  \<^verbatim>\<open>
  if tool_call.index not in final_tool_calls:
      final_tool_calls[tool_call.index] = {
          "id": tool_call.id or f"call_{tool_index}",
          "type": "function",
          "function": {"name": tool_call.function.name or "",
                       "arguments": tool_call.function.arguments or ""}}
      tool_index += 1
  else:
      if tool_call.function.name:
          final_tool_calls[tool_call.index]["function"]["name"] = tool_call.function.name
      if tool_call.function.arguments:
          final_tool_calls[tool_call.index]["function"]["arguments"] += tool_call.function.arguments
  \<close>
  Reading \<^verbatim>\<open>tool_call.function.name\<close> when \<^verbatim>\<open>function\<close> is \<^verbatim>\<open>None\<close> raises
  AttributeError, in both branches before anything is stored. The first branch reads
  \<^verbatim>\<open>tool_call.id\<close> before that, and raises when the attribute is absent.
\<close>

definition accumulate_tool_call ::
  "tool_call_delta \<Rightarrow> tool_calls \<times> nat \<Rightarrow> py_error + tool_calls \<times> nat" where
  "accumulate_tool_call tc st =
     (case st of (final_tool_calls, tool_index) \<Rightarrow>
        (case map_of final_tool_calls (tc_index tc) of
           None \<Rightarrow>
             if tc_id tc = None \<and> tc_id_absent tc then Inl (no_attribute (tc_class tc) ''id'')
             else
             (case tc_function tc of
                None \<Rightarrow> Inl (no_attribute ''NoneType'' ''name'')
              | Some f \<Rightarrow>
                  Inr (AList.update (tc_index tc)
                         \<lparr>call_id = str_or (tc_id tc) (''call_'' @ str_nat tool_index),
                          call_type = ''function'',
                          function_name = str_or (fn_name f) [],
                          function_arguments = str_or (fn_arguments f) []\<rparr>
                         final_tool_calls,
                       tool_index + 1))
         | Some entry \<Rightarrow>
             (case tc_function tc of
                None \<Rightarrow> Inl (no_attribute ''NoneType'' ''name'')
              | Some f \<Rightarrow>
                  Inr (AList.update (tc_index tc)
                         (entry\<lparr>function_name := str_or (fn_name f) (function_name entry),
                                function_arguments :=
                                  function_arguments entry @ str_or (fn_arguments f) []\<rparr>)
                         final_tool_calls,
                       tool_index))))"

text \<open>The loop over \<^verbatim>\<open>delta.tool_calls\<close>: an exception leaves it with what the earlier
  tool calls of the chunk have stored.\<close>

fun accumulate_tool_calls ::
  "tool_call_delta list \<Rightarrow> tool_calls \<times> nat \<Rightarrow> (tool_calls \<times> nat) \<times> py_error option" where
  "accumulate_tool_calls [] st = (st, None)"
| "accumulate_tool_calls (tc # tcs) st =
     (case accumulate_tool_call tc st of
        Inl e \<Rightarrow> (st, Some e)
      | Inr st' \<Rightarrow> accumulate_tool_calls tcs st')"

text \<open>
  The body of \<^verbatim>\<open>async for chunk in stream_response\<close>:
  \<^verbatim>\<open>
  try:
      if hasattr(chunk.choices[0].delta, 'tool_calls') and chunk.choices[0].delta.tool_calls:
          for tool_call in chunk.choices[0].delta.tool_calls: ...
      if hasattr(chunk.choices[0].delta, 'content') and chunk.choices[0].delta.content:
          content_buffer += chunk.choices[0].delta.content
      yield chunk
  except Exception as e:
      yield create_llm_chunk(MessageType.ERROR, f"Error processing response: {str(e)}",
                             provider='openai')
  \<close>
  The state is \<^verbatim>\<open>final_tool_calls\<close>, \<^verbatim>\<open>tool_index\<close> and \<^verbatim>\<open>content_buffer\<close>.
  \<^verbatim>\<open>chunk.choices[0]\<close> on an empty list raises IndexError.
\<close>

type_synonym openai_state = "tool_calls \<times> nat \<times> string"

definition process_openai_chunk ::
  "openai_chunk \<Rightarrow> openai_state \<Rightarrow> openai_state \<times> openai_chunk emitted" where
  "process_openai_chunk chunk st =
     (case st of (final_tool_calls, tool_index, content_buffer) \<Rightarrow>
        (case choices chunk of
           [] \<Rightarrow>
             (st, Custom (OpenAICompatibleChunk ERROR
                    (''Error processing response: '' @ str_of_error list_index_out_of_range)))
         | choice # others \<Rightarrow>
             (case accumulate_tool_calls
                     (case delta_tool_calls choice of None \<Rightarrow> [] | Some tcs \<Rightarrow> tcs)
                     (final_tool_calls, tool_index) of
                ((final_tool_calls', tool_index'), Some e) \<Rightarrow>
                  ((final_tool_calls', tool_index', content_buffer),
                   Custom (OpenAICompatibleChunk ERROR
                     (''Error processing response: '' @ str_of_error e)))
              | ((final_tool_calls', tool_index'), None) \<Rightarrow>
                  ((final_tool_calls', tool_index',
                    content_buffer @ str_or (delta_content choice) []),
                   Passthrough chunk))))"

fun collect_openai ::
  "openai_chunk list \<Rightarrow> openai_state \<Rightarrow> openai_state \<times> openai_chunk emitted list" where
  "collect_openai [] st = (st, [])"
| "collect_openai (chunk # rest) st =
     (case process_openai_chunk chunk st of
        (st', out) \<Rightarrow> (case collect_openai rest st' of (st'', outs) \<Rightarrow> (st'', out # outs)))"

section \<open>Reassembly of tool calls, dialect B (Anthropic events)\<close>

text \<open>
  The parts of a stream event the loop reads: \<^verbatim>\<open>chunk.type\<close> (which may be absent),
  \<^verbatim>\<open>chunk.content_block\<close> with its \<^verbatim>\<open>type\<close>, \<^verbatim>\<open>id\<close> and \<^verbatim>\<open>name\<close>, and
  \<^verbatim>\<open>chunk.delta\<close> with its \<^verbatim>\<open>type\<close> (which may be absent) and \<^verbatim>\<open>partial_json\<close>.
  The attributes \<^verbatim>\<open>content_block\<close> and \<^verbatim>\<open>delta\<close> can be a value, \<^verbatim>\<open>None\<close> or absent:
  the field is \<open>None\<close> in the last two cases, and the flag says which. Reading an
  absent attribute raises AttributeError with the name of the event's type,
  \<open>chunk_class\<close>; \<^verbatim>\<open>None.type\<close> raises AttributeError too, and
  \<^verbatim>\<open>hasattr(None, "type")\<close> is false.
\<close>

record content_block =
  block_type :: string
  block_id :: string
  block_name :: string

record event_delta =
  delta_type :: "string option"
  partial_json :: string

record anthropic_chunk =
  chunk_class :: string
  chunk_type :: "string option"
  chunk_content_block :: "content_block option"
  content_block_absent :: bool
  chunk_delta :: "event_delta option"
  delta_absent :: bool

text \<open>
  \<^verbatim>\<open>
  try:
      if hasattr(chunk, 'type'):
          if chunk.type == "content_block_start" and chunk.content_block.type == "tool_use":
              index = tool_index
              tool_index += 1
              final_tool_calls[index] = {"id": chunk.content_block.id, "type": "function",
                  "function": {"name": chunk.content_block.name, "arguments": ""}}
              current_tool_index = index
          elif chunk.type == "content_block_delta" and hasattr(chunk.delta, "type") \
                  and chunk.delta.type == "input_json_delta":
              if current_tool_index is not None and current_tool_index in final_tool_calls:
                  final_tool_calls[current_tool_index]["function"]["arguments"] += \
                      chunk.delta.partial_json
      yield chunk
  except Exception as e:
      yield create_llm_chunk(MessageType.ERROR, f"Error processing response: {str(e)}",
                             provider='anthropic')
  \<close>
  The state is \<^verbatim>\<open>final_tool_calls\<close>, \<^verbatim>\<open>tool_index\<close> and \<^verbatim>\<open>current_tool_index\<close>.
\<close>

type_synonym anthropic_state = "tool_calls \<times> nat \<times> int option"

definition process_anthropic_chunk ::
  "anthropic_chunk \<Rightarrow> anthropic_state \<Rightarrow> anthropic_state \<times> anthropic_chunk emitted" where
  "process_anthropic_chunk chunk st =
     (case st of (final_tool_calls, tool_index, current_tool_index) \<Rightarrow>
        (case chunk_type chunk of
           None \<Rightarrow> (st, Passthrough chunk)
         | Some ty \<Rightarrow>
             if ty = ''content_block_start'' then
               (case chunk_content_block chunk of
                  None \<Rightarrow>
                    (st, Custom (AnthropicCompatibleChunk ERROR
                           (''Error processing response: '' @
                            str_of_error
                              (if content_block_absent chunk
                               then no_attribute (chunk_class chunk) ''content_block''
                               else no_attribute ''NoneType'' ''type''))))
                | Some block \<Rightarrow>
                    if block_type block = ''tool_use'' then
                      ((AList.update (int tool_index)
                          \<lparr>call_id = block_id block, call_type = ''function'',
                           function_name = block_name block, function_arguments = []\<rparr>
                          final_tool_calls,
                        tool_index + 1, Some (int tool_index)),
                       Passthrough chunk)
                    else (st, Passthrough chunk))
             else if ty = ''content_block_delta'' then
               (case chunk_delta chunk of
                  None \<Rightarrow>
                    if delta_absent chunk then
                      (st, Custom (AnthropicCompatibleChunk ERROR
                             (''Error processing response: '' @
                              str_of_error (no_attribute (chunk_class chunk) ''delta''))))
                    else (st, Passthrough chunk)
                | Some d \<Rightarrow>
                    if delta_type d = Some ''input_json_delta'' then
                      (case current_tool_index of
                         None \<Rightarrow> (st, Passthrough chunk)
                       | Some i \<Rightarrow>
                           (case map_of final_tool_calls i of
                              None \<Rightarrow> (st, Passthrough chunk)
                            | Some entry \<Rightarrow>
                                ((AList.update i
                                    (entry\<lparr>function_arguments :=
                                             function_arguments entry @ partial_json d\<rparr>)
                                    final_tool_calls,
                                  tool_index, current_tool_index),
                                 Passthrough chunk)))
                    else (st, Passthrough chunk))
             else (st, Passthrough chunk)))"

fun collect_anthropic ::
  "anthropic_chunk list \<Rightarrow> anthropic_state \<Rightarrow> anthropic_state \<times> anthropic_chunk emitted list" where
  "collect_anthropic [] st = (st, [])"
| "collect_anthropic (chunk # rest) st =
     (case process_anthropic_chunk chunk st of
        (st', out) \<Rightarrow> (case collect_anthropic rest st' of (st'', outs) \<Rightarrow> (st'', out # outs)))"

text \<open>Sample stream items.\<close>

definition name_delta :: "string \<Rightarrow> string \<Rightarrow> openai_chunk" where
  "name_delta n a =
     \<lparr>choices = [\<lparr>delta_tool_calls =
                    Some [\<lparr>tc_class = ''ChoiceDeltaToolCall'', tc_index = 0, tc_id = None,
                           tc_id_absent = False,
                           tc_function = Some \<lparr>fn_name = Some n, fn_arguments = Some a\<rparr>\<rparr>],
                  delta_content = None\<rparr>]\<rparr>"

definition json_delta :: "string \<Rightarrow> anthropic_chunk" where
  "json_delta fragment =
     \<lparr>chunk_class = ''RawContentBlockDeltaEvent'',
      chunk_type = Some ''content_block_delta'',
      chunk_content_block = None, content_block_absent = True,
      chunk_delta = Some \<lparr>delta_type = Some ''input_json_delta'', partial_json = fragment\<rparr>,
      delta_absent = False\<rparr>"



section \<open>Session registry: \<^verbatim>\<open>MultipleMCPClientManager.call_tool\<close>\<close>

text \<open>
  \<^verbatim>\<open>
  server_name = tool_map.get(tool_name)
  if not server_name:
      logger.error(f"Tool '{tool_name}' not found.")
      return None
  session = self.sessions.get(server_name)
  if session:
      result = await session.call_tool(tool_name, arguments=arguments)
      return result.content[0].text
  return None
  \<close>
  \<^verbatim>\<open>not server_name\<close> holds for \<^verbatim>\<open>None\<close> and for the empty string.
  \<^verbatim>\<open>result.content[0]\<close> on an empty list raises IndexError, and \<^verbatim>\<open>.text\<close> on an item
  that is no text raises AttributeError.
\<close>

definition call_tool :: "manager \<Rightarrow> string \<Rightarrow> json \<Rightarrow> tool_map \<Rightarrow> py_error + string option" where
  "call_tool m tool_name arguments tm =
     (case tm tool_name of
        None \<Rightarrow> Inr None
      | Some server_name \<Rightarrow>
          if server_name = [] then Inr None
          else
            (case map_of (sessions m) server_name of
               None \<Rightarrow> Inr None
             | Some session \<Rightarrow>
                 (case call_tool_response session tool_name arguments of
                    Inl e \<Rightarrow> Inl e
                  | Inr [] \<Rightarrow> Inl list_index_out_of_range
                  | Inr (TextContent text # others) \<Rightarrow> Inr (Some text)
                  | Inr (OtherContent item_type # others) \<Rightarrow>
                      Inl (no_attribute item_type ''text''))))"

section \<open>Messages: \<^verbatim>\<open>MCPHelper\<close>\<close>

text \<open>\<^verbatim>\<open>str(observation)\<close>: the text itself, and \<^verbatim>\<open>"None"\<close> for \<^verbatim>\<open>None\<close>.\<close>

definition str_of_observation :: "string option \<Rightarrow> string" where
  "str_of_observation observation = (case observation of None \<Rightarrow> ''None'' | Some text \<Rightarrow> text)"

text \<open>
  \<^verbatim>\<open>
  if provider.lower() == "anthropic":
      return {"role": "user",
              "content": [{"type": "tool_result", "tool_use_id": tool_call_id,
                           "content": observation}]}
  else:
      return {"role": "tool", "tool_call_id": tool_call_id, "content": observation}
  \<close>
\<close>

definition create_tool_result_message :: "string \<Rightarrow> string \<Rightarrow> string \<Rightarrow> json" where
  "create_tool_result_message tool_call_id observation provider =
     (if lower provider = ''anthropic''
      then JObj [(''role'', JStr ''user''),
                 (''content'',
                    JArr [JObj [(''type'', JStr ''tool_result''),
                                (''tool_use_id'', JStr tool_call_id),
                                (''content'', JStr observation)]])]
      else JObj [(''role'', JStr ''tool''),
                 (''tool_call_id'', JStr tool_call_id),
                 (''content'', JStr observation)])"

text \<open>\<^verbatim>\<open>convert_to_openai_tool_format\<close>, on entries that are dicts.\<close>

definition openai_tool_format :: "tool_call \<Rightarrow> json" where
  "openai_tool_format call =
     JObj [(''id'', JStr (call_id call)),
           (''type'', JStr (call_type call)),
           (''function'',
              JObj [(''name'', JStr (function_name call)),
                    (''arguments'', JStr (function_arguments call))])]"

definition convert_to_openai_tool_format :: "tool_calls \<Rightarrow> json" where
  "convert_to_openai_tool_format final_tool_calls =
     JArr (map openai_tool_format (map snd final_tool_calls))"

text \<open>
  \<^verbatim>\<open>convert_to_anthropic_tool_format\<close> parses the arguments of every entry:
  \<^verbatim>\<open>
  return [{"type": "tool_use", "id": tool_call["id"],
           "name": tool_call["function"]["name"],
           "input": json.loads(tool_call["function"]["arguments"])}
          for tool_call in final_tool_calls.values()]
  \<close>
  \<^verbatim>\<open>json.loads\<close> belongs to the standard library; it is a parameter, a function from
  the text to the parsed value or the exception.
\<close>

fun convert_to_anthropic_tool_format ::
  "(string \<Rightarrow> py_error + json) \<Rightarrow> tool_call list \<Rightarrow> py_error + json list" where
  "convert_to_anthropic_tool_format loads [] = Inr []"
| "convert_to_anthropic_tool_format loads (call # rest) =
     (case loads (function_arguments call) of
        Inl e \<Rightarrow> Inl e
      | Inr input \<Rightarrow>
          (case convert_to_anthropic_tool_format loads rest of
             Inl e \<Rightarrow> Inl e
           | Inr blocks \<Rightarrow>
               Inr (JObj [(''type'', JStr ''tool_use''),
                          (''id'', JStr (call_id call)),
                          (''name'', JStr (function_name call)),
                          (''input'', input)] # blocks)))"

section \<open>Chat orchestrator: \<^verbatim>\<open>MCPChat\<close>\<close>

text \<open>
  A run is described by the list of what it does, in order: the chunks it yields, the
  requests it sends to the model, its calls of \<^verbatim>\<open>client_manager.call_tool\<close>, and the
  messages it appends to \<^verbatim>\<open>chat_messages\<close>. Of a request the messages and the tool
  list are kept (the tool list is \<open>None\<close> when the request has no \<^verbatim>\<open>tools\<close> key); the
  model name and the optional generation parameters are the same in every request of a
  run and are left out.
\<close>

record request =
  req_messages :: "json list"
  req_tools :: "json list option"

datatype 'c event =
    Yield "'c emitted"
  | ModelCall request
  | CallTool string json
  | Append json

fun model_calls :: "'c event list \<Rightarrow> request list" where
  "model_calls [] = []"
| "model_calls (ModelCall r # evs) = r # model_calls evs"
| "model_calls (ev # evs) = model_calls evs"

fun tool_invocations :: "'c event list \<Rightarrow> (string \<times> json) list" where
  "tool_invocations [] = []"
| "tool_invocations (CallTool n a # evs) = (n, a) # tool_invocations evs"
| "tool_invocations (ev # evs) = tool_invocations evs"

text \<open>
  The environment of a run: \<^verbatim>\<open>json.loads\<close>, the outcome of connecting to an endpoint,
  and the model capability, which answers a request with the list of the chunks of its
  response stream or raises when it is called. A response stream that breaks off with an
  exception after some chunks is not part of the model.
\<close>

record 'c world =
  json_loads :: "string \<Rightarrow> py_error + json"
  connector :: "endpoint \<Rightarrow> connect_outcome"
  model_response :: "request \<Rightarrow> py_error + 'c list"

text \<open>The attributes of the processor that \<^verbatim>\<open>setup_client\<close> sets.\<close>

record chat =
  chat_client_manager :: manager
  chat_tool_map :: tool_map
  chat_tools :: "json list"
  chat_messages :: "json list"

text \<open>
  \<^verbatim>\<open>process_tool_calls\<close>, the loop over \<^verbatim>\<open>final_tool_calls.values()\<close>:
  \<^verbatim>\<open>
  tool_name = tool_call["function"]["name"]
  tool_args = json.loads(tool_call["function"]["arguments"])
  yield create_llm_chunk(MessageType.PROGRESS, f"Executing tool: {tool_name}...", provider=provider)
  observation = await self.client_manager.call_tool(tool_name, tool_args, self.tool_map)
  tool_result_message = MCPHelper.create_tool_result_message(tool_call["id"], str(observation), provider)
  self.chat_messages.append(tool_result_message)
  yield create_llm_chunk(MessageType.PROGRESS, f"Tool {tool_name} execution complete.", provider=provider)
  \<close>
  The result is what the loop did, the messages after it, and the exception that left
  it, if any.
\<close>

fun process_tool_calls_loop ::
  "(string \<Rightarrow> py_error + json) \<Rightarrow> manager \<Rightarrow> tool_map \<Rightarrow> string \<Rightarrow> tool_call list \<Rightarrow> json list \<Rightarrow>
   'c event list \<times> json list \<times> py_error option" where
  "process_tool_calls_loop loads m tm provider [] msgs = ([], msgs, None)"
| "process_tool_calls_loop loads m tm provider (call # rest) msgs =
     (case loads (function_arguments call) of
        Inl e \<Rightarrow> ([], msgs, Some e)
      | Inr tool_args \<Rightarrow>
          (case create_llm_chunk PROGRESS
                  (''Executing tool: '' @ function_name call @ ''...'') provider of
             Inl e \<Rightarrow> ([], msgs, Some e)
           | Inr executing \<Rightarrow>
               (case call_tool m (function_name call) tool_args tm of
                  Inl e \<Rightarrow>
                    ([Yield (Custom executing), CallTool (function_name call) tool_args],
                     msgs, Some e)
                | Inr observation \<Rightarrow>
                    (let tool_result_message =
                           create_tool_result_message (call_id call)
                             (str_of_observation observation) provider in
                     case create_llm_chunk PROGRESS
                            (''Tool '' @ function_name call @ '' execution complete.'')
                            provider of
                       Inl e \<Rightarrow>
                         ([Yield (Custom executing), CallTool (function_name call) tool_args,
                           Append tool_result_message],
                          msgs @ [tool_result_message], Some e)
                     | Inr complete \<Rightarrow>
                         (case process_tool_calls_loop loads m tm provider rest
                                 (msgs @ [tool_result_message]) of
                            (evs, msgs', r) \<Rightarrow>
                              ([Yield (Custom executing),
                                CallTool (function_name call) tool_args,
                                Append tool_result_message,
                                Yield (Custom complete)] @ evs,
                               msgs', r))))))"

text \<open>
  \<^verbatim>\<open>
  if not final_tool_calls:
      return
  (the loop)
  yield create_llm_chunk(MessageType.PROGRESS, "All tools executed successfully.", provider=provider)
  \<close>
\<close>

definition process_tool_calls ::
  "(string \<Rightarrow> py_error + json) \<Rightarrow> manager \<Rightarrow> tool_map \<Rightarrow> string \<Rightarrow> tool_calls \<Rightarrow> json list \<Rightarrow>
   'c event list \<times> json list \<times> py_error option" where
  "process_tool_calls loads m tm provider final_tool_calls msgs =
     (if final_tool_calls = [] then ([], msgs, None)
      else
        (case process_tool_calls_loop loads m tm provider (map snd final_tool_calls) msgs of
           (evs, msgs', Some e) \<Rightarrow> (evs, msgs', Some e)
         | (evs, msgs', None) \<Rightarrow>
             (case create_llm_chunk PROGRESS ''All tools executed successfully.'' provider of
                Inl e \<Rightarrow> (evs, msgs', Some e)
              | Inr done \<Rightarrow> (evs @ [Yield (Custom done)], msgs', None))))"

text \<open>How one pass of the body of \<^verbatim>\<open>for turn in range(self.max_turns)\<close> ends: it falls
  through to the next turn, it leaves the loop by \<^verbatim>\<open>break\<close>, or it raises.\<close>

datatype turn_end = NextTurn | Break | Raised py_error

text \<open>
  One pass of the loop of \<^verbatim>\<open>process_openai_stream_chat\<close>: the request with the tool
  list, the reassembly of the response, and then either the tool branch
  (\<^verbatim>\<open>if final_tool_calls:\<close>: the assistant message, \<^verbatim>\<open>process_tool_calls\<close>, the
  follow-up request without tool list, whose chunks are yielded and not inspected) or
  the \<^verbatim>\<open>else\<close> branch (the buffered content is appended when it is not empty, then
  \<^verbatim>\<open>break\<close>).
\<close>

definition openai_progress :: "string \<Rightarrow> openai_chunk event" where
  "openai_progress text = Yield (Custom (OpenAICompatibleChunk PROGRESS text))"

definition openai_turn ::
  "openai_chunk world \<Rightarrow> chat \<Rightarrow> nat \<Rightarrow> json list \<Rightarrow>
   openai_chunk event list \<times> json list \<times> turn_end" where
  "openai_turn w c turn msgs =
     (let analyzing =
            (if turn = 0
             then [openai_progress ''Analyzing your question and determining next steps...'']
             else []);
          completion_params = \<lparr>req_messages = msgs, req_tools = Some (chat_tools c)\<rparr> in
      case model_response w completion_params of
        Inl e \<Rightarrow> (analyzing @ [ModelCall completion_params], msgs, Raised e)
      | Inr stream_response \<Rightarrow>
          (case collect_openai stream_response ([], 0, []) of
             ((final_tool_calls, tool_index, content_buffer), outs) \<Rightarrow>
               if final_tool_calls \<noteq> [] then
                 (let assistant =
                        JObj [(''role'', JStr ''assistant''), (''content'', JNull),
                              (''tool_calls'', convert_to_openai_tool_format final_tool_calls)];
                      before =
                        analyzing @ [ModelCall completion_params] @ map Yield outs @
                        [openai_progress ''Using MCP tools to gather information...'',
                         Append assistant] in
                  case process_tool_calls (json_loads w) (chat_client_manager c)
                         (chat_tool_map c) ''openai'' final_tool_calls (msgs @ [assistant]) of
                    (evs, msgs', Some e) \<Rightarrow> (before @ evs, msgs', Raised e)
                  | (evs, msgs', None) \<Rightarrow>
                      (let follow_up_params = \<lparr>req_messages = msgs', req_tools = None\<rparr>;
                           gathered =
                             [openai_progress
                                ''Information gathered. Formulating complete response...'',
                              ModelCall follow_up_params] in
                       case model_response w follow_up_params of
                         Inl e \<Rightarrow> (before @ evs @ gathered, msgs', Raised e)
                       | Inr follow_up_response \<Rightarrow>
                           (before @ evs @ gathered @
                              map (\<lambda>chunk. Yield (Passthrough chunk)) follow_up_response,
                            msgs', NextTurn)))
               else if content_buffer \<noteq> [] then
                 (analyzing @ [ModelCall completion_params] @ map Yield outs @
                    [Append (JObj [(''role'', JStr ''assistant''),
                                   (''content'', JStr content_buffer)])],
                  msgs @ [JObj [(''role'', JStr ''assistant''),
                                (''content'', JStr content_buffer)]],
                  Break)
               else
                 (analyzing @ [ModelCall completion_params] @ map Yield outs, msgs, Break)))"

text \<open>
  One pass of the loop of \<^verbatim>\<open>process_anthropic_stream_chat\<close>. The assistant message is
  built by \<open>convert_to_anthropic_tool_format\<close>, which can raise before anything is
  appended.
\<close>

definition anthropic_progress :: "string \<Rightarrow> anthropic_chunk event" where
  "anthropic_progress text = Yield (Custom (AnthropicCompatibleChunk PROGRESS text))"

definition anthropic_turn ::
  "anthropic_chunk world \<Rightarrow> chat \<Rightarrow> nat \<Rightarrow> json list \<Rightarrow>
   anthropic_chunk event list \<times> json list \<times> turn_end" where
  "anthropic_turn w c turn msgs =
     (let analyzing =
            (if turn = 0
             then [anthropic_progress ''Analyzing your question and determining next steps...'']
             else []);
          completion_params = \<lparr>req_messages = msgs, req_tools = Some (chat_tools c)\<rparr> in
      case model_response w completion_params of
        Inl e \<Rightarrow> (analyzing @ [ModelCall completion_params], msgs, Raised e)
      | Inr stream_response \<Rightarrow>
          (case collect_anthropic stream_response ([], 0, None) of
             ((final_tool_calls, tool_index, current_tool_index), outs) \<Rightarrow>
               if final_tool_calls \<noteq> [] then
                 (case convert_to_anthropic_tool_format (json_loads w)
                         (map snd final_tool_calls) of
                    Inl e \<Rightarrow>
                      (analyzing @ [ModelCall completion_params] @ map Yield outs, msgs, Raised e)
                  | Inr blocks \<Rightarrow>
                      (let assistant =
                             JObj [(''role'', JStr ''assistant''), (''content'', JArr blocks)];
                           before =
                             analyzing @ [ModelCall completion_params] @ map Yield outs @
                             [Append assistant,
                              anthropic_progress ''Using MCP tools to gather information...''] in
                       case process_tool_calls (json_loads w) (chat_client_manager c)
                              (chat_tool_map c) ''anthropic'' final_tool_calls
                              (msgs @ [assistant]) of
                         (evs, msgs', Some e) \<Rightarrow> (before @ evs, msgs', Raised e)
                       | (evs, msgs', None) \<Rightarrow>
                           (let follow_up_params = \<lparr>req_messages = msgs', req_tools = None\<rparr>;
                                gathered =
                                  [anthropic_progress
                                     ''Information gathered. Formulating complete response...'',
                                   ModelCall follow_up_params] in
                            case model_response w follow_up_params of
                              Inl e \<Rightarrow> (before @ evs @ gathered, msgs', Raised e)
                            | Inr follow_up_response \<Rightarrow>
                                (before @ evs @ gathered @
                                   map (\<lambda>chunk. Yield (Passthrough chunk)) follow_up_response,
                                 msgs', NextTurn))))
               else (analyzing @ [ModelCall completion_params] @ map Yield outs, msgs, Break)))"

text \<open>
  \<^verbatim>\<open>for turn in range(self.max_turns)\<close>: the first argument of \<open>turns\<close> is the pass, the
  second the number of passes left, the third the number of the turn.
\<close>

fun turns ::
  "(nat \<Rightarrow> json list \<Rightarrow> 'c event list \<times> json list \<times> turn_end) \<Rightarrow> nat \<Rightarrow> nat \<Rightarrow> json list \<Rightarrow>
   'c event list \<times> json list \<times> py_error option" where
  "turns pass 0 turn msgs = ([], msgs, None)"
| "turns pass (Suc n) turn msgs =
     (case pass turn msgs of
        (evs, msgs', Break) \<Rightarrow> (evs, msgs', None)
      | (evs, msgs', Raised e) \<Rightarrow> (evs, msgs', Some e)
      | (evs, msgs', NextTurn) \<Rightarrow>
          (case turns pass n (Suc turn) msgs' of
             (evs', msgs'', r) \<Rightarrow> (evs @ evs', msgs'', r)))"

text \<open>
  \<^verbatim>\<open>setup_client\<close>: the manager is made with an empty stdio table and the servers of
  the processor, initialized and asked for its tools, and the tool list is formatted.
  \<^verbatim>\<open>self.chat_messages = self.messages[:]\<close>.
\<close>

definition setup_client ::
  "(endpoint \<Rightarrow> connect_outcome) \<Rightarrow> mcp_server list \<Rightarrow> json list \<Rightarrow> string \<Rightarrow> py_error + chat" where
  "setup_client conn servers messages provider =
     (case initialize conn (new_manager [] servers) of
        (Some e, m) \<Rightarrow> Inl e
      | (None, m) \<Rightarrow>
          (case list_tools (sessions m) of
             Inl e \<Rightarrow> Inl e
           | Inr (tm, tool_objects) \<Rightarrow>
               (case format_tools_object_for_llm_call tool_objects provider of
                  Inl e \<Rightarrow> Inl e
                | Inr (formatted, tool_objects') \<Rightarrow>
                    Inr \<lparr>chat_client_manager = m, chat_tool_map = tm,
                         chat_tools = formatted, chat_messages = messages\<rparr>)))"

text \<open>
  What the constructor keeps of its arguments. \<^verbatim>\<open>max_turns\<close> is a Python integer;
  \<^verbatim>\<open>range\<close> of a negative number is empty.
  \<^verbatim>\<open>self.mcp_servers = mcp_servers or BUILTIN_MCP_SERVERS\<close>.
\<close>

record mcp_chat =
  cfg_messages :: "json list"
  cfg_max_turns :: int
  cfg_mcp_servers :: "mcp_server list"

definition BUILTIN_MCP_SERVERS :: "mcp_server list" where
  "BUILTIN_MCP_SERVERS =
     [\<lparr>mcp_name = ''web_search'', sse_url = ''https://example.com/mcp/web_search''\<rparr>]"

definition servers_of :: "mcp_chat \<Rightarrow> mcp_server list" where
  "servers_of p = (if cfg_mcp_servers p = [] then BUILTIN_MCP_SERVERS else cfg_mcp_servers p)"

text \<open>
  \<^verbatim>\<open>
  try:
      yield create_llm_chunk(MessageType.PROGRESS, "Warming up the thinking engine...", ...)
      await self.setup_client()
      for turn in range(self.max_turns): ...
  except Exception as e:
      yield create_llm_chunk(MessageType.ERROR, f"Error: {str(e)}", provider='openai')
  \<close>
  \<open>openai_run\<close> is the loop with the \<^verbatim>\<open>except\<close> clause, for a processor that is set
  up; \<open>process_openai_stream_chat\<close> is the whole generator.
\<close>

definition openai_run :: "openai_chunk world \<Rightarrow> chat \<Rightarrow> int \<Rightarrow> openai_chunk event list" where
  "openai_run w c max_turns =
     (case turns (openai_turn w c) (nat max_turns) 0 (chat_messages c) of
        (evs, msgs, None) \<Rightarrow> evs
      | (evs, msgs, Some e) \<Rightarrow>
          evs @ [Yield (Custom (OpenAICompatibleChunk ERROR (''Error: '' @ str_of_error e)))])"

definition process_openai_stream_chat ::
  "openai_chunk world \<Rightarrow> mcp_chat \<Rightarrow> openai_chunk event list" where
  "process_openai_stream_chat w p =
     openai_progress ''Warming up the thinking engine...'' #
     (case setup_client (connector w) (servers_of p) (cfg_messages p) ''openai'' of
        Inl e \<Rightarrow> [Yield (Custom (OpenAICompatibleChunk ERROR (''Error: '' @ str_of_error e)))]
      | Inr c \<Rightarrow> openai_run w c (cfg_max_turns p))"

definition anthropic_run ::
  "anthropic_chunk world \<Rightarrow> chat \<Rightarrow> int \<Rightarrow> anthropic_chunk event list" where
  "anthropic_run w c max_turns =
     (case turns (anthropic_turn w c) (nat max_turns) 0 (chat_messages c) of
        (evs, msgs, None) \<Rightarrow> evs
      | (evs, msgs, Some e) \<Rightarrow>
          evs @ [Yield (Custom (AnthropicCompatibleChunk ERROR (''Error: '' @ str_of_error e)))])"

definition process_anthropic_stream_chat ::
  "anthropic_chunk world \<Rightarrow> mcp_chat \<Rightarrow> anthropic_chunk event list" where
  "process_anthropic_stream_chat w p =
     anthropic_progress ''Warming up the thinking engine...'' #
     (case setup_client (connector w) (servers_of p) (cfg_messages p) ''anthropic'' of
        Inl e \<Rightarrow> [Yield (Custom (AnthropicCompatibleChunk ERROR (''Error: '' @ str_of_error e)))]
      | Inr c \<Rightarrow> anthropic_run w c (cfg_max_turns p))"

text \<open>
  A sample run: one backend, A, which lists the tool \<open>search\<close>; a model that answers
  every request with one chunk asking for \<open>search\<close> with the arguments \<^verbatim>\<open>{}\<close>; and a
  parser that agrees with \<^verbatim>\<open>json.loads\<close> on the two texts the samples use: \<^verbatim>\<open>{}\<close> is the
  empty object, and \<^verbatim>\<open>{\<close> is malformed, with the message below.
\<close>

definition malformed_object :: py_error where
  "malformed_object =
     JSONDecodeError
       ''Expecting property name enclosed in double quotes: line 1 column 2 (char 1)''"

definition sample_loads :: "string \<Rightarrow> py_error + json" where
  "sample_loads text = (if text = ''{}'' then Inr (JObj []) else Inl malformed_object)"

definition always_search :: "openai_chunk world" where
  "always_search =
     \<lparr>json_loads = sample_loads, connector = only_a_connects,
      model_response = (\<lambda>r. Inr [name_delta ''search'' ''{}''])\<rparr>"

definition user_message :: json where
  "user_message = JObj [(''role'', JStr ''user''), (''content'', JStr ''hello'')]"

definition one_turn_chat :: mcp_chat where
  "one_turn_chat = \<lparr>cfg_messages = [user_message], cfg_max_turns = 1, cfg_mcp_servers = [server_a]\<rparr>"

text \<open>A processor that is set up for the backend A, and the Anthropic form of the
  sample model: a \<open>tool_use\<close> block for \<open>search\<close> with the arguments \<^verbatim>\<open>{}\<close>.\<close>

definition sample_chat :: chat where
  "sample_chat =
     \<lparr>chat_client_manager =
        \<lparr>stdio_server_map = [], sse_server_map = [server_a],
         sessions = [(''A'', session_a)],
         exit_stack = [SessionCtx ''A'', Transport ''A'']\<rparr>,
      chat_tool_map = [''search'' \<mapsto> ''A''],
      chat_tools = [],
      chat_messages = [user_message]\<rparr>"

definition tool_use_start :: "string \<Rightarrow> string \<Rightarrow> anthropic_chunk" where
  "tool_use_start i n =
     \<lparr>chunk_class = ''RawContentBlockStartEvent'',
      chunk_type = Some ''content_block_start'',
      chunk_content_block = Some \<lparr>block_type = ''tool_use'', block_id = i, block_name = n\<rparr>,
      content_block_absent = False,
      chunk_delta = None, delta_absent = True\<rparr>"

definition always_search_anthropic :: "anthropic_chunk world" where
  "always_search_anthropic =
     \<lparr>json_loads = sample_loads, connector = only_a_connects,
      model_response = (\<lambda>r. Inr [tool_use_start ''toolu_1'' ''search'', json_delta ''{}''])\<rparr>"

text \<open>The assistant message of the OpenAI pass, and the tool-result messages that report
  the observation \<^verbatim>\<open>None\<close>, in the two dialects.\<close>

definition assistant_tool_calls :: "tool_calls \<Rightarrow> json" where
  "assistant_tool_calls final_tool_calls =
     JObj [(''role'', JStr ''assistant''), (''content'', JNull),
           (''tool_calls'', convert_to_openai_tool_format final_tool_calls)]"

definition assistant_tool_use :: "json list \<Rightarrow> json" where
  "assistant_tool_use blocks = JObj [(''role'', JStr ''assistant''), (''content'', JArr blocks)]"

definition not_found_result :: "tool_call \<Rightarrow> json" where
  "not_found_result call =
     JObj [(''role'', JStr ''tool''), (''tool_call_id'', JStr (call_id call)),
           (''content'', JStr ''None'')]"

definition anthropic_not_found_result :: "tool_call \<Rightarrow> json" where
  "anthropic_not_found_result call =
     JObj [(''role'', JStr ''user''),
           (''content'',
              JArr [JObj [(''type'', JStr ''tool_result''),
                          (''tool_use_id'', JStr (call_id call)),
                          (''content'', JStr ''None'')]])]"

text \<open>An entry whose arguments \<^verbatim>\<open>json.loads\<close> parses and whose tool name is not a key of
  the routing table.\<close>

definition unknown_and_parsed :: "(string \<Rightarrow> py_error + json) \<Rightarrow> tool_map \<Rightarrow> tool_call \<Rightarrow> bool" where
  "unknown_and_parsed loads tm call =
     (\<not> isl (loads (function_arguments call)) \<and> tm (function_name call) = None)"

text \<open>A response that asks for two tool calls in one chunk: the arguments of the first
  are the malformed text \<^verbatim>\<open>{\<close>, those of the second are \<^verbatim>\<open>{}\<close>; and the entries the
  reassembly makes of them.\<close>

definition malformed_then_good :: openai_chunk where
  "malformed_then_good =
     \<lparr>choices = [\<lparr>delta_tool_calls =
                    Some [\<lparr>tc_class = ''ChoiceDeltaToolCall'', tc_index = 0,
                           tc_id = Some ''call_a'', tc_id_absent = False,
                           tc_function = Some \<lparr>fn_name = Some ''search'', fn_arguments = Some ''{''\<rparr>\<rparr>,
                          \<lparr>tc_class = ''ChoiceDeltaToolCall'', tc_index = 1,
                           tc_id = Some ''call_b'', tc_id_absent = False,
                           tc_function = Some \<lparr>fn_name = Some ''search'', fn_arguments = Some ''{}''\<rparr>\<rparr>],
                  delta_content = None\<rparr>]\<rparr>"

definition malformed_entry :: tool_call where
  "malformed_entry =
     \<lparr>call_id = ''call_a'', call_type = ''function'', function_name = ''search'',
      function_arguments = ''{''\<rparr>"

definition good_entry :: tool_call where
  "good_entry =
     \<lparr>call_id = ''call_b'', call_type = ''function'', function_name = ''search'',
      function_arguments = ''{}''\<rparr>"

definition malformed_first :: "openai_chunk world" where
  "malformed_first =
     \<lparr>json_loads = sample_loads, connector = only_a_connects,
      model_response = (\<lambda>r. Inr [malformed_then_good])\<rparr>"

text \<open>Sample models that ask for the tool \<open>lookup\<close>, which no backend lists.\<close>

definition lookup_entry :: "string \<Rightarrow> tool_call" where
  "lookup_entry i =
     \<lparr>call_id = i, call_type = ''function'', function_name = ''lookup'',
      function_arguments = ''{}''\<rparr>"

definition asks_lookup :: "openai_chunk world" where
  "asks_lookup =
     \<lparr>json_loads = sample_loads, connector = only_a_connects,
      model_response = (\<lambda>r. Inr [name_delta ''lookup'' ''{}''])\<rparr>"

definition asks_lookup_anthropic :: "anthropic_chunk world" where
  "asks_lookup_anthropic =
     \<lparr>json_loads = sample_loads, connector = only_a_connects,
      model_response = (\<lambda>r. Inr [tool_use_start ''toolu_1'' ''lookup'', json_delta ''{}''])\<rparr>"

section \<open>The registry after \<open>initialize\<close>, in the specification's terms\<close>













section \<open>The passes of a run\<close>

text \<open>
  What a run did, pass by pass. A pass is recorded with the number of its turn, the
  messages before and after it, what it did and how it ended. \<open>passes\<close> follows the
  loop of \<open>turns\<close> and lists the passes that it makes; \<open>raised\<close> and \<open>raised_error\<close>
  read the end of a pass; \<open>run_error\<close> is the exception that leaves the loop, which is
  that of the last pass.
\<close>

record 'c pass =
  p_turn :: nat
  p_before :: "json list"
  p_events :: "'c event list"
  p_after :: "json list"
  p_end :: turn_end

fun passes ::
  "(nat \<Rightarrow> json list \<Rightarrow> 'c event list \<times> json list \<times> turn_end) \<Rightarrow> nat \<Rightarrow> nat \<Rightarrow> json list \<Rightarrow>
   'c pass list" where
  "passes pass 0 turn msgs = []"
| "passes pass (Suc n) turn msgs =
     (case pass turn msgs of
        (evs, msgs', r) \<Rightarrow>
          \<lparr>p_turn = turn, p_before = msgs, p_events = evs, p_after = msgs', p_end = r\<rparr> #
          (case r of NextTurn \<Rightarrow> passes pass n (Suc turn) msgs' | _ \<Rightarrow> []))"

fun raised :: "turn_end \<Rightarrow> bool" where
  "raised (Raised e) = True"
| "raised r = False"

fun raised_error :: "turn_end \<Rightarrow> py_error option" where
  "raised_error (Raised e) = Some e"
| "raised_error r = None"

definition run_error :: "'c pass list \<Rightarrow> py_error option" where
  "run_error ps = (if ps = [] then None else raised_error (p_end (last ps)))"

text \<open>
  What serving one accumulated tool call comes to when nothing raises: the invocation,
  with the parsed arguments, and the tool-result message that is appended for it. It is
  \<open>None\<close> when \<^verbatim>\<open>json.loads\<close> or \<^verbatim>\<open>call_tool\<close> raises.
\<close>

definition served ::
  "(string \<Rightarrow> py_error + json) \<Rightarrow> manager \<Rightarrow> tool_map \<Rightarrow> string \<Rightarrow> tool_call \<Rightarrow>
   ((string \<times> json) \<times> json) option" where
  "served loads m tm provider call =
     (case loads (function_arguments call) of
        Inl e \<Rightarrow> None
      | Inr tool_args \<Rightarrow>
          (case call_tool m (function_name call) tool_args tm of
             Inl e \<Rightarrow> None
           | Inr observation \<Rightarrow>
               Some ((function_name call, tool_args),
                     create_tool_result_message (call_id call)
                       (str_of_observation observation) provider)))"

text \<open>
  The parts of what a pass does: the progress chunk that only the first turn yields; the
  request with the forwarded response; the follow-up request with its forwarded
  response.
\<close>

definition openai_analyzing :: "nat \<Rightarrow> openai_chunk event list" where
  "openai_analyzing turn =
     (if turn = 0 then [openai_progress ''Analyzing your question and determining next steps...'']
      else [])"

definition anthropic_analyzing :: "nat \<Rightarrow> anthropic_chunk event list" where
  "anthropic_analyzing turn =
     (if turn = 0
      then [anthropic_progress ''Analyzing your question and determining next steps...'']
      else [])"

definition request_part ::
  "'c event list \<Rightarrow> request \<Rightarrow> 'c emitted list \<Rightarrow> 'c event list" where
  "request_part analyzing request outs = analyzing @ [ModelCall request] @ map Yield outs"

definition follow_up_part :: "'c event \<Rightarrow> request \<Rightarrow> 'c list \<Rightarrow> 'c event list" where
  "follow_up_part gathered request chunks =
     [gathered, ModelCall request] @ map (\<lambda>chunk. Yield (Passthrough chunk)) chunks"

text \<open>
  Samples: the entries that the reassembly makes of the responses of the sample models,
  the tool-result messages for the answer of the backend A, the \<open>tool_use\<close> block of the
  Anthropic assistant message, and the second pass of the sample run of two turns, in
  each dialect.
\<close>

definition search_call :: tool_call where
  "search_call =
     \<lparr>call_id = ''call_0'', call_type = ''function'', function_name = ''search'',
      function_arguments = ''{}''\<rparr>"

definition search_call_anthropic :: tool_call where
  "search_call_anthropic =
     \<lparr>call_id = ''toolu_1'', call_type = ''function'', function_name = ''search'',
      function_arguments = ''{}''\<rparr>"

definition answer_message :: json where
  "answer_message =
     JObj [(''role'', JStr ''tool''), (''tool_call_id'', JStr ''call_0''),
           (''content'', JStr ''answer of A'')]"

definition answer_message_anthropic :: json where
  "answer_message_anthropic =
     JObj [(''role'', JStr ''user''),
           (''content'',
              JArr [JObj [(''type'', JStr ''tool_result''),
                          (''tool_use_id'', JStr ''toolu_1''),
                          (''content'', JStr ''answer of A'')]])]"

definition search_block :: json where
  "search_block =
     JObj [(''type'', JStr ''tool_use''), (''id'', JStr ''toolu_1''),
           (''name'', JStr ''search''), (''input'', JObj [])]"

definition second_pass :: "openai_chunk pass" where
  "second_pass =
     passes (openai_turn always_search sample_chat) (nat 2) 0 (chat_messages sample_chat) ! 1"

definition second_pass_anthropic :: "anthropic_chunk pass" where
  "second_pass_anthropic =
     passes (anthropic_turn always_search_anthropic sample_chat) (nat 2) 0
       (chat_messages sample_chat) ! 1"

text \<open>A processor that is set up for one backend whose tool \<open>search\<close> answers the
  text \<^verbatim>\<open>None\<close>.\<close>

definition session_none :: session where
  "session_none = \<lparr>list_tools_response = Inr [search_tool ''search of A''],
                    call_tool_response = (\<lambda>n args. Inr [TextContent ''None''])\<rparr>"

definition none_chat :: chat where
  "none_chat =
     \<lparr>chat_client_manager =
        \<lparr>stdio_server_map = [], sse_server_map = [server_a],
         sessions = [(''A'', session_none)],
         exit_stack = [SessionCtx ''A'', Transport ''A'']\<rparr>,
      chat_tool_map = [''search'' \<mapsto> ''A''],
      chat_tools = [],
      chat_messages = [user_message]\<rparr>"

text \<open>
  Sample models that ask for \<open>search\<close> in the response to the first request and, in
  every later response, for two tool calls: the arguments of the first are \<^verbatim>\<open>{}\<close>,
  those of the second are the malformed text \<^verbatim>\<open>{\<close>. With them, the tool-result message
  for the first of the two calls, what the tool loop does for it, and the second pass of
  the run of two turns, in each dialect.
\<close>

definition good_then_malformed :: openai_chunk where
  "good_then_malformed =
     \<lparr>choices = [\<lparr>delta_tool_calls =
                    Some [\<lparr>tc_class = ''ChoiceDeltaToolCall'', tc_index = 0,
                           tc_id = Some ''call_b'', tc_id_absent = False,
                           tc_function = Some \<lparr>fn_name = Some ''search'', fn_arguments = Some ''{}''\<rparr>\<rparr>,
                          \<lparr>tc_class = ''ChoiceDeltaToolCall'', tc_index = 1,
                           tc_id = Some ''call_a'', tc_id_absent = False,
                           tc_function = Some \<lparr>fn_name = Some ''search'', fn_arguments = Some ''{''\<rparr>\<rparr>],
                  delta_content = None\<rparr>]\<rparr>"

definition good_then_malformed_anthropic :: "anthropic_chunk list" where
  "good_then_malformed_anthropic =
     [tool_use_start ''call_b'' ''search'', json_delta ''{}'',
      tool_use_start ''call_a'' ''search'', json_delta ''{'']"

definition search_then_malformed :: "openai_chunk world" where
  "search_then_malformed =
     \<lparr>json_loads = sample_loads, connector = only_a_connects,
      model_response =
        (\<lambda>r. if req_messages r = [user_message] then Inr [name_delta ''search'' ''{}'']
              else Inr [good_then_malformed])\<rparr>"

definition search_then_malformed_anthropic :: "anthropic_chunk world" where
  "search_then_malformed_anthropic =
     \<lparr>json_loads = sample_loads, connector = only_a_connects,
      model_response =
        (\<lambda>r. if req_messages r = [user_message]
              then Inr [tool_use_start ''toolu_1'' ''search'', json_delta ''{}'']
              else Inr good_then_malformed_anthropic)\<rparr>"

definition good_answer :: json where
  "good_answer =
     JObj [(''role'', JStr ''tool''), (''tool_call_id'', JStr ''call_b''),
           (''content'', JStr ''answer of A'')]"

definition good_entry_events :: "openai_chunk event list" where
  "good_entry_events =
     [Yield (Custom (OpenAICompatibleChunk PROGRESS ''Executing tool: search...'')),
      CallTool ''search'' (JObj []),
      Append good_answer,
      Yield (Custom (OpenAICompatibleChunk PROGRESS ''Tool search execution complete.''))]"

definition failing_pass :: "openai_chunk pass" where
  "failing_pass =
     passes (openai_turn search_then_malformed sample_chat) (nat 2) 0
       (chat_messages sample_chat) ! 1"

definition failing_pass_anthropic :: "anthropic_chunk pass" where
  "failing_pass_anthropic =
     passes (anthropic_turn search_then_malformed_anthropic sample_chat) (nat 2) 0
       (chat_messages sample_chat) ! 1"

section \<open>Properties of \<open>list_tools\<close>\<close>

lemma add_tools_map:
  "fst (add_tools sn ts (m, c)) n =
     (case m n of Some owner \<Rightarrow> Some owner
      | None \<Rightarrow> if n \<in> set (map name ts) then Some sn else None)"
proof (induction ts arbitrary: m c)
  case Nil
  then show ?case by (simp split: option.splits)
next
  case (Cons t ts)
  show ?case
  proof (cases "m (name t)")
    case None
    have "fst (add_tools sn (t # ts) (m, c)) n =
          fst (add_tools sn ts (m(name t \<mapsto> sn), c @ [t])) n"
      using None by simp
    also have "\<dots> = (case (m(name t \<mapsto> sn)) n of Some owner \<Rightarrow> Some owner
                      | None \<Rightarrow> if n \<in> set (map name ts) then Some sn else None)"
      by (rule Cons.IH)
    also have "\<dots> = (case m n of Some owner \<Rightarrow> Some owner
                      | None \<Rightarrow> if n \<in> set (map name (t # ts)) then Some sn else None)"
      using None by (cases "n = name t") (simp_all split: option.splits)
    finally show ?thesis .
  next
    case (Some owner)
    have "fst (add_tools sn (t # ts) (m, c)) n = fst (add_tools sn ts (m, c)) n"
      using Some by simp
    also have "\<dots> = (case m n of Some owner \<Rightarrow> Some owner
                      | None \<Rightarrow> if n \<in> set (map name ts) then Some sn else None)"
      by (rule Cons.IH)
    also have "\<dots> = (case m n of Some owner \<Rightarrow> Some owner
                      | None \<Rightarrow> if n \<in> set (map name (t # ts)) then Some sn else None)"
      using Some by (cases "n = name t") (simp_all split: option.splits)
    finally show ?thesis .
  qed
qed

lemma add_tools_names:
  "distinct (map name c) \<Longrightarrow> set (map name c) = dom m \<Longrightarrow>
   add_tools sn ts (m, c) = (m', c') \<Longrightarrow>
   distinct (map name c') \<and> set (map name c') = dom m'"
proof (induction ts arbitrary: m c)
  case Nil
  then show ?case by simp
next
  case (Cons t ts)
  show ?case
  proof (cases "m (name t)")
    case None
    have d: "distinct (map name (c @ [t]))"
      using Cons.prems(1,2) None by (auto simp: domIff)
    have s: "set (map name (c @ [t])) = dom (m(name t \<mapsto> sn))"
      using Cons.prems(2) by auto
    from Cons.prems(3) None
    have "add_tools sn ts (m(name t \<mapsto> sn), c @ [t]) = (m', c')" by simp
    from Cons.IH [OF d s this] show ?thesis .
  next
    case (Some owner)
    with Cons.prems(3) have "add_tools sn ts (m, c) = (m', c')" by simp
    from Cons.IH [OF Cons.prems(1,2) this] show ?thesis .
  qed
qed

lemma list_tools_loop_map:
  "list_tools_loop ss (m, c) = Inr (m', c') \<Longrightarrow>
   m' n = (case m n of Some owner \<Rightarrow> Some owner | None \<Rightarrow> earliest_owner ss n)"
proof (induction ss arbitrary: m c)
  case Nil
  then show ?case by (simp split: option.splits)
next
  case (Cons p ss)
  obtain sn s where p: "p = (sn, s)" by (cases p)
  from Cons.prems p obtain tools where
    l: "list_tools_response s = Inr tools" and
    r: "list_tools_loop ss (add_tools sn tools (m, c)) = Inr (m', c')"
    by (auto split: sum.splits)
  obtain m1 c1 where a: "add_tools sn tools (m, c) = (m1, c1)"
    by (cases "add_tools sn tools (m, c)")
  have m1: "m1 n = (case m n of Some owner \<Rightarrow> Some owner
                    | None \<Rightarrow> if n \<in> set (map name tools) then Some sn else None)"
    using add_tools_map [of sn tools m c n] a by simp
  from Cons.IH [of m1 c1] r a
  have "m' n = (case m1 n of Some owner \<Rightarrow> Some owner | None \<Rightarrow> earliest_owner ss n)"
    by simp
  with m1 l p show ?case by (auto split: option.splits)
qed

lemma list_tools_loop_names:
  "distinct (map name c) \<Longrightarrow> set (map name c) = dom m \<Longrightarrow>
   list_tools_loop ss (m, c) = Inr (m', c') \<Longrightarrow>
   distinct (map name c') \<and> set (map name c') = dom m'"
proof (induction ss arbitrary: m c)
  case Nil
  then show ?case by simp
next
  case (Cons p ss)
  obtain sn s where p: "p = (sn, s)" by (cases p)
  from Cons.prems(3) p obtain tools where
    r: "list_tools_loop ss (add_tools sn tools (m, c)) = Inr (m', c')"
    by (auto split: sum.splits)
  obtain m1 c1 where a: "add_tools sn tools (m, c) = (m1, c1)"
    by (cases "add_tools sn tools (m, c)")
  from add_tools_names [OF Cons.prems(1,2) a]
  have "distinct (map name c1)" and "set (map name c1) = dom m1" by simp_all
  from Cons.IH [OF this] r a show ?case by simp
qed

lemma list_tools_loop_answers:
  "all_listings_answer ss \<Longrightarrow> \<exists>r. list_tools_loop ss acc = Inr r"
proof (induction ss arbitrary: acc)
  case Nil
  then show ?case by simp
next
  case (Cons p ss)
  obtain sn s where p: "p = (sn, s)" by (cases p)
  with Cons show ?case by (auto split: sum.splits)
qed

text \<open>
  C5. Overlapping tool names never make \<open>list_tools\<close> fail: when every session
  answers its listing, a routing table is returned. In the returned routing table a tool
  name is mapped to one session, the earliest session in iteration order whose listing
  has that name; and a tool whose name is already registered is skipped by the inner
  loop, which leaves the table and the tool list as they were.
\<close>

theorem list_tools_first_registration_wins:
  "(all_listings_answer ss \<longrightarrow> (\<exists>r. list_tools ss = Inr r)) \<and>
   (list_tools ss = Inr (tm, ts) \<longrightarrow> tm n = earliest_owner ss n) \<and>
   (m (name t) \<noteq> None \<longrightarrow> add_tools sn [t] (m, c) = (m, c))"
proof (intro conjI impI)
  assume "all_listings_answer ss"
  then show "\<exists>r. list_tools ss = Inr r"
    unfolding list_tools_def by (rule list_tools_loop_answers)
next
  assume "list_tools ss = Inr (tm, ts)"
  then have "list_tools_loop ss (Map.empty, []) = Inr (tm, ts)"
    by (simp add: list_tools_def)
  from list_tools_loop_map [OF this, of n] show "tm n = earliest_owner ss n"
    by simp
next
  assume "m (name t) \<noteq> None"
  then show "add_tools sn [t] (m, c) = (m, c)" by simp
qed

theorem list_tools_first_registration_wins_witness:
  "all_listings_answer two_sessions \<and>
   list_tools two_sessions =
     Inr ([''search'' \<mapsto> ''A'', ''fetch'' \<mapsto> ''B''],
          [search_tool ''search of A'', fetch_tool]) \<and>
   [''search'' \<mapsto> ''A'', ''fetch'' \<mapsto> ''B''] ''search'' = earliest_owner two_sessions ''search'' \<and>
   earliest_owner two_sessions ''search'' = Some ''A'' \<and>
   [''search'' \<mapsto> ''A''] (name (search_tool ''search of B'')) \<noteq> None \<and>
   add_tools ''B'' [search_tool ''search of B'']
     ([''search'' \<mapsto> ''A''], [search_tool ''search of A'']) =
     ([''search'' \<mapsto> ''A''], [search_tool ''search of A''])"
proof -
  have a: "all_listings_answer two_sessions"
    by (simp add: two_sessions_def session_a_def session_b_def)
  have l: "list_tools two_sessions =
     Inr ([''search'' \<mapsto> ''A'', ''fetch'' \<mapsto> ''B''],
          [search_tool ''search of A'', fetch_tool])"
    by (simp add: list_tools_def two_sessions_def session_a_def session_b_def
        search_tool_def fetch_tool_def)
  have e: "earliest_owner two_sessions ''search'' = Some ''A''"
    by (simp add: two_sessions_def session_a_def session_b_def search_tool_def)
  have n: "[''search'' \<mapsto> ''A''] (name (search_tool ''search of B'')) \<noteq> None"
    by (simp add: search_tool_def)
  from list_tools_first_registration_wins
    [of two_sessions "[''search'' \<mapsto> ''A'', ''fetch'' \<mapsto> ''B'']"
        "[search_tool ''search of A'', fetch_tool]" "''search''"
        "[''search'' \<mapsto> ''A'']" "search_tool ''search of B''" "''B''"
        "[search_tool ''search of A'']"]
  show ?thesis using a l e n by simp
qed

text \<open>
  C10. The pair returned by \<open>list_tools\<close> is consistent: the names of the returned
  tools are pairwise different, and they are exactly the keys of the returned routing
  table.
\<close>

theorem list_tools_names_are_routing_keys:
  "list_tools ss = Inr (tm, ts) \<Longrightarrow>
   distinct (map name ts) \<and> set (map name ts) = dom tm"
proof -
  assume "list_tools ss = Inr (tm, ts)"
  then have "list_tools_loop ss (Map.empty, []) = Inr (tm, ts)"
    by (simp add: list_tools_def)
  from list_tools_loop_names [OF _ _ this] show ?thesis by simp
qed

theorem list_tools_names_are_routing_keys_witness:
  "list_tools two_sessions =
     Inr ([''search'' \<mapsto> ''A'', ''fetch'' \<mapsto> ''B''],
          [search_tool ''search of A'', fetch_tool]) \<and>
   distinct (map name [search_tool ''search of A'', fetch_tool]) \<and>
   set (map name [search_tool ''search of A'', fetch_tool]) =
     dom [''search'' \<mapsto> ''A'', ''fetch'' \<mapsto> ''B'']"
proof -
  have l: "list_tools two_sessions =
     Inr ([''search'' \<mapsto> ''A'', ''fetch'' \<mapsto> ''B''],
          [search_tool ''search of A'', fetch_tool])"
    by (simp add: list_tools_def two_sessions_def session_a_def session_b_def
        search_tool_def fetch_tool_def)
  from list_tools_names_are_routing_keys [OF l] l show ?thesis by simp
qed

section \<open>Properties of the schema normalizer\<close>

lemma append_missing_fixed:
  "\<forall>k \<in> set keys. JStr k \<in> set required \<Longrightarrow> append_missing keys required = required"
  by (induction keys arbitrary: required) auto

lemma append_missing_keeps: "x \<in> set required \<Longrightarrow> x \<in> set (append_missing keys required)"
  by (induction keys arbitrary: required) simp_all

lemma append_missing_has_keys: "k \<in> set keys \<Longrightarrow> JStr k \<in> set (append_missing keys required)"
proof (induction keys arbitrary: required)
  case Nil
  then show ?case by simp
next
  case (Cons key keys)
  show ?case
  proof (cases "k = key")
    case True
    show ?thesis using True by (simp add: append_missing_keeps)
  next
    case False
    with Cons show ?thesis by auto
  qed
qed

lemma filter_property_idem:
  assumes "flat_type_list v" and "filter_property v = Inr v'"
  shows "filter_property v' = Inr v'"
proof (cases v)
  case (JObj d)
  define d1 where "d1 = AList.delete ''default'' d"
  have nd: "''default'' \<notin> fst ` set d1" unfolding d1_def by (rule delete_notin_dom)
  have ty: "map_of d1 ''type'' = map_of d ''type''" unfolding d1_def by simp
  have plain: "filter_property (JObj d1) = Inr (JObj d1)" if "\<And>ts. map_of d1 ''type'' \<noteq> Some (JArr ts)"
    using that nd by (auto simp: filter_property_def split: option.splits json.splits)
  show ?thesis
  proof (cases "map_of d1 ''type''")
    case None
    then have "v' = JObj d1" using assms(2) JObj by (simp add: filter_property_def d1_def)
    with plain None show ?thesis by simp
  next
    case (Some ty0)
    show ?thesis
    proof (cases ty0)
      case (JArr types)
      have flat: "list_all (\<lambda>t. \<not> is_JArr t) types"
        using assms(1) JObj Some JArr ty by (simp add: flat_type_list_def)
      show ?thesis
      proof (cases "JStr ''null'' \<in> set types")
        case True
        show ?thesis
        proof (cases "filter (\<lambda>t. t \<noteq> JStr ''null'') types")
          case Nil
          then have v': "v' = JObj d1"
            using assms(2) JObj Some JArr True by (simp add: filter_property_def d1_def)
          have "filter_property (JObj d1) = Inr (JObj d1)"
            using nd Some JArr True Nil by (simp add: filter_property_def)
          with v' show ?thesis by simp
        next
          case (Cons t other)
          define d2 where "d2 = AList.update ''nullable'' (JBool True) (AList.update ''type'' t d1)"
          have v': "v' = JObj d2"
            using assms(2) JObj Some JArr True Cons by (simp add: filter_property_def d1_def d2_def)
          have "t \<in> set types" using Cons by (metis filter_is_subset list.set_intros(1) subsetD)
          then have nt: "\<not> is_JArr t" using flat by (simp add: list_all_iff)
          have nd2: "''default'' \<notin> fst ` set d2" unfolding d2_def using nd by (simp add: dom_update)
          have t2: "map_of d2 ''type'' = Some t" unfolding d2_def by (simp add: update_conv')
          have "filter_property (JObj d2) = Inr (JObj d2)"
            using nd2 t2 nt by (cases t) (simp_all add: filter_property_def)
          with v' show ?thesis by simp
        qed
      next
        case False
        show ?thesis
        proof (cases types)
          case Nil
          then show ?thesis using assms(2) JObj Some JArr False by (simp add: filter_property_def d1_def)
        next
          case (Cons t other)
          define d2 where "d2 = AList.update ''type'' t d1"
          have v': "v' = JObj d2"
            using assms(2) JObj Some JArr False Cons by (simp add: filter_property_def d1_def d2_def)
          have nt: "\<not> is_JArr t" using flat Cons by simp
          have nd2: "''default'' \<notin> fst ` set d2" unfolding d2_def using nd by (simp add: dom_update)
          have t2: "map_of d2 ''type'' = Some t" unfolding d2_def by (simp add: update_conv')
          have "filter_property (JObj d2) = Inr (JObj d2)"
            using nd2 t2 nt by (cases t) (simp_all add: filter_property_def)
          with v' show ?thesis by simp
        qed
      qed
    qed (use assms(2) JObj Some plain in \<open>auto simp: filter_property_def d1_def\<close>)
  qed
next
  case (JStr s)
  with assms(2) have "v' = v" by (simp add: filter_property_def split: if_splits)
  with assms(2) show ?thesis by simp
next
  case (JArr xs)
  with assms(2) have "v' = v" by (simp add: filter_property_def split: if_splits)
  with assms(2) show ?thesis by simp
qed (use assms(2) in \<open>simp_all add: filter_property_def\<close>)

lemma filter_properties_keys:
  "filter_properties props = Inr props' \<Longrightarrow> map fst props' = map fst props"
proof (induction props arbitrary: props')
  case Nil
  then show ?case by simp
next
  case (Cons p props)
  obtain key v where p: "p = (key, v)" by (cases p)
  from Cons.prems p obtain v' rest' where
    "filter_properties props = Inr rest'" and "props' = (key, v') # rest'"
    by (auto split: sum.splits)
  with Cons.IH p show ?case by simp
qed

lemma filter_properties_idem:
  "list_all (\<lambda>p. flat_type_list (snd p)) props \<Longrightarrow> filter_properties props = Inr props' \<Longrightarrow>
   filter_properties props' = Inr props'"
proof (induction props arbitrary: props')
  case Nil
  then show ?case by simp
next
  case (Cons p props)
  obtain key v where p: "p = (key, v)" by (cases p)
  from Cons.prems(2) p obtain v' rest' where
    v: "filter_property v = Inr v'" and
    r: "filter_properties props = Inr rest'" and
    e: "props' = (key, v') # rest'"
    by (auto split: sum.splits)
  from Cons.prems(1) p have "flat_type_list v" by simp
  from filter_property_idem [OF this v] have v2: "filter_property v' = Inr v'" .
  from Cons.prems(1) have "list_all (\<lambda>p. flat_type_list (snd p)) props" by simp
  from Cons.IH [OF this r] have "filter_properties rest' = Inr rest'" .
  with v2 e show ?case by simp
qed

lemma filter_mcp_input_schema_shape:
  assumes p: "map_of s ''properties'' = Some (JObj props)"
    and r: "filter_mcp_input_schema s = Inr s'"
  shows "\<exists>props' required.
           filter_properties props = Inr props' \<and>
           map_of s' ''properties'' = Some (JObj props') \<and>
           map_of s' ''required'' = Some (JArr required) \<and>
           (\<forall>k \<in> set (map fst props). JStr k \<in> set required) \<and>
           map_of s' ''additionalProperties'' \<noteq> None"
proof -
  from p r obtain props' where fp: "filter_properties props = Inr props'"
    by (auto simp: filter_mcp_input_schema_def Let_def split: sum.splits)
  define required where "required =
    (case map_of s ''required'' of
       Some (JArr req) \<Rightarrow> append_missing (map fst props) req
     | _ \<Rightarrow> map JStr (map fst props))"
  define d1 where "d1 = AList.update ''required'' (JArr required) s"
  define d2 where "d2 = AList.update ''properties'' (JObj props') d1"
  have d1: "(case map_of s ''required'' of
               Some (JArr req) \<Rightarrow>
                 AList.update ''required'' (JArr (append_missing (map fst props) req)) s
             | _ \<Rightarrow> AList.update ''required'' (JArr (map JStr (map fst props))) s) = d1"
    unfolding d1_def required_def by (simp split: option.splits json.splits)
  have s': "s' = (if map_of d2 ''additionalProperties'' = None
                  then AList.update ''additionalProperties'' (JBool False) d2 else d2)"
  proof -
    have "filter_mcp_input_schema s =
            Inr (if map_of d2 ''additionalProperties'' = None
                 then AList.update ''additionalProperties'' (JBool False) d2 else d2)"
      by (simp only: filter_mcp_input_schema_def Let_def p option.case json.case fp sum.case
          d1 d2_def [symmetric])
    with r show ?thesis by simp
  qed
  have keys: "\<forall>k \<in> set (map fst props). JStr k \<in> set required"
    unfolding required_def
    by (auto simp: append_missing_has_keys split: option.splits json.splits)
  have "map_of d2 ''properties'' = Some (JObj props')"
    unfolding d2_def by (simp add: update_conv')
  moreover have "map_of d2 ''required'' = Some (JArr required)"
    unfolding d2_def d1_def by (simp add: update_conv')
  ultimately have "map_of s' ''properties'' = Some (JObj props')"
    and "map_of s' ''required'' = Some (JArr required)"
    and "map_of s' ''additionalProperties'' \<noteq> None"
    unfolding s' by (simp_all add: update_conv')
  with fp keys show ?thesis by blast
qed

text \<open>
  C8 (amended). The normalizer is a function, hence deterministic. Whenever it returns
  on a schema with flat type lists, normalizing the result again returns the result
  unchanged.
\<close>

theorem filter_mcp_input_schema_idempotent:
  assumes flat: "flat_type_lists s" and r: "filter_mcp_input_schema s = Inr s'"
  shows "filter_mcp_input_schema s' = Inr s'"
proof (cases "map_of s ''properties''")
  case None
  with r have "s' = s" by (simp add: filter_mcp_input_schema_def)
  with r show ?thesis by simp
next
  case (Some pv)
  show ?thesis
  proof (cases pv)
    case (JObj props)
    with Some have p: "map_of s ''properties'' = Some (JObj props)" by simp
    from filter_mcp_input_schema_shape [OF p r] obtain props' required where
      fp: "filter_properties props = Inr props'" and
      sp: "map_of s' ''properties'' = Some (JObj props')" and
      sr: "map_of s' ''required'' = Some (JArr required)" and
      keys: "\<forall>k \<in> set (map fst props). JStr k \<in> set required" and
      sa: "map_of s' ''additionalProperties'' \<noteq> None"
      by blast
    from flat p have "list_all (\<lambda>p. flat_type_list (snd p)) props"
      by (simp add: flat_type_lists_def)
    from filter_properties_idem [OF this fp] have fp2: "filter_properties props' = Inr props'" .
    from filter_properties_keys [OF fp] keys
    have "append_missing (map fst props') required = required"
      by (simp add: append_missing_fixed)
    then have u1: "AList.update ''required'' (JArr (append_missing (map fst props') required)) s' = s'"
      using sr by (simp add: update_triv)
    have u2: "AList.update ''properties'' (JObj props') s' = s'"
      using sp by (simp add: update_triv)
    from sa obtain av where "map_of s' ''additionalProperties'' = Some av" by blast
    then show ?thesis
      using sp sr fp2 u1 u2 by (simp add: filter_mcp_input_schema_def)
  qed (use r Some in \<open>simp_all add: filter_mcp_input_schema_def\<close>)
qed

theorem filter_mcp_input_schema_idempotent_witness:
  "flat_type_lists city_schema \<and>
   filter_mcp_input_schema city_schema = Inr city_schema_normalized \<and>
   filter_mcp_input_schema city_schema_normalized = Inr city_schema_normalized"
proof -
  have f: "flat_type_lists city_schema"
    by (simp add: flat_type_lists_def city_schema_def flat_type_list_def)
  have r: "filter_mcp_input_schema city_schema = Inr city_schema_normalized"
    by (simp add: filter_mcp_input_schema_def city_schema_def filter_property_def
        city_schema_normalized_def)
  from filter_mcp_input_schema_idempotent [OF f r] f r show ?thesis by simp
qed

text \<open>
  C8 as stated fails: a property whose type list holds a list is rewritten by the first
  pass to that inner list, and by the second pass to the inner list's first non-null
  entry.
\<close>

theorem filter_mcp_input_schema_not_idempotent:
  "filter_mcp_input_schema nested_schema = Inr nested_schema_once \<and>
   filter_mcp_input_schema nested_schema_once = Inr nested_schema_twice \<and>
   nested_schema_twice \<noteq> nested_schema_once"
  by (simp add: filter_mcp_input_schema_def nested_schema_def nested_schema_once_def
      nested_schema_twice_def filter_property_def)

section \<open>Properties of the tool formatting\<close>

lemma format_openai_tools_effect:
  "format_openai_tools ts = Inr (formatted, ts') \<Longrightarrow>
   map (\<lambda>t. filter_mcp_input_schema (inputSchema t)) ts = map (\<lambda>t. Inr (inputSchema t)) ts' \<and>
   map parameters_of formatted = map (\<lambda>t. Some (JObj (inputSchema t))) ts'"
proof (induction ts arbitrary: formatted ts')
  case Nil
  then show ?case by simp
next
  case (Cons t ts)
  from Cons.prems obtain schema f1 ts1 where
    s: "filter_mcp_input_schema (inputSchema t) = Inr schema" and
    r: "format_openai_tools ts = Inr (f1, ts1)" and
    t': "ts' = t\<lparr>inputSchema := schema\<rparr> # ts1" and
    f: "formatted =
          JObj [(''type'', JStr ''function''),
                (''function'',
                   JObj [(''name'', JStr (name t)),
                         (''description'', json_of_description (description t)),
                         (''strict'', JBool True),
                         (''parameters'', JObj schema)])] # f1"
    by (auto split: sum.splits)
  from Cons.IH [OF r] s t' f show ?case by simp
qed

text \<open>
  C9 (amended). Formatting for the provider \<open>openai\<close> rewrites the tool objects: after
  the call every tool's \<open>inputSchema\<close> is the normalized schema, and the parameters of
  the formatted tool are that schema. For every other provider the tool objects are
  as before.
\<close>

theorem format_tools_rewrites_schemas_for_openai:
  "format_tools_object_for_llm_call tool_objects provider = Inr (formatted, tool_objects') \<Longrightarrow>
   (lower provider = ''openai'' \<longrightarrow>
      map (\<lambda>t. filter_mcp_input_schema (inputSchema t)) tool_objects =
        map (\<lambda>t. Inr (inputSchema t)) tool_objects' \<and>
      map parameters_of formatted = map (\<lambda>t. Some (JObj (inputSchema t))) tool_objects') \<and>
   (lower provider \<noteq> ''openai'' \<longrightarrow> tool_objects' = tool_objects)"
proof -
  assume r: "format_tools_object_for_llm_call tool_objects provider = Inr (formatted, tool_objects')"
  have o: "map (\<lambda>t. filter_mcp_input_schema (inputSchema t)) tool_objects =
             map (\<lambda>t. Inr (inputSchema t)) tool_objects' \<and>
           map parameters_of formatted = map (\<lambda>t. Some (JObj (inputSchema t))) tool_objects'"
    if "lower provider = ''openai''"
  proof -
    from r that have "format_openai_tools tool_objects = Inr (formatted, tool_objects')"
      by (simp add: format_tools_object_for_llm_call_def)
    then show ?thesis by (rule format_openai_tools_effect)
  qed
  have n: "tool_objects' = tool_objects" if "lower provider \<noteq> ''openai''"
    using r that by (auto simp: format_tools_object_for_llm_call_def split: if_splits)
  from o n show ?thesis by blast
qed

theorem format_tools_rewrites_schemas_for_openai_witness:
  "format_tools_object_for_llm_call [city_tool] ''OpenAI'' =
     Inr ([city_formatted], [city_tool\<lparr>inputSchema := city_schema_normalized\<rparr>]) \<and>
   lower ''OpenAI'' = ''openai'' \<and>
   filter_mcp_input_schema (inputSchema city_tool) = Inr city_schema_normalized \<and>
   parameters_of city_formatted = Some (JObj city_schema_normalized) \<and>
   format_tools_object_for_llm_call [city_tool] ''anthropic'' =
     Inr ([format_anthropic_tool city_tool], [city_tool]) \<and>
   lower ''anthropic'' \<noteq> ''openai''"
proof -
  have l: "lower ''OpenAI'' = ''openai''" by code_simp
  have n: "filter_mcp_input_schema city_schema = Inr city_schema_normalized"
    by (simp add: filter_mcp_input_schema_def city_schema_def filter_property_def
        city_schema_normalized_def)
  have r: "format_tools_object_for_llm_call [city_tool] ''OpenAI'' =
     Inr ([city_formatted], [city_tool\<lparr>inputSchema := city_schema_normalized\<rparr>])"
    by (simp add: format_tools_object_for_llm_call_def l n city_tool_def city_formatted_def
        json_of_description_def)
  have la: "lower ''anthropic'' = ''anthropic''" by code_simp
  have a: "format_tools_object_for_llm_call [city_tool] ''anthropic'' =
     Inr ([format_anthropic_tool city_tool], [city_tool])"
    by (simp add: format_tools_object_for_llm_call_def la)
  from format_tools_rewrites_schemas_for_openai [OF r]
       format_tools_rewrites_schemas_for_openai [OF a]
  show ?thesis using l la n r a by (simp add: city_tool_def city_formatted_def)
qed

text \<open>
  C9 as stated fails: after formatting for \<open>openai\<close> the tool's \<open>inputSchema\<close> is no
  longer the schema it had before the call.
\<close>

theorem format_tools_mutates_input_schema:
  "format_tools_object_for_llm_call [city_tool] ''openai'' =
     Inr ([city_formatted], [city_tool\<lparr>inputSchema := city_schema_normalized\<rparr>]) \<and>
   inputSchema (city_tool\<lparr>inputSchema := city_schema_normalized\<rparr>) \<noteq> inputSchema city_tool"
proof -
  have l: "lower ''openai'' = ''openai''" by code_simp
  have n: "filter_mcp_input_schema city_schema = Inr city_schema_normalized"
    by (simp add: filter_mcp_input_schema_def city_schema_def filter_property_def
        city_schema_normalized_def)
  have "city_schema_normalized \<noteq> city_schema"
    by (simp add: city_schema_normalized_def city_schema_def)
  then show ?thesis
    by (simp add: format_tools_object_for_llm_call_def l n city_tool_def city_formatted_def
        json_of_description_def)
qed

section \<open>Properties of \<open>initialize\<close>\<close>















section \<open>Properties of the reassembly\<close>

lemma str_nat_0: "str_nat 0 = ''0''" by code_simp








text \<open>
  C4 (amended). An \<open>input_json_delta\<close> that arrives while no tool accumulation is open
  (\<open>current_tool_index\<close> is \<open>None\<close>) is ignored by the reassembly: the accumulator is
  unchanged, the event is passed through to the caller, no error chunk is made, and the
  loop goes on with the rest of the stream.
\<close>

theorem anthropic_delta_without_open_tool_is_ignored:
  "chunk_type chunk = Some ''content_block_delta'' \<Longrightarrow>
   chunk_delta chunk = Some d \<Longrightarrow>
   delta_type d = Some ''input_json_delta'' \<Longrightarrow>
   process_anthropic_chunk chunk (ftc, ti, None) = ((ftc, ti, None), Passthrough chunk) \<and>
   collect_anthropic (chunk # rest) (ftc, ti, None) =
     (fst (collect_anthropic rest (ftc, ti, None)),
      Passthrough chunk # snd (collect_anthropic rest (ftc, ti, None)))"
proof -
  assume "chunk_type chunk = Some ''content_block_delta''"
    and "chunk_delta chunk = Some d"
    and "delta_type d = Some ''input_json_delta''"
  then have p: "process_anthropic_chunk chunk (ftc, ti, None) = ((ftc, ti, None), Passthrough chunk)"
    by (simp add: process_anthropic_chunk_def)
  then show ?thesis by (simp split: prod.splits)
qed

theorem anthropic_delta_without_open_tool_is_ignored_witness:
  "chunk_type (json_delta ''{}'') = Some ''content_block_delta'' \<and>
   chunk_delta (json_delta ''{}'') =
     Some \<lparr>delta_type = Some ''input_json_delta'', partial_json = ''{}''\<rparr> \<and>
   process_anthropic_chunk (json_delta ''{}'') ([], 0, None) =
     (([], 0, None), Passthrough (json_delta ''{}'')) \<and>
   collect_anthropic [json_delta ''{}'', json_delta ''{}''] ([], 0, None) =
     (([], 0, None), [Passthrough (json_delta ''{}''), Passthrough (json_delta ''{}'')])"
proof -
  have a: "chunk_type (json_delta ''{}'') = Some ''content_block_delta''"
    by (simp add: json_delta_def)
  have b: "chunk_delta (json_delta ''{}'') =
     Some \<lparr>delta_type = Some ''input_json_delta'', partial_json = ''{}''\<rparr>"
    by (simp add: json_delta_def)
  have c: "delta_type \<lparr>delta_type = Some ''input_json_delta'', partial_json = ''{}''\<rparr> =
     Some ''input_json_delta''"
    by simp
  from anthropic_delta_without_open_tool_is_ignored [OF a b c, of "[]" 0 "[json_delta ''{}'']"]
       anthropic_delta_without_open_tool_is_ignored [OF a b c, of "[]" 0 "[]"]
  show ?thesis using a b by simp
qed

text \<open>
  C4 as stated fails: a stream that starts with an \<open>input_json_delta\<close> is passed
  through as it is; the output holds no error chunk.
\<close>

theorem anthropic_delta_without_open_tool_gives_no_error:
  "collect_anthropic [json_delta ''{}''] ([], 0, None) =
     (([], 0, None), [Passthrough (json_delta ''{}'')])"
  by (simp add: json_delta_def process_anthropic_chunk_def)

section \<open>Properties of the orchestrator\<close>

lemma lower_openai: "lower ''openai'' = ''openai''" by code_simp
lemma lower_anthropic: "lower ''anthropic'' = ''anthropic''" by code_simp

lemma model_calls_append: "model_calls (xs @ ys) = model_calls xs @ model_calls ys"
  by (induction xs rule: model_calls.induct) simp_all

lemma tool_invocations_append:
  "tool_invocations (xs @ ys) = tool_invocations xs @ tool_invocations ys"
  by (induction xs rule: tool_invocations.induct) simp_all

lemma model_calls_yields: "model_calls (map Yield cs) = []"
  by (induction cs) simp_all

lemma tool_invocations_yields: "tool_invocations (map Yield cs) = []"
  by (induction cs) simp_all

lemma model_calls_passthrough: "model_calls (map (\<lambda>chunk. Yield (Passthrough chunk)) cs) = []"
  by (induction cs) simp_all

lemma tool_invocations_passthrough:
  "tool_invocations (map (\<lambda>chunk. Yield (Passthrough chunk)) cs) = []"
  by (induction cs) simp_all

lemma loop_model_calls:
  "process_tool_calls_loop loads m tm provider calls msgs = (evs, msgs', r) \<Longrightarrow> model_calls evs = []"
proof (induction calls arbitrary: msgs evs msgs' r)
  case Nil
  then show ?case by simp
next
  case (Cons call rest)
  then show ?case
    by (auto simp: Let_def split: sum.splits prod.splits)
qed

lemma loop_invocations:
  "process_tool_calls_loop loads m tm provider calls msgs = (evs, msgs', None) \<Longrightarrow>
   map fst (tool_invocations evs) = map function_name calls"
proof (induction calls arbitrary: msgs evs msgs')
  case Nil
  then show ?case by simp
next
  case (Cons call rest)
  then show ?case
    by (auto simp: Let_def split: sum.splits prod.splits)
qed

lemma loop_append:
  "process_tool_calls_loop loads m tm provider (pre @ rest) msgs =
     (case process_tool_calls_loop loads m tm provider pre msgs of
        (evs, msgs1, Some e) \<Rightarrow> (evs, msgs1, Some e)
      | (evs, msgs1, None) \<Rightarrow>
          (case process_tool_calls_loop loads m tm provider rest msgs1 of
             (evs2, msgs2, r) \<Rightarrow> (evs @ evs2, msgs2, r)))"
proof (induction pre arbitrary: msgs)
  case Nil
  then show ?case by (simp split: prod.splits)
next
  case (Cons call pre)
  show ?case
    by (simp add: Cons.IH Let_def split: sum.splits prod.splits option.splits)
qed

lemma process_tool_calls_model_calls:
  "process_tool_calls loads m tm provider ftc msgs = (evs, msgs', r) \<Longrightarrow> model_calls evs = []"
  by (auto simp: process_tool_calls_def model_calls_append dest: loop_model_calls
      split: if_splits prod.splits option.splits sum.splits)

lemma process_tool_calls_invocations:
  "process_tool_calls loads m tm provider ftc msgs = (evs, msgs', None) \<Longrightarrow>
   map fst (tool_invocations evs) = map (\<lambda>p. function_name (snd p)) ftc"
  by (auto simp: process_tool_calls_def tool_invocations_append dest: loop_invocations
      split: if_splits prod.splits option.splits sum.splits)

lemma openai_turn_calls:
  assumes "openai_turn w c turn msgs = (evs, msgs', r)"
  shows "length (model_calls evs) \<le> 2 \<and>
         length (filter (\<lambda>q. req_tools q \<noteq> None) (model_calls evs)) \<le> 1"
proof (cases "model_response w \<lparr>req_messages = msgs, req_tools = Some (chat_tools c)\<rparr>")
  case (Inl e)
  with assms show ?thesis
    by (auto simp: openai_turn_def Let_def model_calls_append openai_progress_def)
next
  case (Inr stream)
  obtain ftc ti buf outs where col: "collect_openai stream ([], 0, []) = ((ftc, ti, buf), outs)"
    by (metis surj_pair)
  show ?thesis
  proof (cases "ftc = []")
    case True
    with assms Inr col show ?thesis
      by (auto simp: openai_turn_def Let_def model_calls_append model_calls_yields
          openai_progress_def split: if_splits)
  next
    case False
    obtain pevs pmsgs pr where p: "process_tool_calls (json_loads w) (chat_client_manager c)
        (chat_tool_map c) ''openai'' ftc
        (msgs @ [JObj [(''role'', JStr ''assistant''), (''content'', JNull),
                       (''tool_calls'', convert_to_openai_tool_format ftc)]]) =
        ((pevs :: openai_chunk event list), pmsgs, pr)"
      by (metis surj_pair)
    from process_tool_calls_model_calls [OF p] have pm: "model_calls pevs = []" .
    from assms Inr col False p pm show ?thesis
      by (auto simp: openai_turn_def Let_def model_calls_append model_calls_yields
          model_calls_passthrough openai_progress_def split: option.splits sum.splits)
  qed
qed

lemma openai_turn_next:
  assumes "openai_turn w c turn msgs = (evs, msgs', NextTurn)"
  shows "model_calls evs =
           [\<lparr>req_messages = msgs, req_tools = Some (chat_tools c)\<rparr>,
            \<lparr>req_messages = msgs', req_tools = None\<rparr>] \<and>
         tool_invocations evs \<noteq> []"
proof (cases "model_response w \<lparr>req_messages = msgs, req_tools = Some (chat_tools c)\<rparr>")
  case (Inl e)
  with assms show ?thesis
    by (auto simp: openai_turn_def Let_def)
next
  case (Inr stream)
  obtain ftc ti buf outs where col: "collect_openai stream ([], 0, []) = ((ftc, ti, buf), outs)"
    by (metis surj_pair)
  show ?thesis
  proof (cases "ftc = []")
    case True
    with assms Inr col show ?thesis
      by (auto simp: openai_turn_def Let_def split: if_splits)
  next
    case False
    obtain pevs pmsgs pr where p: "process_tool_calls (json_loads w) (chat_client_manager c)
        (chat_tool_map c) ''openai'' ftc
        (msgs @ [JObj [(''role'', JStr ''assistant''), (''content'', JNull),
                       (''tool_calls'', convert_to_openai_tool_format ftc)]]) =
        ((pevs :: openai_chunk event list), pmsgs, pr)"
      by (metis surj_pair)
    from process_tool_calls_model_calls [OF p] have pm: "model_calls pevs = []" .
    from assms Inr col False p have pr: "pr = None"
      by (auto simp: openai_turn_def Let_def split: option.splits sum.splits)
    from process_tool_calls_invocations [OF p [unfolded pr]] False
    have ti: "tool_invocations pevs \<noteq> []" by auto
    from assms Inr col False p pm pr ti show ?thesis
      by (auto simp: openai_turn_def Let_def model_calls_append model_calls_yields
          model_calls_passthrough tool_invocations_append openai_progress_def
          split: option.splits sum.splits)
  qed
qed

lemma turns_bound:
  assumes pass: "\<And>turn msgs evs msgs' r. pass turn msgs = (evs, msgs', r) \<Longrightarrow>
      length (model_calls evs) \<le> 2 \<and>
      length (filter (\<lambda>q. req_tools q \<noteq> None) (model_calls evs)) \<le> 1"
  shows "turns pass n turn msgs = (evs, msgs', r) \<Longrightarrow>
     length (model_calls evs) \<le> 2 * n \<and>
     length (filter (\<lambda>q. req_tools q \<noteq> None) (model_calls evs)) \<le> n"
proof (induction n arbitrary: turn msgs evs msgs' r)
  case 0
  then show ?case by simp
next
  case (Suc n)
  obtain e1 m1 r1 where p: "pass turn msgs = (e1, m1, r1)" by (metis surj_pair)
  note b = pass [OF p]
  show ?case
  proof (cases r1)
    case NextTurn
    obtain e2 m2 r2 where t: "turns pass n (Suc turn) m1 = (e2, m2, r2)" by (metis surj_pair)
    from Suc.IH [OF t] have b2: "length (model_calls e2) \<le> 2 * n"
      "length (filter (\<lambda>q. req_tools q \<noteq> None) (model_calls e2)) \<le> n" by simp_all
    from Suc.prems p NextTurn t have "evs = e1 @ e2" by simp
    with b b2 show ?thesis by (simp add: model_calls_append)
  next
    case Break
    with Suc.prems p have "evs = e1" by simp
    with b show ?thesis by simp
  next
    case (Raised e)
    with Suc.prems p have "evs = e1" by simp
    with b show ?thesis by simp
  qed
qed

lemma anthropic_turn_calls:
  assumes "anthropic_turn w c turn msgs = (evs, msgs', r)"
  shows "length (model_calls evs) \<le> 2 \<and>
         length (filter (\<lambda>q. req_tools q \<noteq> None) (model_calls evs)) \<le> 1"
proof (cases "model_response w \<lparr>req_messages = msgs, req_tools = Some (chat_tools c)\<rparr>")
  case (Inl e)
  with assms show ?thesis
    by (auto simp: anthropic_turn_def Let_def model_calls_append anthropic_progress_def)
next
  case (Inr stream)
  obtain ftc ti cur outs where col: "collect_anthropic stream ([], 0, None) = ((ftc, ti, cur), outs)"
    by (metis surj_pair)
  show ?thesis
  proof (cases "ftc = []")
    case True
    with assms Inr col show ?thesis
      by (auto simp: anthropic_turn_def Let_def model_calls_append model_calls_yields
          anthropic_progress_def)
  next
    case False
    show ?thesis
    proof (cases "convert_to_anthropic_tool_format (json_loads w) (map snd ftc)")
      case (Inl e)
      with assms Inr col False show ?thesis
        by (auto simp: anthropic_turn_def Let_def model_calls_append model_calls_yields
            anthropic_progress_def)
    next
      case (Inr blocks)
      obtain pevs pmsgs pr where p: "process_tool_calls (json_loads w) (chat_client_manager c)
          (chat_tool_map c) ''anthropic'' ftc
          (msgs @ [JObj [(''role'', JStr ''assistant''), (''content'', JArr blocks)]]) =
          ((pevs :: anthropic_chunk event list), pmsgs, pr)"
        by (metis surj_pair)
      from process_tool_calls_model_calls [OF p] have pm: "model_calls pevs = []" .
      from assms \<open>model_response w \<lparr>req_messages = msgs, req_tools = Some (chat_tools c)\<rparr> = Inr stream\<close>
        col False Inr p pm show ?thesis
        by (auto simp: anthropic_turn_def Let_def model_calls_append model_calls_yields
            model_calls_passthrough anthropic_progress_def split: option.splits sum.splits)
    qed
  qed
qed

lemma anthropic_turn_next:
  assumes "anthropic_turn w c turn msgs = (evs, msgs', NextTurn)"
  shows "model_calls evs =
           [\<lparr>req_messages = msgs, req_tools = Some (chat_tools c)\<rparr>,
            \<lparr>req_messages = msgs', req_tools = None\<rparr>] \<and>
         tool_invocations evs \<noteq> []"
proof (cases "model_response w \<lparr>req_messages = msgs, req_tools = Some (chat_tools c)\<rparr>")
  case (Inl e)
  with assms show ?thesis
    by (auto simp: anthropic_turn_def Let_def)
next
  case (Inr stream)
  obtain ftc ti cur outs where col: "collect_anthropic stream ([], 0, None) = ((ftc, ti, cur), outs)"
    by (metis surj_pair)
  show ?thesis
  proof (cases "ftc = []")
    case True
    with assms Inr col show ?thesis
      by (auto simp: anthropic_turn_def Let_def)
  next
    case False
    show ?thesis
    proof (cases "convert_to_anthropic_tool_format (json_loads w) (map snd ftc)")
      case (Inl e)
      with assms Inr col False show ?thesis
        by (auto simp: anthropic_turn_def Let_def)
    next
      case (Inr blocks)
      obtain pevs pmsgs pr where p: "process_tool_calls (json_loads w) (chat_client_manager c)
          (chat_tool_map c) ''anthropic'' ftc
          (msgs @ [JObj [(''role'', JStr ''assistant''), (''content'', JArr blocks)]]) =
          ((pevs :: anthropic_chunk event list), pmsgs, pr)"
        by (metis surj_pair)
      note m = \<open>model_response w \<lparr>req_messages = msgs, req_tools = Some (chat_tools c)\<rparr> = Inr stream\<close>
      from process_tool_calls_model_calls [OF p] have pm: "model_calls pevs = []" .
      from assms m col False Inr p have pr: "pr = None"
        by (auto simp: anthropic_turn_def Let_def split: option.splits sum.splits)
      from process_tool_calls_invocations [OF p [unfolded pr]] False
      have ti: "tool_invocations pevs \<noteq> []" by auto
      from assms m col False Inr p pm pr ti show ?thesis
        by (auto simp: anthropic_turn_def Let_def model_calls_append model_calls_yields
            model_calls_passthrough tool_invocations_append anthropic_progress_def
            split: option.splits sum.splits)
    qed
  qed
qed

lemma openai_turn_break:
  assumes "openai_turn w c turn msgs = (evs, msgs', Break)"
    and "model_response w \<lparr>req_messages = msgs, req_tools = Some (chat_tools c)\<rparr> = Inr stream"
  shows "fst (fst (collect_openai stream ([], 0, []))) = []"
proof (rule ccontr)
  assume n: "fst (fst (collect_openai stream ([], 0, []))) \<noteq> []"
  obtain ftc ti buf outs where col: "collect_openai stream ([], 0, []) = ((ftc, ti, buf), outs)"
    by (metis surj_pair)
  with n have "ftc \<noteq> []" by simp
  with assms col show False
    by (auto simp: openai_turn_def Let_def split: option.splits sum.splits prod.splits)
qed

lemma anthropic_turn_break:
  assumes "anthropic_turn w c turn msgs = (evs, msgs', Break)"
    and "model_response w \<lparr>req_messages = msgs, req_tools = Some (chat_tools c)\<rparr> = Inr stream"
  shows "fst (fst (collect_anthropic stream ([], 0, None))) = []"
proof (rule ccontr)
  assume n: "fst (fst (collect_anthropic stream ([], 0, None))) \<noteq> []"
  obtain ftc ti cur outs where col: "collect_anthropic stream ([], 0, None) = ((ftc, ti, cur), outs)"
    by (metis surj_pair)
  with n have "ftc \<noteq> []" by simp
  with assms col show False
    by (auto simp: anthropic_turn_def Let_def split: option.splits sum.splits prod.splits)
qed

lemma one_turn:
  assumes "turns pass (Suc 0) turn msgs = (evs, msgs', None)"
  shows "pass turn msgs = (evs, msgs', Break) \<or> pass turn msgs = (evs, msgs', NextTurn)"
proof -
  obtain e1 m1 r1 where p: "pass turn msgs = (e1, m1, r1)" by (metis surj_pair)
  with assms show ?thesis by (cases r1) auto
qed

lemma openai_run_calls:
  "length (model_calls (openai_run w c k)) \<le> 2 * nat k \<and>
   length (filter (\<lambda>q. req_tools q \<noteq> None) (model_calls (openai_run w c k))) \<le> nat k"
proof -
  obtain evs msgs r where t: "turns (openai_turn w c) (nat k) 0 (chat_messages c) = (evs, msgs, r)"
    by (metis surj_pair)
  from turns_bound [of "openai_turn w c", OF openai_turn_calls t]
  show ?thesis using t by (cases r) (simp_all add: openai_run_def model_calls_append)
qed

lemma anthropic_run_calls:
  "length (model_calls (anthropic_run w c k)) \<le> 2 * nat k \<and>
   length (filter (\<lambda>q. req_tools q \<noteq> None) (model_calls (anthropic_run w c k))) \<le> nat k"
proof -
  obtain evs msgs r where t: "turns (anthropic_turn w c) (nat k) 0 (chat_messages c) = (evs, msgs, r)"
    by (metis surj_pair)
  from turns_bound [of "anthropic_turn w c", OF anthropic_turn_calls t]
  show ?thesis using t by (cases r) (simp_all add: anthropic_run_def model_calls_append)
qed

lemma openai_chat_calls:
  "length (model_calls (process_openai_stream_chat w p)) \<le> 2 * nat (cfg_max_turns p) \<and>
   length (filter (\<lambda>q. req_tools q \<noteq> None) (model_calls (process_openai_stream_chat w p)))
     \<le> nat (cfg_max_turns p)"
  using openai_run_calls
  by (simp add: process_openai_stream_chat_def openai_progress_def split: sum.splits)

lemma anthropic_chat_calls:
  "length (model_calls (process_anthropic_stream_chat w p)) \<le> 2 * nat (cfg_max_turns p) \<and>
   length (filter (\<lambda>q. req_tools q \<noteq> None) (model_calls (process_anthropic_stream_chat w p)))
     \<le> nat (cfg_max_turns p)"
  using anthropic_run_calls
  by (simp add: process_anthropic_stream_chat_def anthropic_progress_def split: sum.splits)

lemma setup_sample:
  "setup_client only_a_connects [server_a] [user_message] ''openai'' =
     Inr \<lparr>chat_client_manager =
        \<lparr>stdio_server_map = [], sse_server_map = [server_a],
         sessions = [(''A'', session_a)],
         exit_stack = [SessionCtx ''A'', Transport ''A'']\<rparr>,
      chat_tool_map = [''search'' \<mapsto> ''A''],
      chat_tools = [JObj [(''type'', JStr ''function''),
           (''function'',
            JObj [(''name'', JStr ''search''),
               (''description'', JStr ''search of A''),
               (''strict'', JBool True), (''parameters'', JObj [])])]],
      chat_messages = [user_message]\<rparr>"
  by (simp add: setup_client_def initialize_def new_manager_def open_session_def
      only_a_connects_def server_a_def list_tools_def session_a_def search_tool_def
      format_tools_object_for_llm_call_def lower_openai filter_mcp_input_schema_def
      json_of_description_def)

lemma loop_served:
  "process_tool_calls_loop loads m tm provider calls msgs = ((evs :: 'c event list), msgs', None) \<Longrightarrow>
   \<exists>results. map Some results = map (served loads m tm provider) calls \<and>
     tool_invocations evs = map fst results \<and> msgs' = msgs @ map snd results"
proof (induction calls arbitrary: msgs evs msgs')
  case Nil
  then show ?case by simp
next
  case (Cons call rest)
  from Cons.prems obtain a where a: "loads (function_arguments call) = Inr a"
    by (cases "loads (function_arguments call)") simp_all
  from Cons.prems a obtain x where x: "create_llm_chunk PROGRESS
      (''Executing tool: '' @ function_name call @ ''...'') provider = Inr x"
    by (cases "create_llm_chunk PROGRESS (''Executing tool: '' @ function_name call @ ''...'') provider")
      simp_all
  from Cons.prems a x obtain obs where o: "call_tool m (function_name call) a tm = Inr obs"
    by (cases "call_tool m (function_name call) a tm") simp_all
  define res where "res = create_tool_result_message (call_id call) (str_of_observation obs) provider"
  from Cons.prems a x o obtain y where y: "create_llm_chunk PROGRESS
      (''Tool '' @ function_name call @ '' execution complete.'') provider = Inr y"
    by (cases "create_llm_chunk PROGRESS (''Tool '' @ function_name call @ '' execution complete.'') provider")
      (simp_all add: Let_def)
  obtain evs1 :: "'c event list" and msgs1 r1 where
    l: "process_tool_calls_loop loads m tm provider rest (msgs @ [res]) = (evs1, msgs1, r1)"
    by (metis surj_pair)
  from Cons.prems a x o y l have e: "evs = [Yield (Custom x), CallTool (function_name call) a,
      Append res, Yield (Custom y)] @ evs1" and m1: "msgs' = msgs1" and r1: "r1 = None"
    by (simp_all add: Let_def res_def)
  from Cons.IH [OF l [unfolded r1]] obtain results where
    "map Some results = map (served loads m tm provider) rest"
    "tool_invocations evs1 = map fst results" "msgs1 = (msgs @ [res]) @ map snd results"
    by blast
  then have "map Some (((function_name call, a), res) # results) =
      map (served loads m tm provider) (call # rest) \<and>
     tool_invocations evs = map fst (((function_name call, a), res) # results) \<and>
     msgs' = msgs @ map snd (((function_name call, a), res) # results)"
    using a o e m1 by (simp add: served_def res_def)
  then show ?case by blast
qed

lemma passes_events:
  "fst (turns pass n turn msgs) = concat (map p_events (passes pass n turn msgs))"
proof (induction n arbitrary: turn msgs)
  case 0
  then show ?case by simp
next
  case (Suc n)
  obtain evs msgs' r where p: "pass turn msgs = (evs, msgs', r)" by (metis surj_pair)
  obtain e2 m2 r2 where t: "turns pass n (Suc turn) msgs' = (e2, m2, r2)" by (metis surj_pair)
  show ?case
    using Suc.IH [of "Suc turn" msgs'] p t
    by (cases r) simp_all
qed

lemma passes_error:
  "snd (snd (turns pass n turn msgs)) =
     (case passes pass n turn msgs of [] \<Rightarrow> None | p # ps \<Rightarrow> raised_error (p_end (last (p # ps))))"
proof (induction n arbitrary: turn msgs)
  case 0
  then show ?case by simp
next
  case (Suc n)
  obtain evs msgs' r where p: "pass turn msgs = (evs, msgs', r)" by (metis surj_pair)
  obtain e2 m2 r2 where t: "turns pass n (Suc turn) msgs' = (e2, m2, r2)" by (metis surj_pair)
  show ?case
  proof (cases r)
    case NextTurn
    with p t Suc.IH [of "Suc turn" msgs'] show ?thesis
      by (simp split: list.splits)
  qed (use p in simp_all)
qed

lemma passes_are_passes:
  "p \<in> set (passes pass n turn msgs) \<Longrightarrow>
   pass (p_turn p) (p_before p) = (p_events p, p_after p, p_end p)"
proof (induction n arbitrary: turn msgs)
  case 0
  then show ?case by simp
next
  case (Suc n)
  obtain evs msgs' r where q: "pass turn msgs = (evs, msgs', r)" by (metis surj_pair)
  with Suc show ?case
    by (cases r) auto
qed

lemma passes_length: "length (passes pass n turn msgs) \<le> n"
proof (induction n arbitrary: turn msgs)
  case 0
  then show ?case by simp
next
  case (Suc n)
  obtain evs msgs' r where q: "pass turn msgs = (evs, msgs', r)" by (metis surj_pair)
  with Suc.IH [of "Suc turn" msgs'] show ?case
    by (cases r) simp_all
qed

lemma passes_raised_is_last:
  "p \<in> set (passes pass n turn msgs) \<Longrightarrow> p_end p = Raised e \<Longrightarrow>
   last (passes pass n turn msgs) = p \<and> snd (snd (turns pass n turn msgs)) = Some e"
proof (induction n arbitrary: turn msgs)
  case 0
  then show ?case by simp
next
  case (Suc n)
  obtain evs msgs' r where q: "pass turn msgs = (evs, msgs', r)" by (metis surj_pair)
  show ?case
  proof (cases r)
    case NextTurn
    with Suc.prems q have in_rest: "p \<in> set (passes pass n (Suc turn) msgs')" by auto
    obtain e2 m2 r2 where t: "turns pass n (Suc turn) msgs' = (e2, m2, r2)" by (metis surj_pair)
    from Suc.IH [OF in_rest Suc.prems(2)] in_rest NextTurn q t show ?thesis
      by auto
  next
    case Break
    with Suc.prems q show ?thesis by auto
  next
    case (Raised e1)
    with Suc.prems q show ?thesis by auto
  qed
qed

lemma passes_run_error:
  "snd (snd (turns pass n turn msgs)) = run_error (passes pass n turn msgs)"
  by (simp add: passes_error run_error_def split: list.splits)

lemma openai_run_passes:
  "openai_run w c k =
     concat (map p_events (passes (openai_turn w c) (nat k) 0 (chat_messages c))) @
     (case run_error (passes (openai_turn w c) (nat k) 0 (chat_messages c)) of
        None \<Rightarrow> []
      | Some e \<Rightarrow> [Yield (Custom (OpenAICompatibleChunk ERROR (''Error: '' @ str_of_error e)))])"
proof -
  obtain evs msgs r where t: "turns (openai_turn w c) (nat k) 0 (chat_messages c) = (evs, msgs, r)"
    by (metis surj_pair)
  from t passes_events [of "openai_turn w c" "nat k" 0 "chat_messages c"]
  have e: "evs = concat (map p_events (passes (openai_turn w c) (nat k) 0 (chat_messages c)))"
    by simp
  from t passes_run_error [of "openai_turn w c" "nat k" 0 "chat_messages c"]
  have r: "r = run_error (passes (openai_turn w c) (nat k) 0 (chat_messages c))"
    by simp
  show ?thesis
    unfolding openai_run_def t e [symmetric] r [symmetric]
    by (simp split: option.splits)
qed

lemma anthropic_run_passes:
  "anthropic_run w c k =
     concat (map p_events (passes (anthropic_turn w c) (nat k) 0 (chat_messages c))) @
     (case run_error (passes (anthropic_turn w c) (nat k) 0 (chat_messages c)) of
        None \<Rightarrow> []
      | Some e \<Rightarrow> [Yield (Custom (AnthropicCompatibleChunk ERROR (''Error: '' @ str_of_error e)))])"
proof -
  obtain evs msgs r where t: "turns (anthropic_turn w c) (nat k) 0 (chat_messages c) = (evs, msgs, r)"
    by (metis surj_pair)
  from t passes_events [of "anthropic_turn w c" "nat k" 0 "chat_messages c"]
  have e: "evs = concat (map p_events (passes (anthropic_turn w c) (nat k) 0 (chat_messages c)))"
    by simp
  from t passes_run_error [of "anthropic_turn w c" "nat k" 0 "chat_messages c"]
  have r: "r = run_error (passes (anthropic_turn w c) (nat k) 0 (chat_messages c))"
    by simp
  show ?thesis
    unfolding anthropic_run_def t e [symmetric] r [symmetric]
    by (simp split: option.splits)
qed

lemma openai_turn_tools_raise:
  assumes m: "model_response w \<lparr>req_messages = msgs, req_tools = Some (chat_tools c)\<rparr> = Inr stream"
    and col: "collect_openai stream ([], 0, []) = ((ftc, ti, buf), outs)"
    and ne: "ftc \<noteq> []"
    and l: "process_tool_calls_loop (json_loads w) (chat_client_manager c) (chat_tool_map c)
              ''openai'' (map snd ftc) (msgs @ [assistant_tool_calls ftc]) =
              ((levs :: openai_chunk event list), lmsgs, Some e)"
  shows "openai_turn w c turn msgs =
           (request_part (openai_analyzing turn)
              \<lparr>req_messages = msgs, req_tools = Some (chat_tools c)\<rparr> outs @
            [openai_progress ''Using MCP tools to gather information...'',
             Append (assistant_tool_calls ftc)] @ levs,
            lmsgs, Raised e)"
proof -
  have p: "process_tool_calls (json_loads w) (chat_client_manager c) (chat_tool_map c)
             ''openai'' ftc (msgs @ [assistant_tool_calls ftc]) = (levs, lmsgs, Some e)"
    using ne l by (simp add: process_tool_calls_def)
  show ?thesis
    using m col ne p
    by (simp add: openai_turn_def Let_def assistant_tool_calls_def [symmetric]
        request_part_def openai_analyzing_def)
qed

lemma openai_turn_tools_served:
  assumes m: "model_response w \<lparr>req_messages = msgs, req_tools = Some (chat_tools c)\<rparr> = Inr stream"
    and col: "collect_openai stream ([], 0, []) = ((ftc, ti, buf), outs)"
    and ne: "ftc \<noteq> []"
    and l: "process_tool_calls_loop (json_loads w) (chat_client_manager c) (chat_tool_map c)
              ''openai'' (map snd ftc) (msgs @ [assistant_tool_calls ftc]) =
              ((levs :: openai_chunk event list), lmsgs, None)"
  shows "openai_turn w c turn msgs =
           (case model_response w \<lparr>req_messages = lmsgs, req_tools = None\<rparr> of
              Inl e \<Rightarrow>
                (request_part (openai_analyzing turn)
                   \<lparr>req_messages = msgs, req_tools = Some (chat_tools c)\<rparr> outs @
                 [openai_progress ''Using MCP tools to gather information...'',
                  Append (assistant_tool_calls ftc)] @
                 (levs @ [openai_progress ''All tools executed successfully.'']) @
                 follow_up_part
                   (openai_progress ''Information gathered. Formulating complete response...'')
                   \<lparr>req_messages = lmsgs, req_tools = None\<rparr> [],
                 lmsgs, Raised e)
            | Inr follow \<Rightarrow>
                (request_part (openai_analyzing turn)
                   \<lparr>req_messages = msgs, req_tools = Some (chat_tools c)\<rparr> outs @
                 [openai_progress ''Using MCP tools to gather information...'',
                  Append (assistant_tool_calls ftc)] @
                 (levs @ [openai_progress ''All tools executed successfully.'']) @
                 follow_up_part
                   (openai_progress ''Information gathered. Formulating complete response...'')
                   \<lparr>req_messages = lmsgs, req_tools = None\<rparr> follow,
                 lmsgs, NextTurn))"
proof -
  have p: "process_tool_calls (json_loads w) (chat_client_manager c) (chat_tool_map c)
             ''openai'' ftc (msgs @ [assistant_tool_calls ftc]) =
           (levs @ [openai_progress ''All tools executed successfully.''], lmsgs, None)"
    using ne l by (simp add: process_tool_calls_def create_llm_chunk_def lower_openai
        openai_progress_def)
  show ?thesis
    using m col ne p
    by (simp add: openai_turn_def Let_def assistant_tool_calls_def [symmetric]
        request_part_def openai_analyzing_def follow_up_part_def split: sum.splits)
qed

lemma openai_tool_pass:
  assumes m: "model_response w \<lparr>req_messages = msgs, req_tools = Some (chat_tools c)\<rparr> = Inr stream"
    and col: "collect_openai stream ([], 0, []) = ((ftc, ti, buf), outs)"
    and ne: "ftc \<noteq> []"
    and t: "openai_turn w c turn msgs = (evs, msgs', r)"
    and nr: "\<not> raised r"
  shows "r = NextTurn \<and>
    (\<exists>pevs results follow.
       evs = request_part (openai_analyzing turn)
               \<lparr>req_messages = msgs, req_tools = Some (chat_tools c)\<rparr> outs @
             [openai_progress ''Using MCP tools to gather information...'',
              Append (assistant_tool_calls ftc)] @
             pevs @
             follow_up_part
               (openai_progress ''Information gathered. Formulating complete response...'')
               \<lparr>req_messages = msgs', req_tools = None\<rparr> follow \<and>
       model_response w \<lparr>req_messages = msgs', req_tools = None\<rparr> = Inr follow \<and>
       model_calls pevs = [] \<and>
       tool_invocations pevs = map fst results \<and>
       map Some results =
         map (served (json_loads w) (chat_client_manager c) (chat_tool_map c) ''openai'')
           (map snd ftc) \<and>
       msgs' = msgs @ assistant_tool_calls ftc # map snd results)"
proof -
  obtain levs :: "openai_chunk event list" and lmsgs lr where
    l: "process_tool_calls_loop (json_loads w) (chat_client_manager c) (chat_tool_map c)
          ''openai'' (map snd ftc) (msgs @ [assistant_tool_calls ftc]) = (levs, lmsgs, lr)"
    by (metis surj_pair)
  show ?thesis
  proof (cases lr)
    case (Some e)
    from openai_turn_tools_raise [OF m col ne l [unfolded Some], of turn] t nr
    show ?thesis by simp
  next
    case None
    note s = openai_turn_tools_served [OF m col ne l [unfolded None], of turn]
    from loop_served [OF l [unfolded None]] obtain results where
      res: "map Some results =
         map (served (json_loads w) (chat_client_manager c) (chat_tool_map c) ''openai'')
           (map snd ftc)"
        "tool_invocations levs = map fst results"
        "lmsgs = (msgs @ [assistant_tool_calls ftc]) @ map snd results"
      by blast
    from loop_model_calls [OF l] have lm: "model_calls levs = []" .
    show ?thesis
    proof (cases "model_response w \<lparr>req_messages = lmsgs, req_tools = None\<rparr>")
      case (Inl e)
      with s t nr show ?thesis by simp
    next
      case (Inr follow)
      with s t have e: "evs = request_part (openai_analyzing turn)
               \<lparr>req_messages = msgs, req_tools = Some (chat_tools c)\<rparr> outs @
             [openai_progress ''Using MCP tools to gather information...'',
              Append (assistant_tool_calls ftc)] @
             (levs @ [openai_progress ''All tools executed successfully.'']) @
             follow_up_part
               (openai_progress ''Information gathered. Formulating complete response...'')
               \<lparr>req_messages = msgs', req_tools = None\<rparr> follow"
        and ms: "msgs' = lmsgs" and r: "r = NextTurn"
        by simp_all
      have "model_calls (levs @ [openai_progress ''All tools executed successfully.'']) = []"
        "tool_invocations (levs @ [openai_progress ''All tools executed successfully.'']) =
           map fst results"
        using lm res(2)
        by (simp_all add: model_calls_append tool_invocations_append openai_progress_def)
      with e ms r Inr res(1,3) show ?thesis by auto
    qed
  qed
qed

lemma anthropic_turn_malformed:
  assumes m: "model_response w \<lparr>req_messages = msgs, req_tools = Some (chat_tools c)\<rparr> = Inr stream"
    and col: "collect_anthropic stream ([], 0, None) = ((ftc, ti, cur), outs)"
    and ne: "ftc \<noteq> []"
    and cv: "convert_to_anthropic_tool_format (json_loads w) (map snd ftc) = Inl e"
  shows "anthropic_turn w c turn msgs =
           (request_part (anthropic_analyzing turn)
              \<lparr>req_messages = msgs, req_tools = Some (chat_tools c)\<rparr> outs,
            msgs, Raised e)"
  using m col ne cv
  by (simp add: anthropic_turn_def Let_def request_part_def anthropic_analyzing_def)

lemma anthropic_turn_tools_raise:
  assumes m: "model_response w \<lparr>req_messages = msgs, req_tools = Some (chat_tools c)\<rparr> = Inr stream"
    and col: "collect_anthropic stream ([], 0, None) = ((ftc, ti, cur), outs)"
    and ne: "ftc \<noteq> []"
    and cv: "convert_to_anthropic_tool_format (json_loads w) (map snd ftc) = Inr blocks"
    and l: "process_tool_calls_loop (json_loads w) (chat_client_manager c) (chat_tool_map c)
              ''anthropic'' (map snd ftc) (msgs @ [assistant_tool_use blocks]) =
              ((levs :: anthropic_chunk event list), lmsgs, Some e)"
  shows "anthropic_turn w c turn msgs =
           (request_part (anthropic_analyzing turn)
              \<lparr>req_messages = msgs, req_tools = Some (chat_tools c)\<rparr> outs @
            [Append (assistant_tool_use blocks),
             anthropic_progress ''Using MCP tools to gather information...''] @ levs,
            lmsgs, Raised e)"
proof -
  have p: "process_tool_calls (json_loads w) (chat_client_manager c) (chat_tool_map c)
             ''anthropic'' ftc (msgs @ [assistant_tool_use blocks]) = (levs, lmsgs, Some e)"
    using ne l by (simp add: process_tool_calls_def)
  show ?thesis
    using m col ne cv p
    by (simp add: anthropic_turn_def Let_def assistant_tool_use_def [symmetric]
        request_part_def anthropic_analyzing_def)
qed

lemma anthropic_turn_tools_served:
  assumes m: "model_response w \<lparr>req_messages = msgs, req_tools = Some (chat_tools c)\<rparr> = Inr stream"
    and col: "collect_anthropic stream ([], 0, None) = ((ftc, ti, cur), outs)"
    and ne: "ftc \<noteq> []"
    and cv: "convert_to_anthropic_tool_format (json_loads w) (map snd ftc) = Inr blocks"
    and l: "process_tool_calls_loop (json_loads w) (chat_client_manager c) (chat_tool_map c)
              ''anthropic'' (map snd ftc) (msgs @ [assistant_tool_use blocks]) =
              ((levs :: anthropic_chunk event list), lmsgs, None)"
  shows "anthropic_turn w c turn msgs =
           (case model_response w \<lparr>req_messages = lmsgs, req_tools = None\<rparr> of
              Inl e \<Rightarrow>
                (request_part (anthropic_analyzing turn)
                   \<lparr>req_messages = msgs, req_tools = Some (chat_tools c)\<rparr> outs @
                 [Append (assistant_tool_use blocks),
                  anthropic_progress ''Using MCP tools to gather information...''] @
                 (levs @ [anthropic_progress ''All tools executed successfully.'']) @
                 follow_up_part
                   (anthropic_progress ''Information gathered. Formulating complete response...'')
                   \<lparr>req_messages = lmsgs, req_tools = None\<rparr> [],
                 lmsgs, Raised e)
            | Inr follow \<Rightarrow>
                (request_part (anthropic_analyzing turn)
                   \<lparr>req_messages = msgs, req_tools = Some (chat_tools c)\<rparr> outs @
                 [Append (assistant_tool_use blocks),
                  anthropic_progress ''Using MCP tools to gather information...''] @
                 (levs @ [anthropic_progress ''All tools executed successfully.'']) @
                 follow_up_part
                   (anthropic_progress ''Information gathered. Formulating complete response...'')
                   \<lparr>req_messages = lmsgs, req_tools = None\<rparr> follow,
                 lmsgs, NextTurn))"
proof -
  have p: "process_tool_calls (json_loads w) (chat_client_manager c) (chat_tool_map c)
             ''anthropic'' ftc (msgs @ [assistant_tool_use blocks]) =
           (levs @ [anthropic_progress ''All tools executed successfully.''], lmsgs, None)"
    using ne l by (simp add: process_tool_calls_def create_llm_chunk_def lower_anthropic
        anthropic_progress_def)
  show ?thesis
    using m col ne cv p
    by (simp add: anthropic_turn_def Let_def assistant_tool_use_def [symmetric]
        request_part_def anthropic_analyzing_def follow_up_part_def split: sum.splits)
qed

lemma anthropic_tool_pass:
  assumes m: "model_response w \<lparr>req_messages = msgs, req_tools = Some (chat_tools c)\<rparr> = Inr stream"
    and col: "collect_anthropic stream ([], 0, None) = ((ftc, ti, cur), outs)"
    and ne: "ftc \<noteq> []"
    and t: "anthropic_turn w c turn msgs = (evs, msgs', r)"
    and nr: "\<not> raised r"
  shows "r = NextTurn \<and>
    (\<exists>blocks pevs results follow.
       convert_to_anthropic_tool_format (json_loads w) (map snd ftc) = Inr blocks \<and>
       evs = request_part (anthropic_analyzing turn)
               \<lparr>req_messages = msgs, req_tools = Some (chat_tools c)\<rparr> outs @
             [Append (assistant_tool_use blocks),
              anthropic_progress ''Using MCP tools to gather information...''] @
             pevs @
             follow_up_part
               (anthropic_progress ''Information gathered. Formulating complete response...'')
               \<lparr>req_messages = msgs', req_tools = None\<rparr> follow \<and>
       model_response w \<lparr>req_messages = msgs', req_tools = None\<rparr> = Inr follow \<and>
       model_calls pevs = [] \<and>
       tool_invocations pevs = map fst results \<and>
       map Some results =
         map (served (json_loads w) (chat_client_manager c) (chat_tool_map c) ''anthropic'')
           (map snd ftc) \<and>
       msgs' = msgs @ assistant_tool_use blocks # map snd results)"
proof (cases "convert_to_anthropic_tool_format (json_loads w) (map snd ftc)")
  case (Inl e)
  from anthropic_turn_malformed [OF m col ne Inl, of turn] t nr show ?thesis by simp
next
  case (Inr blocks)
  note cv = Inr
  obtain levs :: "anthropic_chunk event list" and lmsgs lr where
    l: "process_tool_calls_loop (json_loads w) (chat_client_manager c) (chat_tool_map c)
          ''anthropic'' (map snd ftc) (msgs @ [assistant_tool_use blocks]) = (levs, lmsgs, lr)"
    by (metis surj_pair)
  show ?thesis
  proof (cases lr)
    case (Some e)
    from anthropic_turn_tools_raise [OF m col ne cv l [unfolded Some], of turn] t nr
    show ?thesis by simp
  next
    case None
    note s = anthropic_turn_tools_served [OF m col ne cv l [unfolded None], of turn]
    from loop_served [OF l [unfolded None]] obtain results where
      res: "map Some results =
         map (served (json_loads w) (chat_client_manager c) (chat_tool_map c) ''anthropic'')
           (map snd ftc)"
        "tool_invocations levs = map fst results"
        "lmsgs = (msgs @ [assistant_tool_use blocks]) @ map snd results"
      by blast
    from loop_model_calls [OF l] have lm: "model_calls levs = []" .
    show ?thesis
    proof (cases "model_response w \<lparr>req_messages = lmsgs, req_tools = None\<rparr>")
      case (Inl e)
      with s t nr show ?thesis by simp
    next
      case (Inr follow)
      with s t have e: "evs = request_part (anthropic_analyzing turn)
               \<lparr>req_messages = msgs, req_tools = Some (chat_tools c)\<rparr> outs @
             [Append (assistant_tool_use blocks),
              anthropic_progress ''Using MCP tools to gather information...''] @
             (levs @ [anthropic_progress ''All tools executed successfully.'']) @
             follow_up_part
               (anthropic_progress ''Information gathered. Formulating complete response...'')
               \<lparr>req_messages = msgs', req_tools = None\<rparr> follow"
        and ms: "msgs' = lmsgs" and r: "r = NextTurn"
        by simp_all
      have "model_calls (levs @ [anthropic_progress ''All tools executed successfully.'']) = []"
        "tool_invocations (levs @ [anthropic_progress ''All tools executed successfully.'']) =
           map fst results"
        using lm res(2)
        by (simp_all add: model_calls_append tool_invocations_append anthropic_progress_def)
      with e ms r Inr cv res(1,3) show ?thesis by auto
    qed
  qed
qed

lemma nat_2: "nat 2 = Suc (Suc 0)"
  by simp

lemma always_search_collect:
  "collect_openai [name_delta ''search'' ''{}''] ([], 0, []) =
     (([(0, search_call)], 1, []), [Passthrough (name_delta ''search'' ''{}'')])"
  by (simp add: name_delta_def process_openai_chunk_def accumulate_tool_call_def str_or_def
      str_nat_0 search_call_def)

lemma always_search_anthropic_collect:
  "collect_anthropic [tool_use_start ''toolu_1'' ''search'', json_delta ''{}''] ([], 0, None) =
     (([(0, search_call_anthropic)], 1, Some 0),
      [Passthrough (tool_use_start ''toolu_1'' ''search''), Passthrough (json_delta ''{}'')])"
  by (simp add: tool_use_start_def json_delta_def process_anthropic_chunk_def
      search_call_anthropic_def)

lemma always_search_pass:
  "snd (openai_turn always_search sample_chat turn msgs) =
     (msgs @ [assistant_tool_calls [(0, search_call)], answer_message], NextTurn)"
  by (simp add: always_search_def sample_chat_def openai_turn_def Let_def name_delta_def
      process_openai_chunk_def accumulate_tool_call_def str_or_def str_nat_0 search_call_def
      convert_to_openai_tool_format_def
      process_tool_calls_def create_llm_chunk_def lower_openai call_tool_def session_a_def
      sample_loads_def str_of_observation_def create_tool_result_message_def
      openai_progress_def assistant_tool_calls_def answer_message_def)

lemma always_search_anthropic_pass:
  "snd (anthropic_turn always_search_anthropic sample_chat turn msgs) =
     (msgs @ [assistant_tool_use [search_block], answer_message_anthropic], NextTurn)"
  by (simp add: always_search_anthropic_def sample_chat_def anthropic_turn_def Let_def
      tool_use_start_def json_delta_def process_anthropic_chunk_def
      process_tool_calls_def create_llm_chunk_def lower_anthropic call_tool_def session_a_def
      sample_loads_def str_of_observation_def create_tool_result_message_def
      anthropic_progress_def assistant_tool_use_def answer_message_anthropic_def
      search_block_def)

lemma second_pass_is:
  "second_pass =
     \<lparr>p_turn = 1,
      p_before = [user_message, assistant_tool_calls [(0, search_call)], answer_message],
      p_events = fst (openai_turn always_search sample_chat 1
                        [user_message, assistant_tool_calls [(0, search_call)], answer_message]),
      p_after = [user_message, assistant_tool_calls [(0, search_call)], answer_message,
                 assistant_tool_calls [(0, search_call)], answer_message],
      p_end = NextTurn\<rparr>"
proof -
  have c: "chat_messages sample_chat = [user_message]"
    by (simp add: sample_chat_def)
  show ?thesis
    unfolding second_pass_def c nat_2
    by (simp add: split_beta always_search_pass)
qed

lemma second_pass_anthropic_is:
  "second_pass_anthropic =
     \<lparr>p_turn = 1,
      p_before = [user_message, assistant_tool_use [search_block], answer_message_anthropic],
      p_events = fst (anthropic_turn always_search_anthropic sample_chat 1
                        [user_message, assistant_tool_use [search_block],
                         answer_message_anthropic]),
      p_after = [user_message, assistant_tool_use [search_block], answer_message_anthropic,
                 assistant_tool_use [search_block], answer_message_anthropic],
      p_end = NextTurn\<rparr>"
proof -
  have c: "chat_messages sample_chat = [user_message]"
    by (simp add: sample_chat_def)
  show ?thesis
    unfolding second_pass_anthropic_def c nat_2
    by (simp add: split_beta always_search_anthropic_pass)
qed

lemma second_pass_in:
  "second_pass \<in> set (passes (openai_turn always_search sample_chat) (nat 2) 0
                         (chat_messages sample_chat))"
  unfolding second_pass_def nat_2
  by (simp add: split_beta always_search_pass)

lemma second_pass_anthropic_in:
  "second_pass_anthropic \<in>
     set (passes (anthropic_turn always_search_anthropic sample_chat) (nat 2) 0
            (chat_messages sample_chat))"
  unfolding second_pass_anthropic_def nat_2
  by (simp add: split_beta always_search_anthropic_pass)

text \<open>
  C1 (amended). A run sends at most \<open>max_turns\<close> requests that carry the tool list, one
  per pass of the loop, and at most twice \<open>max_turns\<close> requests in all, in both
  dialects. The run is its passes, at most \<open>max_turns\<close> of them, one after the other,
  followed by the error chunk when the last one raised. Every pass whose response asks
  for tools and which does not raise, the last one included, has this shape: the
  request with the tool list and the forwarded response; the assistant message; then,
  with no request to the model in between, one invocation for every requested tool
  call, in the order of the accumulator and with its parsed arguments; then the
  follow-up request without tool list, whose messages are those of the pass followed by
  the assistant message and one tool-result message for every requested tool call; and
  the forwarded follow-up response, which is not inspected. With \<open>max_turns = 1\<close> such
  a run sends two requests to the model and invokes a tool in between.
\<close>

theorem turn_budget_bounds_model_calls:
  "length (filter (\<lambda>q. req_tools q \<noteq> None) (model_calls (process_openai_stream_chat w p)))
     \<le> nat (cfg_max_turns p) \<and>
   length (model_calls (process_openai_stream_chat w p)) \<le> 2 * nat (cfg_max_turns p) \<and>
   length (filter (\<lambda>q. req_tools q \<noteq> None) (model_calls (process_anthropic_stream_chat w' p)))
     \<le> nat (cfg_max_turns p) \<and>
   length (model_calls (process_anthropic_stream_chat w' p)) \<le> 2 * nat (cfg_max_turns p) \<and>
   openai_run w c k =
     concat (map p_events (passes (openai_turn w c) (nat k) 0 (chat_messages c))) @
     (case run_error (passes (openai_turn w c) (nat k) 0 (chat_messages c)) of
        None \<Rightarrow> []
      | Some e \<Rightarrow> [Yield (Custom (OpenAICompatibleChunk ERROR (''Error: '' @ str_of_error e)))]) \<and>
   length (passes (openai_turn w c) (nat k) 0 (chat_messages c)) \<le> nat k \<and>
   (pa \<in> set (passes (openai_turn w c) (nat k) 0 (chat_messages c)) \<longrightarrow>
    model_response w \<lparr>req_messages = p_before pa, req_tools = Some (chat_tools c)\<rparr> =
      Inr stream \<longrightarrow>
    collect_openai stream ([], 0, []) = ((ftc, ti, buf), outs) \<longrightarrow>
    ftc \<noteq> [] \<longrightarrow>
    \<not> raised (p_end pa) \<longrightarrow>
      p_end pa = NextTurn \<and>
      (\<exists>pevs results follow.
         p_events pa =
           request_part (openai_analyzing (p_turn pa))
             \<lparr>req_messages = p_before pa, req_tools = Some (chat_tools c)\<rparr> outs @
           [openai_progress ''Using MCP tools to gather information...'',
            Append (assistant_tool_calls ftc)] @
           pevs @
           follow_up_part
             (openai_progress ''Information gathered. Formulating complete response...'')
             \<lparr>req_messages = p_after pa, req_tools = None\<rparr> follow \<and>
         model_response w \<lparr>req_messages = p_after pa, req_tools = None\<rparr> = Inr follow \<and>
         model_calls pevs = [] \<and>
         tool_invocations pevs = map fst results \<and>
         map Some results =
           map (served (json_loads w) (chat_client_manager c) (chat_tool_map c) ''openai'')
             (map snd ftc) \<and>
         p_after pa = p_before pa @ assistant_tool_calls ftc # map snd results)) \<and>
   anthropic_run w' c k =
     concat (map p_events (passes (anthropic_turn w' c) (nat k) 0 (chat_messages c))) @
     (case run_error (passes (anthropic_turn w' c) (nat k) 0 (chat_messages c)) of
        None \<Rightarrow> []
      | Some e \<Rightarrow>
          [Yield (Custom (AnthropicCompatibleChunk ERROR (''Error: '' @ str_of_error e)))]) \<and>
   length (passes (anthropic_turn w' c) (nat k) 0 (chat_messages c)) \<le> nat k \<and>
   (pa' \<in> set (passes (anthropic_turn w' c) (nat k) 0 (chat_messages c)) \<longrightarrow>
    model_response w' \<lparr>req_messages = p_before pa', req_tools = Some (chat_tools c)\<rparr> =
      Inr stream' \<longrightarrow>
    collect_anthropic stream' ([], 0, None) = ((ftc', ti', cur'), outs') \<longrightarrow>
    ftc' \<noteq> [] \<longrightarrow>
    \<not> raised (p_end pa') \<longrightarrow>
      p_end pa' = NextTurn \<and>
      (\<exists>blocks pevs results follow.
         convert_to_anthropic_tool_format (json_loads w') (map snd ftc') = Inr blocks \<and>
         p_events pa' =
           request_part (anthropic_analyzing (p_turn pa'))
             \<lparr>req_messages = p_before pa', req_tools = Some (chat_tools c)\<rparr> outs' @
           [Append (assistant_tool_use blocks),
            anthropic_progress ''Using MCP tools to gather information...''] @
           pevs @
           follow_up_part
             (anthropic_progress ''Information gathered. Formulating complete response...'')
             \<lparr>req_messages = p_after pa', req_tools = None\<rparr> follow \<and>
         model_response w' \<lparr>req_messages = p_after pa', req_tools = None\<rparr> = Inr follow \<and>
         model_calls pevs = [] \<and>
         tool_invocations pevs = map fst results \<and>
         map Some results =
           map (served (json_loads w') (chat_client_manager c) (chat_tool_map c) ''anthropic'')
             (map snd ftc') \<and>
         p_after pa' = p_before pa' @ assistant_tool_use blocks # map snd results)) \<and>
   (model_response w \<lparr>req_messages = chat_messages c, req_tools = Some (chat_tools c)\<rparr> =
      Inr stream0 \<longrightarrow>
    fst (fst (collect_openai stream0 ([], 0, []))) \<noteq> [] \<longrightarrow>
    turns (openai_turn w c) (Suc 0) 0 (chat_messages c) = (evs, msgs, None) \<longrightarrow>
      openai_run w c 1 = evs \<and> length (model_calls evs) = 2 \<and> tool_invocations evs \<noteq> []) \<and>
   (model_response w' \<lparr>req_messages = chat_messages c, req_tools = Some (chat_tools c)\<rparr> =
      Inr stream0' \<longrightarrow>
    fst (fst (collect_anthropic stream0' ([], 0, None))) \<noteq> [] \<longrightarrow>
    turns (anthropic_turn w' c) (Suc 0) 0 (chat_messages c) = (evs', msgs', None) \<longrightarrow>
      anthropic_run w' c 1 = evs' \<and> length (model_calls evs') = 2 \<and>
      tool_invocations evs' \<noteq> [])"
proof -
  have o: "openai_run w c 1 = evs \<and> length (model_calls evs) = 2 \<and> tool_invocations evs \<noteq> []"
    if m: "model_response w \<lparr>req_messages = chat_messages c, req_tools = Some (chat_tools c)\<rparr> =
             Inr stream0"
      and n: "fst (fst (collect_openai stream0 ([], 0, []))) \<noteq> []"
      and t: "turns (openai_turn w c) (Suc 0) 0 (chat_messages c) = (evs, msgs, None)"
  proof -
    from one_turn [OF t] openai_turn_break [OF _ m] n
    have nx: "openai_turn w c 0 (chat_messages c) = (evs, msgs, NextTurn)" by blast
    from openai_turn_next [OF nx] have "length (model_calls evs) = 2" "tool_invocations evs \<noteq> []"
      by simp_all
    moreover from t have "openai_run w c 1 = evs" by (simp add: openai_run_def)
    ultimately show ?thesis by simp
  qed
  have a: "anthropic_run w' c 1 = evs' \<and> length (model_calls evs') = 2 \<and>
           tool_invocations evs' \<noteq> []"
    if m: "model_response w' \<lparr>req_messages = chat_messages c, req_tools = Some (chat_tools c)\<rparr> =
             Inr stream0'"
      and n: "fst (fst (collect_anthropic stream0' ([], 0, None))) \<noteq> []"
      and t: "turns (anthropic_turn w' c) (Suc 0) 0 (chat_messages c) = (evs', msgs', None)"
  proof -
    from one_turn [OF t] anthropic_turn_break [OF _ m] n
    have nx: "anthropic_turn w' c 0 (chat_messages c) = (evs', msgs', NextTurn)" by blast
    from anthropic_turn_next [OF nx]
    have "length (model_calls evs') = 2" "tool_invocations evs' \<noteq> []"
      by simp_all
    moreover from t have "anthropic_run w' c 1 = evs'" by (simp add: anthropic_run_def)
    ultimately show ?thesis by simp
  qed
  note b = openai_chat_calls [of w p] anthropic_chat_calls [of w' p]
  have po: "p_end pa = NextTurn \<and>
      (\<exists>pevs results follow.
         p_events pa =
           request_part (openai_analyzing (p_turn pa))
             \<lparr>req_messages = p_before pa, req_tools = Some (chat_tools c)\<rparr> outs @
           [openai_progress ''Using MCP tools to gather information...'',
            Append (assistant_tool_calls ftc)] @
           pevs @
           follow_up_part
             (openai_progress ''Information gathered. Formulating complete response...'')
             \<lparr>req_messages = p_after pa, req_tools = None\<rparr> follow \<and>
         model_response w \<lparr>req_messages = p_after pa, req_tools = None\<rparr> = Inr follow \<and>
         model_calls pevs = [] \<and>
         tool_invocations pevs = map fst results \<and>
         map Some results =
           map (served (json_loads w) (chat_client_manager c) (chat_tool_map c) ''openai'')
             (map snd ftc) \<and>
         p_after pa = p_before pa @ assistant_tool_calls ftc # map snd results)"
    if "pa \<in> set (passes (openai_turn w c) (nat k) 0 (chat_messages c))"
      and "model_response w \<lparr>req_messages = p_before pa, req_tools = Some (chat_tools c)\<rparr> =
             Inr stream"
      and "collect_openai stream ([], 0, []) = ((ftc, ti, buf), outs)"
      and "ftc \<noteq> []" and "\<not> raised (p_end pa)"
    using openai_tool_pass [OF that(2) that(3) that(4) passes_are_passes [OF that(1)] that(5)] .
  have pan: "p_end pa' = NextTurn \<and>
      (\<exists>blocks pevs results follow.
         convert_to_anthropic_tool_format (json_loads w') (map snd ftc') = Inr blocks \<and>
         p_events pa' =
           request_part (anthropic_analyzing (p_turn pa'))
             \<lparr>req_messages = p_before pa', req_tools = Some (chat_tools c)\<rparr> outs' @
           [Append (assistant_tool_use blocks),
            anthropic_progress ''Using MCP tools to gather information...''] @
           pevs @
           follow_up_part
             (anthropic_progress ''Information gathered. Formulating complete response...'')
             \<lparr>req_messages = p_after pa', req_tools = None\<rparr> follow \<and>
         model_response w' \<lparr>req_messages = p_after pa', req_tools = None\<rparr> = Inr follow \<and>
         model_calls pevs = [] \<and>
         tool_invocations pevs = map fst results \<and>
         map Some results =
           map (served (json_loads w') (chat_client_manager c) (chat_tool_map c) ''anthropic'')
             (map snd ftc') \<and>
         p_after pa' = p_before pa' @ assistant_tool_use blocks # map snd results)"
    if "pa' \<in> set (passes (anthropic_turn w' c) (nat k) 0 (chat_messages c))"
      and "model_response w' \<lparr>req_messages = p_before pa', req_tools = Some (chat_tools c)\<rparr> =
             Inr stream'"
      and "collect_anthropic stream' ([], 0, None) = ((ftc', ti', cur'), outs')"
      and "ftc' \<noteq> []" and "\<not> raised (p_end pa')"
    using anthropic_tool_pass [OF that(2) that(3) that(4) passes_are_passes [OF that(1)] that(5)] .
  show ?thesis
    apply (intro conjI impI)
    using b apply blast
    using b apply blast
    using b apply blast
    using b apply blast
    apply (rule openai_run_passes)
    apply (rule passes_length)
    using po apply blast
    using po apply blast
    apply (rule anthropic_run_passes)
    apply (rule passes_length)
    using pan apply blast
    using pan apply blast
    using o apply blast
    using o apply blast
    using o apply blast
    using a apply blast
    using a apply blast
    using a apply blast
    done
qed

theorem turn_budget_bounds_model_calls_witness:
  "second_pass \<in> set (passes (openai_turn always_search sample_chat) (nat 2) 0
                         (chat_messages sample_chat)) \<and>
   p_turn second_pass = 1 \<and>
   model_response always_search
     \<lparr>req_messages = p_before second_pass, req_tools = Some (chat_tools sample_chat)\<rparr> =
     Inr [name_delta ''search'' ''{}''] \<and>
   collect_openai [name_delta ''search'' ''{}''] ([], 0, []) =
     (([(0, search_call)], 1, []), [Passthrough (name_delta ''search'' ''{}'')]) \<and>
   [(0 :: int, search_call)] \<noteq> [] \<and>
   \<not> raised (p_end second_pass) \<and>
   served (json_loads always_search) (chat_client_manager sample_chat)
     (chat_tool_map sample_chat) ''openai'' search_call =
     Some ((''search'', JObj []), answer_message) \<and>
   p_end second_pass = NextTurn \<and>
   (\<exists>pevs results follow.
      p_events second_pass =
        request_part (openai_analyzing (p_turn second_pass))
          \<lparr>req_messages = p_before second_pass, req_tools = Some (chat_tools sample_chat)\<rparr>
          [Passthrough (name_delta ''search'' ''{}'')] @
        [openai_progress ''Using MCP tools to gather information...'',
            Append (assistant_tool_calls [(0, search_call)])] @
        pevs @
        follow_up_part
          (openai_progress ''Information gathered. Formulating complete response...'')
          \<lparr>req_messages = p_after second_pass, req_tools = None\<rparr> follow \<and>
      model_response always_search \<lparr>req_messages = p_after second_pass, req_tools = None\<rparr> = Inr follow \<and>
      model_calls pevs = [] \<and>
      tool_invocations pevs = map fst results \<and>
      map Some results =
        map (served (json_loads always_search) (chat_client_manager sample_chat)
               (chat_tool_map sample_chat) ''openai'')
          (map snd [(0 :: int, search_call)]) \<and>
      p_after second_pass = p_before second_pass @ assistant_tool_calls [(0, search_call)] # map snd results) \<and>
   second_pass_anthropic \<in>
     set (passes (anthropic_turn always_search_anthropic sample_chat) (nat 2) 0
            (chat_messages sample_chat)) \<and>
   p_turn second_pass_anthropic = 1 \<and>
   model_response always_search_anthropic
     \<lparr>req_messages = p_before second_pass_anthropic,
      req_tools = Some (chat_tools sample_chat)\<rparr> =
     Inr [tool_use_start ''toolu_1'' ''search'', json_delta ''{}''] \<and>
   collect_anthropic [tool_use_start ''toolu_1'' ''search'', json_delta ''{}''] ([], 0, None) =
     (([(0, search_call_anthropic)], 1, Some 0),
      [Passthrough (tool_use_start ''toolu_1'' ''search''), Passthrough (json_delta ''{}'')]) \<and>
   [(0 :: int, search_call_anthropic)] \<noteq> [] \<and>
   \<not> raised (p_end second_pass_anthropic) \<and>
   served (json_loads always_search_anthropic) (chat_client_manager sample_chat)
     (chat_tool_map sample_chat) ''anthropic'' search_call_anthropic =
     Some ((''search'', JObj []), answer_message_anthropic) \<and>
   p_end second_pass_anthropic = NextTurn \<and>
   (\<exists>blocks pevs results follow.
      convert_to_anthropic_tool_format (json_loads always_search_anthropic)
        (map snd [(0 :: int, search_call_anthropic)]) = Inr blocks \<and>
      p_events second_pass_anthropic =
        request_part (anthropic_analyzing (p_turn second_pass_anthropic))
          \<lparr>req_messages = p_before second_pass_anthropic, req_tools = Some (chat_tools sample_chat)\<rparr>
          [Passthrough (tool_use_start ''toolu_1'' ''search''), Passthrough (json_delta ''{}'')] @
        [Append (assistant_tool_use blocks),
            anthropic_progress ''Using MCP tools to gather information...''] @
        pevs @
        follow_up_part
          (anthropic_progress ''Information gathered. Formulating complete response...'')
          \<lparr>req_messages = p_after second_pass_anthropic, req_tools = None\<rparr> follow \<and>
      model_response always_search_anthropic \<lparr>req_messages = p_after second_pass_anthropic, req_tools = None\<rparr> = Inr follow \<and>
      model_calls pevs = [] \<and>
      tool_invocations pevs = map fst results \<and>
      map Some results =
        map (served (json_loads always_search_anthropic) (chat_client_manager sample_chat)
               (chat_tool_map sample_chat) ''anthropic'')
          (map snd [(0 :: int, search_call_anthropic)]) \<and>
      p_after second_pass_anthropic = p_before second_pass_anthropic @ assistant_tool_use blocks # map snd results) \<and>
   model_response always_search
     \<lparr>req_messages = chat_messages sample_chat, req_tools = Some (chat_tools sample_chat)\<rparr> =
     Inr [name_delta ''search'' ''{}''] \<and>
   fst (fst (collect_openai [name_delta ''search'' ''{}''] ([], 0, []))) \<noteq> [] \<and>
   snd (snd (turns (openai_turn always_search sample_chat) (Suc 0) 0
               (chat_messages sample_chat))) = None \<and>
   length (model_calls (openai_run always_search sample_chat 1)) = 2 \<and>
   tool_invocations (openai_run always_search sample_chat 1) \<noteq> [] \<and>
   model_response always_search_anthropic
     \<lparr>req_messages = chat_messages sample_chat, req_tools = Some (chat_tools sample_chat)\<rparr> =
     Inr [tool_use_start ''toolu_1'' ''search'', json_delta ''{}''] \<and>
   fst (fst (collect_anthropic [tool_use_start ''toolu_1'' ''search'', json_delta ''{}'']
               ([], 0, None))) \<noteq> [] \<and>
   snd (snd (turns (anthropic_turn always_search_anthropic sample_chat) (Suc 0) 0
               (chat_messages sample_chat))) = None \<and>
   length (model_calls (anthropic_run always_search_anthropic sample_chat 1)) = 2 \<and>
   tool_invocations (anthropic_run always_search_anthropic sample_chat 1) \<noteq> [] \<and>
   length (model_calls (process_openai_stream_chat always_search one_turn_chat))
     \<le> 2 * nat (cfg_max_turns one_turn_chat)"
proof -
  have h1: "second_pass \<in> set (passes (openai_turn always_search sample_chat) (nat 2) 0
                         (chat_messages sample_chat))"
    by (rule second_pass_in)
  have h1b: "p_turn second_pass = 1"
    by (simp add: second_pass_is)
  have h2: "model_response always_search
     \<lparr>req_messages = p_before second_pass, req_tools = Some (chat_tools sample_chat)\<rparr> =
     Inr [name_delta ''search'' ''{}'']"
    by (simp add: always_search_def)
  note h3 = always_search_collect
  have h4: "[(0 :: int, search_call)] \<noteq> []"
    by simp
  have h5: "\<not> raised (p_end second_pass)"
    by (simp add: second_pass_is)
  have sv: "served (json_loads always_search) (chat_client_manager sample_chat)
     (chat_tool_map sample_chat) ''openai'' search_call =
     Some ((''search'', JObj []), answer_message)"
    by (simp add: served_def always_search_def sample_chat_def search_call_def sample_loads_def
        call_tool_def session_a_def str_of_observation_def create_tool_result_message_def
        lower_openai answer_message_def)
  have g1: "second_pass_anthropic \<in>
     set (passes (anthropic_turn always_search_anthropic sample_chat) (nat 2) 0
            (chat_messages sample_chat))"
    by (rule second_pass_anthropic_in)
  have g1b: "p_turn second_pass_anthropic = 1"
    by (simp add: second_pass_anthropic_is)
  have g2: "model_response always_search_anthropic
     \<lparr>req_messages = p_before second_pass_anthropic,
      req_tools = Some (chat_tools sample_chat)\<rparr> =
     Inr [tool_use_start ''toolu_1'' ''search'', json_delta ''{}'']"
    by (simp add: always_search_anthropic_def)
  note g3 = always_search_anthropic_collect
  have g4: "[(0 :: int, search_call_anthropic)] \<noteq> []"
    by simp
  have g5: "\<not> raised (p_end second_pass_anthropic)"
    by (simp add: second_pass_anthropic_is)
  have sv': "served (json_loads always_search_anthropic) (chat_client_manager sample_chat)
     (chat_tool_map sample_chat) ''anthropic'' search_call_anthropic =
     Some ((''search'', JObj []), answer_message_anthropic)"
    by (simp add: served_def always_search_anthropic_def sample_chat_def
        search_call_anthropic_def sample_loads_def
        call_tool_def session_a_def str_of_observation_def create_tool_result_message_def
        lower_anthropic answer_message_anthropic_def)
  have m: "model_response always_search
     \<lparr>req_messages = chat_messages sample_chat, req_tools = Some (chat_tools sample_chat)\<rparr> =
     Inr [name_delta ''search'' ''{}'']"
    by (simp add: always_search_def)
  have n: "fst (fst (collect_openai [name_delta ''search'' ''{}''] ([], 0, []))) \<noteq> []"
    unfolding always_search_collect by simp
  have r: "snd (snd (turns (openai_turn always_search sample_chat) (Suc 0) 0
               (chat_messages sample_chat))) = None"
    by (simp add: split_beta always_search_pass)
  then have t: "turns (openai_turn always_search sample_chat) (Suc 0) 0 (chat_messages sample_chat) =
     (fst (turns (openai_turn always_search sample_chat) (Suc 0) 0 (chat_messages sample_chat)),
      fst (snd (turns (openai_turn always_search sample_chat) (Suc 0) 0
                  (chat_messages sample_chat))),
      None)"
    by (simp add: prod_eq_iff)
  have m': "model_response always_search_anthropic
     \<lparr>req_messages = chat_messages sample_chat, req_tools = Some (chat_tools sample_chat)\<rparr> =
     Inr [tool_use_start ''toolu_1'' ''search'', json_delta ''{}'']"
    by (simp add: always_search_anthropic_def)
  have n': "fst (fst (collect_anthropic [tool_use_start ''toolu_1'' ''search'', json_delta ''{}'']
               ([], 0, None))) \<noteq> []"
    unfolding always_search_anthropic_collect by simp
  have r': "snd (snd (turns (anthropic_turn always_search_anthropic sample_chat) (Suc 0) 0
               (chat_messages sample_chat))) = None"
    by (simp add: split_beta always_search_anthropic_pass)
  then have t': "turns (anthropic_turn always_search_anthropic sample_chat) (Suc 0) 0
       (chat_messages sample_chat) =
     (fst (turns (anthropic_turn always_search_anthropic sample_chat) (Suc 0) 0
             (chat_messages sample_chat)),
      fst (snd (turns (anthropic_turn always_search_anthropic sample_chat) (Suc 0) 0
                  (chat_messages sample_chat))),
      None)"
    by (simp add: prod_eq_iff)
  note th = turn_budget_bounds_model_calls
    [where w = always_search and p = one_turn_chat and w' = always_search_anthropic
       and c = sample_chat and k = 2
       and pa = second_pass and stream = "[name_delta ''search'' ''{}'']"
       and ftc = "[(0, search_call)]" and ti = 1 and buf = "[]"
       and outs = "[Passthrough (name_delta ''search'' ''{}'')]"
       and pa' = second_pass_anthropic
       and stream' = "[tool_use_start ''toolu_1'' ''search'', json_delta ''{}'']"
       and ftc' = "[(0, search_call_anthropic)]" and ti' = 1 and cur' = "Some 0"
       and outs' = "[Passthrough (tool_use_start ''toolu_1'' ''search''),
                     Passthrough (json_delta ''{}'')]"
       and ?stream0.0 = "[name_delta ''search'' ''{}'']"
       and evs = "fst (turns (openai_turn always_search sample_chat) (Suc 0) 0
                         (chat_messages sample_chat))"
       and msgs = "fst (snd (turns (openai_turn always_search sample_chat) (Suc 0) 0
                               (chat_messages sample_chat)))"
       and stream0' = "[tool_use_start ''toolu_1'' ''search'', json_delta ''{}'']"
       and evs' = "fst (turns (anthropic_turn always_search_anthropic sample_chat) (Suc 0) 0
                          (chat_messages sample_chat))"
       and msgs' = "fst (snd (turns (anthropic_turn always_search_anthropic sample_chat)
                                (Suc 0) 0 (chat_messages sample_chat)))"]
  note oc = th [THEN conjunct2, THEN conjunct2, THEN conjunct2, THEN conjunct2, THEN conjunct2, THEN conjunct2, THEN conjunct1, THEN mp, THEN mp, THEN mp, THEN mp, THEN mp, OF h1 h2 h3 h4 h5]
  note ac = th [THEN conjunct2, THEN conjunct2, THEN conjunct2, THEN conjunct2, THEN conjunct2, THEN conjunct2, THEN conjunct2, THEN conjunct2, THEN conjunct2, THEN conjunct1, THEN mp, THEN mp, THEN mp, THEN mp, THEN mp, OF g1 g2 g3 g4 g5]
  note o0 = th [THEN conjunct2, THEN conjunct2, THEN conjunct2, THEN conjunct2, THEN conjunct2, THEN conjunct2, THEN conjunct2, THEN conjunct2, THEN conjunct2, THEN conjunct2, THEN conjunct1, THEN mp, THEN mp, THEN mp, OF m n t]
  note a0 = th [THEN conjunct2, THEN conjunct2, THEN conjunct2, THEN conjunct2, THEN conjunct2, THEN conjunct2, THEN conjunct2, THEN conjunct2, THEN conjunct2, THEN conjunct2, THEN conjunct2, THEN mp, THEN mp, THEN mp, OF m' n' t']
  from o0 have o:
    "length (model_calls (openai_run always_search sample_chat 1)) = 2"
    "tool_invocations (openai_run always_search sample_chat 1) \<noteq> []"
    by simp_all
  from a0 have a:
    "length (model_calls (anthropic_run always_search_anthropic sample_chat 1)) = 2"
    "tool_invocations (anthropic_run always_search_anthropic sample_chat 1) \<noteq> []"
    by simp_all
  note b = th [THEN conjunct2, THEN conjunct1]
  note oc1 = oc [THEN conjunct1]
  note oc2 = oc [THEN conjunct2]
  note ac1 = ac [THEN conjunct1]
  note ac2 = ac [THEN conjunct2]
  show ?thesis
    by (intro conjI h1 h1b h2 h3 h4 h5 sv oc1 oc2 g1 g1b g2 g3 g4 g5 sv' ac1 ac2 m n r o m' n' r' a b)
qed

text \<open>
  C1 as stated fails in its second half: with \<open>max_turns = 1\<close> and a model that asks
  for \<open>search\<close> in every response, the run sends two requests to the model and
  invokes \<open>search\<close>.
\<close>

theorem one_turn_run_calls_model_twice:
  "cfg_max_turns one_turn_chat = 1 \<and>
   length (model_calls (process_openai_stream_chat always_search one_turn_chat)) = 2 \<and>
   tool_invocations (process_openai_stream_chat always_search one_turn_chat) = [(''search'', JObj [])]"
  by (simp add: process_openai_stream_chat_def always_search_def one_turn_chat_def servers_of_def
      setup_sample openai_run_def openai_turn_def Let_def name_delta_def
      process_openai_chunk_def accumulate_tool_call_def str_or_def str_nat_0
      process_tool_calls_def create_llm_chunk_def lower_openai call_tool_def session_a_def
      sample_loads_def str_of_observation_def create_tool_result_message_def
      openai_progress_def)

section \<open>Tool calls that cannot be served\<close>

lemma call_tool_not_found: "tm n = None \<Longrightarrow> call_tool m n a tm = Inr None"
  by (simp add: call_tool_def)

lemma loop_all_unknown:
  "list_all (unknown_and_parsed loads tm) calls \<Longrightarrow>
   \<exists>evs :: 'c event list. process_tool_calls_loop loads m tm ''openai'' calls msgs =
           (evs, msgs @ map not_found_result calls, None)"
proof (induction calls arbitrary: msgs)
  case Nil
  then show ?case by simp
next
  case (Cons call rest)
  from Cons.prems obtain a where a: "loads (function_arguments call) = Inr a"
    by (cases "loads (function_arguments call)") (simp_all add: unknown_and_parsed_def)
  from Cons.prems have u: "tm (function_name call) = None"
    by (simp add: unknown_and_parsed_def)
  from Cons.prems have "list_all (unknown_and_parsed loads tm) rest" by simp
  from Cons.IH [OF this, of "msgs @ [not_found_result call]"]
  obtain evs :: "'c event list" where
    "process_tool_calls_loop loads m tm ''openai'' rest (msgs @ [not_found_result call]) =
       (evs, (msgs @ [not_found_result call]) @ map not_found_result rest, None)" by blast
  moreover have "create_tool_result_message (call_id call) ''None'' ''openai'' =
      not_found_result call"
    by (simp add: create_tool_result_message_def lower_openai not_found_result_def)
  ultimately show ?case using a u
    by (simp add: create_llm_chunk_def lower_openai call_tool_not_found str_of_observation_def
        Let_def)
qed

lemma openai_turn_unknown_tools:
  assumes m: "model_response w \<lparr>req_messages = msgs, req_tools = Some (chat_tools c)\<rparr> = Inr stream"
    and col: "collect_openai stream ([], 0, []) = ((ftc, ti, buf), outs)"
    and ne: "ftc \<noteq> []"
    and u: "list_all (unknown_and_parsed (json_loads w) (chat_tool_map c)) (map snd ftc)"
  shows "\<exists>evs r. openai_turn w c turn msgs =
             (evs, msgs @ assistant_tool_calls ftc # map not_found_result (map snd ftc), r) \<and>
           r \<noteq> Break \<and>
           map fst (tool_invocations evs) = map function_name (map snd ftc) \<and>
           model_calls evs =
             [\<lparr>req_messages = msgs, req_tools = Some (chat_tools c)\<rparr>,
              \<lparr>req_messages = msgs @ assistant_tool_calls ftc # map not_found_result (map snd ftc),
               req_tools = None\<rparr>]"
proof -
  let ?msgs' = "msgs @ assistant_tool_calls ftc # map not_found_result (map snd ftc)"
  from loop_all_unknown [OF u, of "chat_client_manager c" "msgs @ [assistant_tool_calls ftc]"]
  obtain levs :: "openai_chunk event list" where l: "process_tool_calls_loop (json_loads w) (chat_client_manager c) (chat_tool_map c)
       ''openai'' (map snd ftc) (msgs @ [assistant_tool_calls ftc]) = (levs, ?msgs', None)"
    by auto
  have p: "process_tool_calls (json_loads w) (chat_client_manager c) (chat_tool_map c)
       ''openai'' ftc (msgs @ [assistant_tool_calls ftc]) =
       (levs @ [Yield (Custom (OpenAICompatibleChunk PROGRESS ''All tools executed successfully.''))],
        ?msgs', None)"
    using ne l by (simp add: process_tool_calls_def create_llm_chunk_def lower_openai)
  from process_tool_calls_model_calls [OF p] have pm: "model_calls levs = []"
    by (simp add: model_calls_append)
  from process_tool_calls_invocations [OF p]
  have pi: "map fst (tool_invocations levs) = map function_name (map snd ftc)"
    by (simp add: tool_invocations_append)
  show ?thesis
  proof (cases "model_response w \<lparr>req_messages = ?msgs', req_tools = None\<rparr>")
    case (Inl e)
    with m col ne p pm pi show ?thesis
      by (simp add: openai_turn_def Let_def assistant_tool_calls_def [symmetric]
          model_calls_append model_calls_yields tool_invocations_append tool_invocations_yields
          openai_progress_def)
  next
    case (Inr follow)
    with m col ne p pm pi show ?thesis
      by (simp add: openai_turn_def Let_def assistant_tool_calls_def [symmetric]
          model_calls_append model_calls_yields tool_invocations_append tool_invocations_yields
          model_calls_passthrough tool_invocations_passthrough openai_progress_def)
  qed
qed

lemma loop_all_unknown_anthropic:
  "list_all (unknown_and_parsed loads tm) calls \<Longrightarrow>
   \<exists>evs :: 'c event list. process_tool_calls_loop loads m tm ''anthropic'' calls msgs =
           (evs, msgs @ map anthropic_not_found_result calls, None)"
proof (induction calls arbitrary: msgs)
  case Nil
  then show ?case by simp
next
  case (Cons call rest)
  from Cons.prems obtain a where a: "loads (function_arguments call) = Inr a"
    by (cases "loads (function_arguments call)") (simp_all add: unknown_and_parsed_def)
  from Cons.prems have u: "tm (function_name call) = None"
    by (simp add: unknown_and_parsed_def)
  from Cons.prems have "list_all (unknown_and_parsed loads tm) rest" by simp
  from Cons.IH [OF this, of "msgs @ [anthropic_not_found_result call]"]
  obtain evs :: "'c event list" where
    "process_tool_calls_loop loads m tm ''anthropic'' rest (msgs @ [anthropic_not_found_result call]) =
       (evs, (msgs @ [anthropic_not_found_result call]) @ map anthropic_not_found_result rest, None)"
    by blast
  moreover have "create_tool_result_message (call_id call) ''None'' ''anthropic'' =
      anthropic_not_found_result call"
    by (simp add: create_tool_result_message_def lower_anthropic anthropic_not_found_result_def)
  ultimately show ?case using a u
    by (simp add: create_llm_chunk_def lower_anthropic call_tool_not_found str_of_observation_def
        Let_def)
qed

lemma convert_parsed:
  "list_all (unknown_and_parsed loads tm) calls \<Longrightarrow>
   \<exists>blocks. convert_to_anthropic_tool_format loads calls = Inr blocks"
proof (induction calls)
  case Nil
  then show ?case by simp
next
  case (Cons call rest)
  from Cons.prems obtain a where "loads (function_arguments call) = Inr a"
    by (cases "loads (function_arguments call)") (simp_all add: unknown_and_parsed_def)
  moreover from Cons obtain blocks where "convert_to_anthropic_tool_format loads rest = Inr blocks"
    by auto
  ultimately show ?case by simp
qed

lemma anthropic_turn_unknown_tools:
  assumes m: "model_response w \<lparr>req_messages = msgs, req_tools = Some (chat_tools c)\<rparr> = Inr stream"
    and col: "collect_anthropic stream ([], 0, None) = ((ftc, ti, cur), outs)"
    and ne: "ftc \<noteq> []"
    and u: "list_all (unknown_and_parsed (json_loads w) (chat_tool_map c)) (map snd ftc)"
  shows "\<exists>evs r blocks.
           convert_to_anthropic_tool_format (json_loads w) (map snd ftc) = Inr blocks \<and>
           anthropic_turn w c turn msgs =
             (evs, msgs @ assistant_tool_use blocks #
                     map anthropic_not_found_result (map snd ftc), r) \<and>
           r \<noteq> Break \<and>
           map fst (tool_invocations evs) = map function_name (map snd ftc) \<and>
           model_calls evs =
             [\<lparr>req_messages = msgs, req_tools = Some (chat_tools c)\<rparr>,
              \<lparr>req_messages = msgs @ assistant_tool_use blocks #
                                map anthropic_not_found_result (map snd ftc),
               req_tools = None\<rparr>]"
proof -
  from convert_parsed [OF u] obtain blocks where
    b: "convert_to_anthropic_tool_format (json_loads w) (map snd ftc) = Inr blocks" by blast
  let ?msgs' = "msgs @ assistant_tool_use blocks # map anthropic_not_found_result (map snd ftc)"
  from loop_all_unknown_anthropic [OF u, of "chat_client_manager c" "msgs @ [assistant_tool_use blocks]"]
  obtain levs :: "anthropic_chunk event list" where
    l: "process_tool_calls_loop (json_loads w) (chat_client_manager c) (chat_tool_map c)
       ''anthropic'' (map snd ftc) (msgs @ [assistant_tool_use blocks]) = (levs, ?msgs', None)"
    by auto
  have p: "process_tool_calls (json_loads w) (chat_client_manager c) (chat_tool_map c)
       ''anthropic'' ftc (msgs @ [assistant_tool_use blocks]) =
       (levs @ [Yield (Custom (AnthropicCompatibleChunk PROGRESS ''All tools executed successfully.''))],
        ?msgs', None)"
    using ne l by (simp add: process_tool_calls_def create_llm_chunk_def lower_anthropic)
  from process_tool_calls_model_calls [OF p] have pm: "model_calls levs = []"
    by (simp add: model_calls_append)
  from process_tool_calls_invocations [OF p]
  have pi: "map fst (tool_invocations levs) = map function_name (map snd ftc)"
    by (simp add: tool_invocations_append)
  have "\<exists>evs r. anthropic_turn w c turn msgs = (evs, ?msgs', r) \<and> r \<noteq> Break \<and>
           map fst (tool_invocations evs) = map function_name (map snd ftc) \<and>
           model_calls evs =
             [\<lparr>req_messages = msgs, req_tools = Some (chat_tools c)\<rparr>,
              \<lparr>req_messages = ?msgs', req_tools = None\<rparr>]"
  proof (cases "model_response w \<lparr>req_messages = ?msgs', req_tools = None\<rparr>")
    case (Inl e)
    with m col ne b p pm pi show ?thesis
      by (simp add: anthropic_turn_def Let_def assistant_tool_use_def [symmetric]
          model_calls_append model_calls_yields tool_invocations_append tool_invocations_yields
          anthropic_progress_def)
  next
    case (Inr follow)
    with m col ne b p pm pi show ?thesis
      by (simp add: anthropic_turn_def Let_def assistant_tool_use_def [symmetric]
          model_calls_append model_calls_yields tool_invocations_append tool_invocations_yields
          model_calls_passthrough tool_invocations_passthrough anthropic_progress_def)
  qed
  with b show ?thesis by blast
qed

lemma loop_step_openai:
  assumes "loads (function_arguments call) = Inr a"
    and "call_tool m (function_name call) a tm = Inr observation"
  shows "process_tool_calls_loop loads m tm ''openai'' (call # rest) msgs =
      (case process_tool_calls_loop loads m tm ''openai'' rest
              (msgs @
               [JObj [(''role'', JStr ''tool''), (''tool_call_id'', JStr (call_id call)),
                      (''content'',
                       JStr (case observation of None \<Rightarrow> ''None'' | Some text \<Rightarrow> text))]]) of
         (evs, msgs', r) \<Rightarrow>
           ([Yield (Custom (OpenAICompatibleChunk PROGRESS
                      (''Executing tool: '' @ function_name call @ ''...''))),
             CallTool (function_name call) a,
             Append
               (JObj [(''role'', JStr ''tool''), (''tool_call_id'', JStr (call_id call)),
                      (''content'',
                       JStr (case observation of None \<Rightarrow> ''None'' | Some text \<Rightarrow> text))]),
             Yield (Custom (OpenAICompatibleChunk PROGRESS
                      (''Tool '' @ function_name call @ '' execution complete.'')))] @ evs,
            msgs', r))"
  using assms
  by (simp add: create_llm_chunk_def lower_openai create_tool_result_message_def
      str_of_observation_def Let_def)

lemma loop_step_anthropic:
  assumes "loads (function_arguments call) = Inr a"
    and "call_tool m (function_name call) a tm = Inr observation"
  shows "process_tool_calls_loop loads m tm ''anthropic'' (call # rest) msgs =
      (case process_tool_calls_loop loads m tm ''anthropic'' rest
              (msgs @
               [JObj [(''role'', JStr ''user''),
                      (''content'',
                       JArr [JObj [(''type'', JStr ''tool_result''),
                                   (''tool_use_id'', JStr (call_id call)),
                                   (''content'',
                                    JStr (case observation of None \<Rightarrow> ''None''
                                          | Some text \<Rightarrow> text))]])]]) of
         (evs, msgs', r) \<Rightarrow>
           ([Yield (Custom (AnthropicCompatibleChunk PROGRESS
                      (''Executing tool: '' @ function_name call @ ''...''))),
             CallTool (function_name call) a,
             Append
               (JObj [(''role'', JStr ''user''),
                      (''content'',
                       JArr [JObj [(''type'', JStr ''tool_result''),
                                   (''tool_use_id'', JStr (call_id call)),
                                   (''content'',
                                    JStr (case observation of None \<Rightarrow> ''None''
                                          | Some text \<Rightarrow> text))]])]),
             Yield (Custom (AnthropicCompatibleChunk PROGRESS
                      (''Tool '' @ function_name call @ '' execution complete.'')))] @ evs,
            msgs', r))"
  using assms
  by (simp add: create_llm_chunk_def lower_anthropic create_tool_result_message_def
      str_of_observation_def Let_def)

text \<open>
  C7 (amended). A tool name that is not a key of the routing table does not raise:
  \<open>call_tool\<close> returns \<open>None\<close>, and that the tool was not found is written to the log
  only. The tool loop reports every call that returns, this one included, by appending a
  tool-result message whose content is \<^verbatim>\<open>str(observation)\<close>, which is the answer of the
  tool when there is one and the text \<^verbatim>\<open>None\<close> for the observation \<open>None\<close>, and goes on
  with the calls that remain. When every tool call of a response names a tool that is
  not in the routing table (and its arguments parse), the pass invokes \<open>call_tool\<close> for
  each, appends after the assistant message one tool-result message per call whose
  content is the text \<^verbatim>\<open>None\<close>, and does not leave the loop: it sends the follow-up
  request, which carries these messages. This holds in both dialects.
\<close>

theorem unknown_tool_gives_none_result_and_follow_up:
  "(tm tool_name = None \<longrightarrow> call_tool m tool_name args tm = Inr None) \<and>
   (loads (function_arguments call) = Inr a \<longrightarrow>
    call_tool m (function_name call) a tm = Inr observation \<longrightarrow>
    process_tool_calls_loop loads m tm ''openai'' (call # rest) msgs0 =
      (case process_tool_calls_loop loads m tm ''openai'' rest
              (msgs0 @
               [JObj [(''role'', JStr ''tool''), (''tool_call_id'', JStr (call_id call)),
                      (''content'',
                       JStr (case observation of None \<Rightarrow> ''None'' | Some text \<Rightarrow> text))]]) of
         (evs, msgs', r) \<Rightarrow>
           ([Yield (Custom (OpenAICompatibleChunk PROGRESS
                      (''Executing tool: '' @ function_name call @ ''...''))),
             CallTool (function_name call) a,
             Append
               (JObj [(''role'', JStr ''tool''), (''tool_call_id'', JStr (call_id call)),
                      (''content'',
                       JStr (case observation of None \<Rightarrow> ''None'' | Some text \<Rightarrow> text))]),
             Yield (Custom (OpenAICompatibleChunk PROGRESS
                      (''Tool '' @ function_name call @ '' execution complete.'')))] @ evs,
            msgs', r))) \<and>
   (loads (function_arguments call') = Inr a' \<longrightarrow>
    call_tool m (function_name call') a' tm = Inr observation' \<longrightarrow>
    process_tool_calls_loop loads m tm ''anthropic'' (call' # rest') msgs0' =
      (case process_tool_calls_loop loads m tm ''anthropic'' rest'
              (msgs0' @
               [JObj [(''role'', JStr ''user''),
                      (''content'',
                       JArr [JObj [(''type'', JStr ''tool_result''),
                                   (''tool_use_id'', JStr (call_id call')),
                                   (''content'',
                                    JStr (case observation' of None \<Rightarrow> ''None''
                                          | Some text \<Rightarrow> text))]])]]) of
         (evs, msgs', r) \<Rightarrow>
           ([Yield (Custom (AnthropicCompatibleChunk PROGRESS
                      (''Executing tool: '' @ function_name call' @ ''...''))),
             CallTool (function_name call') a',
             Append
               (JObj [(''role'', JStr ''user''),
                      (''content'',
                       JArr [JObj [(''type'', JStr ''tool_result''),
                                   (''tool_use_id'', JStr (call_id call')),
                                   (''content'',
                                    JStr (case observation' of None \<Rightarrow> ''None''
                                          | Some text \<Rightarrow> text))]])]),
             Yield (Custom (AnthropicCompatibleChunk PROGRESS
                      (''Tool '' @ function_name call' @ '' execution complete.'')))] @ evs,
            msgs', r))) \<and>
   (model_response w \<lparr>req_messages = msgs, req_tools = Some (chat_tools c)\<rparr> = Inr stream \<longrightarrow>
    collect_openai stream ([], 0, []) = ((ftc, ti, buf), outs) \<longrightarrow>
    ftc \<noteq> [] \<longrightarrow>
    list_all (unknown_and_parsed (json_loads w) (chat_tool_map c)) (map snd ftc) \<longrightarrow>
      (\<exists>evs r. openai_turn w c turn msgs =
             (evs, msgs @ assistant_tool_calls ftc # map not_found_result (map snd ftc), r) \<and>
           r \<noteq> Break \<and>
           map fst (tool_invocations evs) = map function_name (map snd ftc) \<and>
           model_calls evs =
             [\<lparr>req_messages = msgs, req_tools = Some (chat_tools c)\<rparr>,
              \<lparr>req_messages = msgs @ assistant_tool_calls ftc # map not_found_result (map snd ftc),
               req_tools = None\<rparr>])) \<and>
   (model_response w' \<lparr>req_messages = msgs, req_tools = Some (chat_tools c)\<rparr> = Inr stream' \<longrightarrow>
    collect_anthropic stream' ([], 0, None) = ((ftc', ti', cur), outs') \<longrightarrow>
    ftc' \<noteq> [] \<longrightarrow>
    list_all (unknown_and_parsed (json_loads w') (chat_tool_map c)) (map snd ftc') \<longrightarrow>
      (\<exists>evs r blocks.
           convert_to_anthropic_tool_format (json_loads w') (map snd ftc') = Inr blocks \<and>
           anthropic_turn w' c turn msgs =
             (evs, msgs @ assistant_tool_use blocks #
                     map anthropic_not_found_result (map snd ftc'), r) \<and>
           r \<noteq> Break \<and>
           map fst (tool_invocations evs) = map function_name (map snd ftc') \<and>
           model_calls evs =
             [\<lparr>req_messages = msgs, req_tools = Some (chat_tools c)\<rparr>,
              \<lparr>req_messages = msgs @ assistant_tool_use blocks #
                                map anthropic_not_found_result (map snd ftc'),
               req_tools = None\<rparr>]))"
  using call_tool_not_found [of tm tool_name m args]
    loop_step_openai [of loads call a m tm observation rest msgs0]
    loop_step_anthropic [of loads call' a' m tm observation' rest' msgs0']
    openai_turn_unknown_tools [of w msgs c stream ftc ti buf outs turn]
    anthropic_turn_unknown_tools [of w' msgs c stream' ftc' ti' cur outs' turn]
  by blast

theorem unknown_tool_gives_none_result_and_follow_up_witness:
  "chat_tool_map sample_chat ''lookup'' = None \<and>
   call_tool (chat_client_manager sample_chat) ''lookup'' (JObj []) (chat_tool_map sample_chat) =
     Inr None \<and>
   sample_loads (function_arguments (lookup_entry ''call_0'')) = Inr (JObj []) \<and>
   call_tool (chat_client_manager sample_chat) (function_name (lookup_entry ''call_0''))
     (JObj []) (chat_tool_map sample_chat) = Inr None \<and>
   process_tool_calls_loop sample_loads (chat_client_manager sample_chat)
     (chat_tool_map sample_chat) ''openai'' [lookup_entry ''call_0''] [user_message] =
     ([Yield (Custom (OpenAICompatibleChunk PROGRESS ''Executing tool: lookup...'')),
       CallTool ''lookup'' (JObj []),
       Append (not_found_result (lookup_entry ''call_0'')),
       Yield (Custom (OpenAICompatibleChunk PROGRESS ''Tool lookup execution complete.'')) ::
         openai_chunk event],
      [user_message, not_found_result (lookup_entry ''call_0'')], None) \<and>
   sample_loads (function_arguments (lookup_entry ''toolu_1'')) = Inr (JObj []) \<and>
   call_tool (chat_client_manager sample_chat) (function_name (lookup_entry ''toolu_1''))
     (JObj []) (chat_tool_map sample_chat) = Inr None \<and>
   process_tool_calls_loop sample_loads (chat_client_manager sample_chat)
     (chat_tool_map sample_chat) ''anthropic'' [lookup_entry ''toolu_1''] [user_message] =
     ([Yield (Custom (AnthropicCompatibleChunk PROGRESS ''Executing tool: lookup...'')),
       CallTool ''lookup'' (JObj []),
       Append (anthropic_not_found_result (lookup_entry ''toolu_1'')),
       Yield (Custom (AnthropicCompatibleChunk PROGRESS ''Tool lookup execution complete.'')) ::
         anthropic_chunk event],
      [user_message, anthropic_not_found_result (lookup_entry ''toolu_1'')], None) \<and>
   model_response asks_lookup
     \<lparr>req_messages = [user_message], req_tools = Some (chat_tools sample_chat)\<rparr> =
     Inr [name_delta ''lookup'' ''{}''] \<and>
   collect_openai [name_delta ''lookup'' ''{}''] ([], 0, []) =
     (([(0, lookup_entry ''call_0'')], 1, []), [Passthrough (name_delta ''lookup'' ''{}'')]) \<and>
   list_all (unknown_and_parsed (json_loads asks_lookup) (chat_tool_map sample_chat))
     (map snd [(0::int, lookup_entry ''call_0'')]) \<and>
   (\<exists>evs r. openai_turn asks_lookup sample_chat 0 [user_message] =
        (evs, [user_message, assistant_tool_calls [(0, lookup_entry ''call_0'')],
               not_found_result (lookup_entry ''call_0'')], r) \<and>
      r \<noteq> Break \<and>
      tool_invocations evs = [(''lookup'', JObj [])]) \<and>
   model_response asks_lookup_anthropic
     \<lparr>req_messages = [user_message], req_tools = Some (chat_tools sample_chat)\<rparr> =
     Inr [tool_use_start ''toolu_1'' ''lookup'', json_delta ''{}''] \<and>
   collect_anthropic [tool_use_start ''toolu_1'' ''lookup'', json_delta ''{}''] ([], 0, None) =
     (([(0, lookup_entry ''toolu_1'')], 1, Some 0),
      [Passthrough (tool_use_start ''toolu_1'' ''lookup''), Passthrough (json_delta ''{}'')]) \<and>
   list_all (unknown_and_parsed (json_loads asks_lookup_anthropic) (chat_tool_map sample_chat))
     (map snd [(0::int, lookup_entry ''toolu_1'')]) \<and>
   (\<exists>evs r blocks. anthropic_turn asks_lookup_anthropic sample_chat 0 [user_message] =
        (evs, [user_message, assistant_tool_use blocks,
               anthropic_not_found_result (lookup_entry ''toolu_1'')], r) \<and>
      r \<noteq> Break)"
proof -
  have a: "chat_tool_map sample_chat ''lookup'' = None"
    by (simp add: sample_chat_def)
  have m: "model_response asks_lookup
     \<lparr>req_messages = [user_message], req_tools = Some (chat_tools sample_chat)\<rparr> =
     Inr [name_delta ''lookup'' ''{}'']"
    by (simp add: asks_lookup_def)
  have col: "collect_openai [name_delta ''lookup'' ''{}''] ([], 0, []) =
     (([(0, lookup_entry ''call_0'')], 1, []), [Passthrough (name_delta ''lookup'' ''{}'')])"
    by (simp add: name_delta_def process_openai_chunk_def accumulate_tool_call_def str_or_def
        str_nat_0 lookup_entry_def)
  have ne: "[(0::int, lookup_entry ''call_0'')] \<noteq> []" by simp
  have u: "list_all (unknown_and_parsed (json_loads asks_lookup) (chat_tool_map sample_chat))
     (map snd [(0::int, lookup_entry ''call_0'')])"
    by (simp add: unknown_and_parsed_def asks_lookup_def sample_loads_def lookup_entry_def
        sample_chat_def)
  have m': "model_response asks_lookup_anthropic
     \<lparr>req_messages = [user_message], req_tools = Some (chat_tools sample_chat)\<rparr> =
     Inr [tool_use_start ''toolu_1'' ''lookup'', json_delta ''{}'']"
    by (simp add: asks_lookup_anthropic_def)
  have col': "collect_anthropic [tool_use_start ''toolu_1'' ''lookup'', json_delta ''{}'']
       ([], 0, None) =
     (([(0, lookup_entry ''toolu_1'')], 1, Some 0),
      [Passthrough (tool_use_start ''toolu_1'' ''lookup''), Passthrough (json_delta ''{}'')])"
    by (simp add: tool_use_start_def json_delta_def process_anthropic_chunk_def lookup_entry_def)
  have u': "list_all (unknown_and_parsed (json_loads asks_lookup_anthropic)
       (chat_tool_map sample_chat)) (map snd [(0::int, lookup_entry ''toolu_1'')])"
    by (simp add: unknown_and_parsed_def asks_lookup_anthropic_def sample_loads_def
        lookup_entry_def sample_chat_def)
  note th = unknown_tool_gives_none_result_and_follow_up
    [where tm = "chat_tool_map sample_chat" and tool_name = "''lookup''"
       and m = "chat_client_manager sample_chat" and args = "JObj []"
       and loads = sample_loads and call = "lookup_entry ''call_0''" and a = "JObj []"
       and rest = "[]" and ?msgs0.0 = "[user_message]"
       and observation = None
       and call' = "lookup_entry ''toolu_1''" and a' = "JObj []" and observation' = None
       and rest' = "[]" and ?msgs0'.0 = "[user_message]"
       and w = asks_lookup and msgs = "[user_message]" and c = sample_chat
       and stream = "[name_delta ''lookup'' ''{}'']"
       and ftc = "[(0, lookup_entry ''call_0'')]" and ti = 1 and buf = "[]"
       and outs = "[Passthrough (name_delta ''lookup'' ''{}'')]" and turn = 0
       and w' = asks_lookup_anthropic
       and stream' = "[tool_use_start ''toolu_1'' ''lookup'', json_delta ''{}'']"
       and ftc' = "[(0, lookup_entry ''toolu_1'')]" and ti' = 1 and cur = "Some 0"
       and outs' = "[Passthrough (tool_use_start ''toolu_1'' ''lookup''),
                     Passthrough (json_delta ''{}'')]"]
  have p: "sample_loads (function_arguments (lookup_entry ''call_0'')) = Inr (JObj [])"
    by (simp add: sample_loads_def lookup_entry_def)
  have q: "call_tool (chat_client_manager sample_chat) (function_name (lookup_entry ''call_0''))
     (JObj []) (chat_tool_map sample_chat) = Inr None"
    by (simp add: call_tool_def sample_chat_def lookup_entry_def)
  have s0: "process_tool_calls_loop sample_loads (chat_client_manager sample_chat)
     (chat_tool_map sample_chat) ''openai'' [lookup_entry ''call_0''] [user_message] =
     ([Yield (Custom (OpenAICompatibleChunk PROGRESS ''Executing tool: lookup...'')),
       CallTool ''lookup'' (JObj []),
       Append (not_found_result (lookup_entry ''call_0'')),
       Yield (Custom (OpenAICompatibleChunk PROGRESS ''Tool lookup execution complete.'')) ::
         openai_chunk event],
      [user_message, not_found_result (lookup_entry ''call_0'')], None)"
    using th [THEN conjunct2, THEN conjunct1, THEN mp, THEN mp, OF p q]
    by (simp add: lookup_entry_def not_found_result_def)
  have p': "sample_loads (function_arguments (lookup_entry ''toolu_1'')) = Inr (JObj [])"
    by (simp add: sample_loads_def lookup_entry_def)
  have q': "call_tool (chat_client_manager sample_chat) (function_name (lookup_entry ''toolu_1''))
     (JObj []) (chat_tool_map sample_chat) = Inr None"
    by (simp add: call_tool_def sample_chat_def lookup_entry_def)
  have s0': "process_tool_calls_loop sample_loads (chat_client_manager sample_chat)
     (chat_tool_map sample_chat) ''anthropic'' [lookup_entry ''toolu_1''] [user_message] =
     ([Yield (Custom (AnthropicCompatibleChunk PROGRESS ''Executing tool: lookup...'')),
       CallTool ''lookup'' (JObj []),
       Append (anthropic_not_found_result (lookup_entry ''toolu_1'')),
       Yield (Custom (AnthropicCompatibleChunk PROGRESS ''Tool lookup execution complete.'')) ::
         anthropic_chunk event],
      [user_message, anthropic_not_found_result (lookup_entry ''toolu_1'')], None)"
    using th [THEN conjunct2, THEN conjunct2, THEN conjunct1, THEN mp, THEN mp, OF p' q']
    by (simp add: lookup_entry_def anthropic_not_found_result_def)
  from th a have c1: "call_tool (chat_client_manager sample_chat) ''lookup'' (JObj [])
      (chat_tool_map sample_chat) = Inr None"
    by blast
  from th m col ne u obtain evs r where
    o: "openai_turn asks_lookup sample_chat 0 [user_message] =
        (evs, [user_message] @ assistant_tool_calls [(0, lookup_entry ''call_0'')] #
                map not_found_result (map snd [(0::int, lookup_entry ''call_0'')]), r)"
      "r \<noteq> Break"
      "map fst (tool_invocations evs) = map function_name (map snd [(0::int, lookup_entry ''call_0'')])"
    by blast
  have ti: "tool_invocations evs = [(''lookup'', JObj [])]"
    using o(1)
    by (auto simp: asks_lookup_def sample_chat_def openai_turn_def Let_def name_delta_def
      process_openai_chunk_def accumulate_tool_call_def str_or_def str_nat_0
      process_tool_calls_def create_llm_chunk_def lower_openai call_tool_def
      sample_loads_def str_of_observation_def create_tool_result_message_def
      openai_progress_def)
  from o ti have c2: "\<exists>evs r. openai_turn asks_lookup sample_chat 0 [user_message] =
        (evs, [user_message, assistant_tool_calls [(0, lookup_entry ''call_0'')],
               not_found_result (lookup_entry ''call_0'')], r) \<and>
      r \<noteq> Break \<and>
      tool_invocations evs = [(''lookup'', JObj [])]"
    by auto
  have ne': "[(0::int, lookup_entry ''toolu_1'')] \<noteq> []" by simp
  from th m' col' ne' u' have c3: "\<exists>evs r blocks.
      anthropic_turn asks_lookup_anthropic sample_chat 0 [user_message] =
        (evs, [user_message, assistant_tool_use blocks,
               anthropic_not_found_result (lookup_entry ''toolu_1'')], r) \<and>
      r \<noteq> Break"
    by auto
  show ?thesis by (intro conjI a c1 p q s0 p' q' s0' m col u c2 m' col' u' c3)
qed

text \<open>
  C7 as stated fails in its second part: the content of the tool-result message does
  not signal that the tool was not found. With a backend whose tool \<open>search\<close> answers
  the text \<^verbatim>\<open>None\<close>, the message appended for the call of \<open>lookup\<close>, which is not in
  the routing table, is the message appended for the call of \<open>search\<close>, which is served.
\<close>

theorem unknown_tool_result_is_that_of_a_served_tool:
  "chat_tool_map none_chat ''lookup'' = None \<and>
   chat_tool_map none_chat ''search'' = Some ''A'' \<and>
   call_tool (chat_client_manager none_chat) ''lookup'' (JObj []) (chat_tool_map none_chat) =
     Inr None \<and>
   call_tool (chat_client_manager none_chat) ''search'' (JObj []) (chat_tool_map none_chat) =
     Inr (Some ''None'') \<and>
   snd (process_tool_calls_loop sample_loads (chat_client_manager none_chat)
          (chat_tool_map none_chat) ''openai'' [lookup_entry ''call_0''] [user_message] ::
          openai_chunk event list \<times> json list \<times> py_error option) =
     ([user_message,
       JObj [(''role'', JStr ''tool''), (''tool_call_id'', JStr ''call_0''),
             (''content'', JStr ''None'')]], None) \<and>
   snd (process_tool_calls_loop sample_loads (chat_client_manager none_chat)
          (chat_tool_map none_chat) ''openai'' [search_call] [user_message] ::
          openai_chunk event list \<times> json list \<times> py_error option) =
     ([user_message,
       JObj [(''role'', JStr ''tool''), (''tool_call_id'', JStr ''call_0''),
             (''content'', JStr ''None'')]], None)"
  by (simp add: none_chat_def call_tool_def session_none_def sample_loads_def lookup_entry_def
      search_call_def create_llm_chunk_def lower_openai str_of_observation_def
      create_tool_result_message_def Let_def)

lemma loop_stops_at_malformed:
  assumes "process_tool_calls_loop loads m tm provider pre msgs = (evs, msgs1, None)"
    and "loads (function_arguments call) = Inl e"
  shows "process_tool_calls_loop loads m tm provider (pre @ call # post) msgs = (evs, msgs1, Some e)"
  using assms by (simp add: loop_append)

lemma convert_stops_at_malformed:
  "list_all (\<lambda>entry. \<not> isl (loads (function_arguments entry))) pre \<Longrightarrow>
   loads (function_arguments call) = Inl e \<Longrightarrow>
   convert_to_anthropic_tool_format loads (pre @ call # post) = Inl e"
proof (induction pre)
  case Nil
  then show ?case by simp
next
  case (Cons entry pre)
  from Cons.prems obtain a where "loads (function_arguments entry) = Inr a"
    by (cases "loads (function_arguments entry)") simp_all
  with Cons show ?case by simp
qed

lemma raised_pass_ends_openai_run:
  assumes p: "pa \<in> set (passes (openai_turn w c) (nat k) 0 (chat_messages c))"
    and r: "p_end pa = Raised e"
  shows "last (passes (openai_turn w c) (nat k) 0 (chat_messages c)) = pa \<and>
     openai_run w c k =
       concat (map p_events (passes (openai_turn w c) (nat k) 0 (chat_messages c))) @
       [Yield (Custom (OpenAICompatibleChunk ERROR (''Error: '' @ str_of_error e)))]"
proof -
  from passes_raised_is_last [OF p r]
  have l: "last (passes (openai_turn w c) (nat k) 0 (chat_messages c)) = pa" by simp
  from p have ne: "passes (openai_turn w c) (nat k) 0 (chat_messages c) \<noteq> []" by auto
  have "run_error (passes (openai_turn w c) (nat k) 0 (chat_messages c)) = Some e"
    using ne l r by (simp add: run_error_def)
  with l openai_run_passes [of w c k] show ?thesis by simp
qed

lemma raised_pass_ends_anthropic_run:
  assumes p: "pa \<in> set (passes (anthropic_turn w c) (nat k) 0 (chat_messages c))"
    and r: "p_end pa = Raised e"
  shows "last (passes (anthropic_turn w c) (nat k) 0 (chat_messages c)) = pa \<and>
     anthropic_run w c k =
       concat (map p_events (passes (anthropic_turn w c) (nat k) 0 (chat_messages c))) @
       [Yield (Custom (AnthropicCompatibleChunk ERROR (''Error: '' @ str_of_error e)))]"
proof -
  from passes_raised_is_last [OF p r]
  have l: "last (passes (anthropic_turn w c) (nat k) 0 (chat_messages c)) = pa" by simp
  from p have ne: "passes (anthropic_turn w c) (nat k) 0 (chat_messages c) \<noteq> []" by auto
  have "run_error (passes (anthropic_turn w c) (nat k) 0 (chat_messages c)) = Some e"
    using ne l r by (simp add: run_error_def)
  with l anthropic_run_passes [of w c k] show ?thesis by simp
qed

lemma openai_pass_malformed:
  assumes p: "pa \<in> set (passes (openai_turn w c) (nat k) 0 (chat_messages c))"
    and m: "model_response w \<lparr>req_messages = p_before pa, req_tools = Some (chat_tools c)\<rparr> =
              Inr stream"
    and col: "collect_openai stream ([], 0, []) = ((ftc, ti, buf), outs)"
    and sp: "map snd ftc = pre @ call # post"
    and pre: "process_tool_calls_loop (json_loads w) (chat_client_manager c) (chat_tool_map c)
                ''openai'' pre (p_before pa @ [assistant_tool_calls ftc]) =
                ((pevs :: openai_chunk event list), msgs2, None)"
    and bad: "json_loads w (function_arguments call) = Inl e"
  shows "p_events pa =
           request_part (openai_analyzing (p_turn pa))
             \<lparr>req_messages = p_before pa, req_tools = Some (chat_tools c)\<rparr> outs @
           [openai_progress ''Using MCP tools to gather information...'',
            Append (assistant_tool_calls ftc)] @
           pevs \<and>
         p_after pa = msgs2 \<and>
         p_end pa = Raised e \<and>
         model_calls pevs = [] \<and>
         (\<exists>results.
            map Some results =
              map (served (json_loads w) (chat_client_manager c) (chat_tool_map c) ''openai'')
                pre \<and>
            tool_invocations pevs = map fst results \<and>
            msgs2 = p_before pa @ assistant_tool_calls ftc # map snd results) \<and>
         last (passes (openai_turn w c) (nat k) 0 (chat_messages c)) = pa \<and>
         openai_run w c k =
           concat (map p_events (passes (openai_turn w c) (nat k) 0 (chat_messages c))) @
           [Yield (Custom (OpenAICompatibleChunk ERROR (''Error: '' @ str_of_error e)))]"
proof -
  from sp have ne: "ftc \<noteq> []" by auto
  have l: "process_tool_calls_loop (json_loads w) (chat_client_manager c) (chat_tool_map c)
             ''openai'' (map snd ftc) (p_before pa @ [assistant_tool_calls ftc]) =
           (pevs, msgs2, Some e)"
    unfolding sp using pre bad by (rule loop_stops_at_malformed)
  from openai_turn_tools_raise [OF m col ne l, of "p_turn pa"] passes_are_passes [OF p]
  have t: "p_events pa =
           request_part (openai_analyzing (p_turn pa))
             \<lparr>req_messages = p_before pa, req_tools = Some (chat_tools c)\<rparr> outs @
           [openai_progress ''Using MCP tools to gather information...'',
            Append (assistant_tool_calls ftc)] @
           pevs" "p_after pa = msgs2" "p_end pa = Raised e"
    by simp_all
  from loop_served [OF pre] obtain results where
    res: "map Some results =
            map (served (json_loads w) (chat_client_manager c) (chat_tool_map c) ''openai'') pre"
      "tool_invocations pevs = map fst results"
      "msgs2 = (p_before pa @ [assistant_tool_calls ftc]) @ map snd results"
    by blast
  then have ex: "\<exists>results.
            map Some results =
              map (served (json_loads w) (chat_client_manager c) (chat_tool_map c) ''openai'')
                pre \<and>
            tool_invocations pevs = map fst results \<and>
            msgs2 = p_before pa @ assistant_tool_calls ftc # map snd results"
    by auto
  from loop_model_calls [OF pre] have mc: "model_calls pevs = []" .
  from raised_pass_ends_openai_run [OF p t(3)] t ex mc show ?thesis by simp
qed

lemma anthropic_pass_malformed:
  assumes p: "pa \<in> set (passes (anthropic_turn w c) (nat k) 0 (chat_messages c))"
    and m: "model_response w \<lparr>req_messages = p_before pa, req_tools = Some (chat_tools c)\<rparr> =
              Inr stream"
    and col: "collect_anthropic stream ([], 0, None) = ((ftc, ti, cur), outs)"
    and sp: "map snd ftc = pre @ call # post"
    and pre: "list_all (\<lambda>entry. \<not> isl (json_loads w (function_arguments entry))) pre"
    and bad: "json_loads w (function_arguments call) = Inl e"
  shows "p_events pa =
           request_part (anthropic_analyzing (p_turn pa))
             \<lparr>req_messages = p_before pa, req_tools = Some (chat_tools c)\<rparr> outs \<and>
         p_after pa = p_before pa \<and>
         p_end pa = Raised e \<and>
         tool_invocations (p_events pa) = [] \<and>
         model_calls (p_events pa) =
           [\<lparr>req_messages = p_before pa, req_tools = Some (chat_tools c)\<rparr>] \<and>
         last (passes (anthropic_turn w c) (nat k) 0 (chat_messages c)) = pa \<and>
         anthropic_run w c k =
           concat (map p_events (passes (anthropic_turn w c) (nat k) 0 (chat_messages c))) @
           [Yield (Custom (AnthropicCompatibleChunk ERROR (''Error: '' @ str_of_error e)))]"
proof -
  from sp have ne: "ftc \<noteq> []" by auto
  have cv: "convert_to_anthropic_tool_format (json_loads w) (map snd ftc) = Inl e"
    unfolding sp using pre bad by (rule convert_stops_at_malformed)
  from anthropic_turn_malformed [OF m col ne cv, of "p_turn pa"] passes_are_passes [OF p]
  have t: "p_events pa =
           request_part (anthropic_analyzing (p_turn pa))
             \<lparr>req_messages = p_before pa, req_tools = Some (chat_tools c)\<rparr> outs"
      "p_after pa = p_before pa" "p_end pa = Raised e"
    by simp_all
  have ti: "tool_invocations (p_events pa) = []"
    "model_calls (p_events pa) =
       [\<lparr>req_messages = p_before pa, req_tools = Some (chat_tools c)\<rparr>]"
    unfolding t(1)
    by (simp_all add: request_part_def anthropic_analyzing_def anthropic_progress_def
        tool_invocations_append tool_invocations_yields model_calls_append model_calls_yields)
  from raised_pass_ends_anthropic_run [OF p t(3)] t ti show ?thesis by simp
qed

lemma good_then_malformed_collect:
  "collect_openai [good_then_malformed] ([], 0, []) =
     (([(0, good_entry), (1, malformed_entry)], 2, []), [Passthrough good_then_malformed])"
  by (simp add: good_then_malformed_def process_openai_chunk_def accumulate_tool_call_def
      str_or_def good_entry_def malformed_entry_def)

lemma good_then_malformed_anthropic_collect:
  "collect_anthropic good_then_malformed_anthropic ([], 0, None) =
     (([(0, good_entry), (1, malformed_entry)], 2, Some 1),
      map Passthrough good_then_malformed_anthropic)"
  by (simp add: good_then_malformed_anthropic_def tool_use_start_def json_delta_def
      process_anthropic_chunk_def good_entry_def malformed_entry_def)

lemma search_then_malformed_first:
  "snd (openai_turn search_then_malformed sample_chat turn [user_message]) =
     ([user_message, assistant_tool_calls [(0, search_call)], answer_message], NextTurn)"
  by (simp add: search_then_malformed_def sample_chat_def openai_turn_def Let_def name_delta_def
      process_openai_chunk_def accumulate_tool_call_def str_or_def str_nat_0 search_call_def
      convert_to_openai_tool_format_def
      process_tool_calls_def create_llm_chunk_def lower_openai call_tool_def session_a_def
      sample_loads_def str_of_observation_def create_tool_result_message_def
      openai_progress_def assistant_tool_calls_def answer_message_def)

lemma search_then_malformed_second:
  "snd (openai_turn search_then_malformed sample_chat turn
          [user_message, assistant_tool_calls [(0, search_call)], answer_message]) =
     ([user_message, assistant_tool_calls [(0, search_call)], answer_message,
       assistant_tool_calls [(0, good_entry), (1, malformed_entry)], good_answer],
      Raised malformed_object)"
  by (simp add: search_then_malformed_def sample_chat_def openai_turn_def Let_def
      good_then_malformed_def good_entry_def malformed_entry_def
      process_openai_chunk_def accumulate_tool_call_def str_or_def
      convert_to_openai_tool_format_def
      process_tool_calls_def create_llm_chunk_def lower_openai call_tool_def session_a_def
      sample_loads_def str_of_observation_def create_tool_result_message_def
      openai_progress_def assistant_tool_calls_def good_answer_def)

lemma search_then_malformed_anthropic_first:
  "snd (anthropic_turn search_then_malformed_anthropic sample_chat turn [user_message]) =
     ([user_message, assistant_tool_use [search_block], answer_message_anthropic], NextTurn)"
  by (simp add: search_then_malformed_anthropic_def sample_chat_def anthropic_turn_def Let_def
      tool_use_start_def json_delta_def process_anthropic_chunk_def
      process_tool_calls_def create_llm_chunk_def lower_anthropic call_tool_def session_a_def
      sample_loads_def str_of_observation_def create_tool_result_message_def
      anthropic_progress_def assistant_tool_use_def answer_message_anthropic_def
      search_block_def)

lemma search_then_malformed_anthropic_second:
  "snd (anthropic_turn search_then_malformed_anthropic sample_chat turn
          [user_message, assistant_tool_use [search_block], answer_message_anthropic]) =
     ([user_message, assistant_tool_use [search_block], answer_message_anthropic],
      Raised malformed_object)"
  by (simp add: search_then_malformed_anthropic_def sample_chat_def anthropic_turn_def Let_def
      good_then_malformed_anthropic_def
      tool_use_start_def json_delta_def process_anthropic_chunk_def
      sample_loads_def)

lemma failing_pass_is:
  "failing_pass =
     \<lparr>p_turn = 1,
      p_before = [user_message, assistant_tool_calls [(0, search_call)], answer_message],
      p_events = fst (openai_turn search_then_malformed sample_chat 1
                        [user_message, assistant_tool_calls [(0, search_call)], answer_message]),
      p_after = [user_message, assistant_tool_calls [(0, search_call)], answer_message,
                 assistant_tool_calls [(0, good_entry), (1, malformed_entry)], good_answer],
      p_end = Raised malformed_object\<rparr>"
proof -
  have c: "chat_messages sample_chat = [user_message]"
    by (simp add: sample_chat_def)
  show ?thesis
    unfolding failing_pass_def c nat_2
    by (simp add: split_beta search_then_malformed_first search_then_malformed_second)
qed

lemma failing_pass_anthropic_is:
  "failing_pass_anthropic =
     \<lparr>p_turn = 1,
      p_before = [user_message, assistant_tool_use [search_block], answer_message_anthropic],
      p_events = fst (anthropic_turn search_then_malformed_anthropic sample_chat 1
                        [user_message, assistant_tool_use [search_block],
                         answer_message_anthropic]),
      p_after = [user_message, assistant_tool_use [search_block], answer_message_anthropic],
      p_end = Raised malformed_object\<rparr>"
proof -
  have c: "chat_messages sample_chat = [user_message]"
    by (simp add: sample_chat_def)
  show ?thesis
    unfolding failing_pass_anthropic_def c nat_2
    by (simp add: split_beta search_then_malformed_anthropic_first
        search_then_malformed_anthropic_second)
qed

lemma failing_pass_in:
  "failing_pass \<in> set (passes (openai_turn search_then_malformed sample_chat) (nat 2) 0
                          (chat_messages sample_chat))"
proof -
  have c: "chat_messages sample_chat = [user_message]"
    by (simp add: sample_chat_def)
  show ?thesis
    unfolding failing_pass_def c nat_2
    by (simp add: split_beta search_then_malformed_first search_then_malformed_second)
qed

lemma failing_pass_anthropic_in:
  "failing_pass_anthropic \<in>
     set (passes (anthropic_turn search_then_malformed_anthropic sample_chat) (nat 2) 0
            (chat_messages sample_chat))"
proof -
  have c: "chat_messages sample_chat = [user_message]"
    by (simp add: sample_chat_def)
  show ?thesis
    unfolding failing_pass_anthropic_def c nat_2
    by (simp add: split_beta search_then_malformed_anthropic_first
        search_then_malformed_anthropic_second)
qed

text \<open>
  C3 (amended). A parse failure of the arguments of one entry is not reported for that
  entry alone: it ends the run, in every pass and in both dialects.
  The tool loop, which parses each entry when its turn comes, ends at the first entry on
  which \<^verbatim>\<open>json.loads\<close> fails, with that exception: the entries before it have been
  processed, the entry itself and all later entries are not.
  In a pass of the OpenAI run the exception leaves the pass after the assistant message:
  the tools invoked in the pass are those of the earlier entries, each with its
  tool-result message appended; no follow-up request is made; the pass is the last of
  the run, and the output of the run ends with the error chunk of that exception.
  In a pass of the Anthropic run every entry is parsed when the assistant message is
  built, before any tool is invoked: at the first entry that fails the pass raises,
  having sent its one request, with no message appended and no tool invoked, also for
  the entries whose arguments parse; the pass is the last of the run, and the output of
  the run ends with the error chunk of that exception.
\<close>

theorem malformed_arguments_end_the_run:
  "(process_tool_calls_loop loads m tm provider pre msgs = (evs, msgs1, None) \<longrightarrow>
    loads (function_arguments call) = Inl e \<longrightarrow>
      process_tool_calls_loop loads m tm provider (pre @ call # post) msgs = (evs, msgs1, Some e)) \<and>
   (pa \<in> set (passes (openai_turn w c) (nat k) 0 (chat_messages c)) \<longrightarrow>
    model_response w \<lparr>req_messages = p_before pa, req_tools = Some (chat_tools c)\<rparr> =
      Inr stream \<longrightarrow>
    collect_openai stream ([], 0, []) = ((ftc, ti, buf), outs) \<longrightarrow>
    map snd ftc = pre' @ call' # post' \<longrightarrow>
    process_tool_calls_loop (json_loads w) (chat_client_manager c) (chat_tool_map c)
      ''openai'' pre' (p_before pa @ [assistant_tool_calls ftc]) =
      ((pevs :: openai_chunk event list), msgs2, None) \<longrightarrow>
    json_loads w (function_arguments call') = Inl e' \<longrightarrow>
      p_events pa =
        request_part (openai_analyzing (p_turn pa))
          \<lparr>req_messages = p_before pa, req_tools = Some (chat_tools c)\<rparr> outs @
        [openai_progress ''Using MCP tools to gather information...'',
         Append (assistant_tool_calls ftc)] @
        pevs \<and>
      p_after pa = msgs2 \<and>
      p_end pa = Raised e' \<and>
      model_calls pevs = [] \<and>
      (\<exists>results.
         map Some results =
           map (served (json_loads w) (chat_client_manager c) (chat_tool_map c) ''openai'')
             pre' \<and>
         tool_invocations pevs = map fst results \<and>
         msgs2 = p_before pa @ assistant_tool_calls ftc # map snd results) \<and>
      last (passes (openai_turn w c) (nat k) 0 (chat_messages c)) = pa \<and>
      openai_run w c k =
        concat (map p_events (passes (openai_turn w c) (nat k) 0 (chat_messages c))) @
        [Yield (Custom (OpenAICompatibleChunk ERROR (''Error: '' @ str_of_error e')))]) \<and>
   (pb \<in> set (passes (anthropic_turn wb c) (nat k) 0 (chat_messages c)) \<longrightarrow>
    model_response wb \<lparr>req_messages = p_before pb, req_tools = Some (chat_tools c)\<rparr> =
      Inr streamb \<longrightarrow>
    collect_anthropic streamb ([], 0, None) = ((ftcb, tib, curb), outsb) \<longrightarrow>
    map snd ftcb = preb @ callb # postb \<longrightarrow>
    list_all (\<lambda>entry. \<not> isl (json_loads wb (function_arguments entry))) preb \<longrightarrow>
    json_loads wb (function_arguments callb) = Inl eb \<longrightarrow>
      p_events pb =
        request_part (anthropic_analyzing (p_turn pb))
          \<lparr>req_messages = p_before pb, req_tools = Some (chat_tools c)\<rparr> outsb \<and>
      p_after pb = p_before pb \<and>
      p_end pb = Raised eb \<and>
      tool_invocations (p_events pb) = [] \<and>
      model_calls (p_events pb) =
        [\<lparr>req_messages = p_before pb, req_tools = Some (chat_tools c)\<rparr>] \<and>
      last (passes (anthropic_turn wb c) (nat k) 0 (chat_messages c)) = pb \<and>
      anthropic_run wb c k =
        concat (map p_events (passes (anthropic_turn wb c) (nat k) 0 (chat_messages c))) @
        [Yield (Custom (AnthropicCompatibleChunk ERROR (''Error: '' @ str_of_error eb)))])"
  using loop_stops_at_malformed [of loads m tm provider pre msgs evs msgs1 call e post]
    openai_pass_malformed [of pa w c k stream ftc ti buf outs pre' call' post' pevs msgs2 e']
    anthropic_pass_malformed [of pb wb c k streamb ftcb tib curb outsb preb callb postb eb]
  by blast

theorem malformed_arguments_end_the_run_witness:
  "process_tool_calls_loop sample_loads (chat_client_manager sample_chat)
     (chat_tool_map sample_chat) ''openai'' [good_entry] [user_message] =
     (good_entry_events, [user_message, good_answer], None) \<and>
   sample_loads (function_arguments malformed_entry) = Inl malformed_object \<and>
   process_tool_calls_loop sample_loads (chat_client_manager sample_chat)
     (chat_tool_map sample_chat) ''openai'' ([good_entry] @ malformed_entry # [good_entry])
     [user_message] =
     (good_entry_events, [user_message, good_answer], Some malformed_object) \<and>
   failing_pass \<in> set (passes (openai_turn search_then_malformed sample_chat) (nat 2) 0
                          (chat_messages sample_chat)) \<and>
   p_turn failing_pass = 1 \<and>
   model_response search_then_malformed
     \<lparr>req_messages = p_before failing_pass, req_tools = Some (chat_tools sample_chat)\<rparr> =
     Inr [good_then_malformed] \<and>
   collect_openai [good_then_malformed] ([], 0, []) =
     (([(0, good_entry), (1, malformed_entry)], 2, []), [Passthrough good_then_malformed]) \<and>
   map snd [(0 :: int, good_entry), (1, malformed_entry)] = [good_entry] @ malformed_entry # [] \<and>
   process_tool_calls_loop (json_loads search_then_malformed) (chat_client_manager sample_chat)
     (chat_tool_map sample_chat) ''openai'' [good_entry]
     (p_before failing_pass @ [assistant_tool_calls [(0, good_entry), (1, malformed_entry)]]) =
     (good_entry_events,
      p_before failing_pass @
      [assistant_tool_calls [(0, good_entry), (1, malformed_entry)], good_answer], None) \<and>
   json_loads search_then_malformed (function_arguments malformed_entry) =
     Inl malformed_object \<and>
   p_events failing_pass =
     request_part (openai_analyzing (p_turn failing_pass))
       \<lparr>req_messages = p_before failing_pass, req_tools = Some (chat_tools sample_chat)\<rparr>
       [Passthrough good_then_malformed] @
     [openai_progress ''Using MCP tools to gather information...'',
      Append (assistant_tool_calls [(0, good_entry), (1, malformed_entry)])] @
     good_entry_events \<and>
   p_after failing_pass =
     p_before failing_pass @
     [assistant_tool_calls [(0, good_entry), (1, malformed_entry)], good_answer] \<and>
   p_end failing_pass = Raised malformed_object \<and>
   model_calls good_entry_events = [] \<and>
   (\<exists>results.
      map Some results =
        map (served (json_loads search_then_malformed) (chat_client_manager sample_chat)
               (chat_tool_map sample_chat) ''openai'')
          [good_entry] \<and>
      tool_invocations good_entry_events = map fst results \<and>
      p_before failing_pass @
      [assistant_tool_calls [(0, good_entry), (1, malformed_entry)], good_answer] =
        p_before failing_pass @
        assistant_tool_calls [(0, good_entry), (1, malformed_entry)] # map snd results) \<and>
   last (passes (openai_turn search_then_malformed sample_chat) (nat 2) 0
           (chat_messages sample_chat)) = failing_pass \<and>
   openai_run search_then_malformed sample_chat 2 =
     concat (map p_events (passes (openai_turn search_then_malformed sample_chat) (nat 2) 0
                             (chat_messages sample_chat))) @
     [Yield (Custom (OpenAICompatibleChunk ERROR (''Error: '' @ str_of_error malformed_object)))] \<and>
   tool_invocations good_entry_events = [(''search'', JObj [])] \<and>
   failing_pass_anthropic \<in>
     set (passes (anthropic_turn search_then_malformed_anthropic sample_chat) (nat 2) 0
            (chat_messages sample_chat)) \<and>
   p_turn failing_pass_anthropic = 1 \<and>
   model_response search_then_malformed_anthropic
     \<lparr>req_messages = p_before failing_pass_anthropic,
      req_tools = Some (chat_tools sample_chat)\<rparr> =
     Inr good_then_malformed_anthropic \<and>
   collect_anthropic good_then_malformed_anthropic ([], 0, None) =
     (([(0, good_entry), (1, malformed_entry)], 2, Some 1),
      map Passthrough good_then_malformed_anthropic) \<and>
   list_all (\<lambda>entry. \<not> isl (json_loads search_then_malformed_anthropic
                                 (function_arguments entry))) [good_entry] \<and>
   json_loads search_then_malformed_anthropic (function_arguments malformed_entry) =
     Inl malformed_object \<and>
   p_events failing_pass_anthropic =
     request_part (anthropic_analyzing (p_turn failing_pass_anthropic))
       \<lparr>req_messages = p_before failing_pass_anthropic,
        req_tools = Some (chat_tools sample_chat)\<rparr>
       (map Passthrough good_then_malformed_anthropic) \<and>
   p_after failing_pass_anthropic = p_before failing_pass_anthropic \<and>
   p_end failing_pass_anthropic = Raised malformed_object \<and>
   tool_invocations (p_events failing_pass_anthropic) = [] \<and>
   model_calls (p_events failing_pass_anthropic) =
     [\<lparr>req_messages = p_before failing_pass_anthropic,
       req_tools = Some (chat_tools sample_chat)\<rparr>] \<and>
   last (passes (anthropic_turn search_then_malformed_anthropic sample_chat) (nat 2) 0
           (chat_messages sample_chat)) = failing_pass_anthropic \<and>
   anthropic_run search_then_malformed_anthropic sample_chat 2 =
     concat (map p_events
               (passes (anthropic_turn search_then_malformed_anthropic sample_chat) (nat 2) 0
                  (chat_messages sample_chat))) @
     [Yield (Custom (AnthropicCompatibleChunk ERROR
                       (''Error: '' @ str_of_error malformed_object)))]"
proof -
  have l: "process_tool_calls_loop sample_loads (chat_client_manager sample_chat)
     (chat_tool_map sample_chat) ''openai'' [good_entry] [user_message] =
     (good_entry_events, [user_message, good_answer], None)"
    by (simp add: good_entry_def sample_loads_def sample_chat_def create_llm_chunk_def
        lower_openai call_tool_def session_a_def str_of_observation_def
        create_tool_result_message_def good_entry_events_def good_answer_def Let_def)
  have b: "sample_loads (function_arguments malformed_entry) = Inl malformed_object"
    by (simp add: sample_loads_def malformed_entry_def)
  have h1: "failing_pass \<in> set (passes (openai_turn search_then_malformed sample_chat) (nat 2) 0
                          (chat_messages sample_chat))"
    by (rule failing_pass_in)
  have h1b: "p_turn failing_pass = 1"
    by (simp add: failing_pass_is)
  have h2: "model_response search_then_malformed
     \<lparr>req_messages = p_before failing_pass, req_tools = Some (chat_tools sample_chat)\<rparr> =
     Inr [good_then_malformed]"
    by (simp add: failing_pass_is search_then_malformed_def)
  note h3 = good_then_malformed_collect
  have h4: "map snd [(0 :: int, good_entry), (1, malformed_entry)] =
              [good_entry] @ malformed_entry # []"
    by simp
  have h5: "process_tool_calls_loop (json_loads search_then_malformed)
     (chat_client_manager sample_chat) (chat_tool_map sample_chat) ''openai'' [good_entry]
     (p_before failing_pass @ [assistant_tool_calls [(0, good_entry), (1, malformed_entry)]]) =
     (good_entry_events,
      p_before failing_pass @
      [assistant_tool_calls [(0, good_entry), (1, malformed_entry)], good_answer], None)"
    by (simp add: search_then_malformed_def good_entry_def sample_loads_def sample_chat_def
        create_llm_chunk_def lower_openai call_tool_def session_a_def str_of_observation_def
        create_tool_result_message_def good_entry_events_def good_answer_def Let_def)
  have h6: "json_loads search_then_malformed (function_arguments malformed_entry) =
     Inl malformed_object"
    by (simp add: search_then_malformed_def sample_loads_def malformed_entry_def)
  have ti: "tool_invocations good_entry_events = [(''search'', JObj [])]"
    by (simp add: good_entry_events_def)
  have g1: "failing_pass_anthropic \<in>
     set (passes (anthropic_turn search_then_malformed_anthropic sample_chat) (nat 2) 0
            (chat_messages sample_chat))"
    by (rule failing_pass_anthropic_in)
  have g1b: "p_turn failing_pass_anthropic = 1"
    by (simp add: failing_pass_anthropic_is)
  have g2: "model_response search_then_malformed_anthropic
     \<lparr>req_messages = p_before failing_pass_anthropic,
      req_tools = Some (chat_tools sample_chat)\<rparr> =
     Inr good_then_malformed_anthropic"
    by (simp add: failing_pass_anthropic_is search_then_malformed_anthropic_def)
  note g3 = good_then_malformed_anthropic_collect
  have g5: "list_all (\<lambda>entry. \<not> isl (json_loads search_then_malformed_anthropic
                                 (function_arguments entry))) [good_entry]"
    by (simp add: search_then_malformed_anthropic_def sample_loads_def good_entry_def)
  have g6: "json_loads search_then_malformed_anthropic (function_arguments malformed_entry) =
     Inl malformed_object"
    by (simp add: search_then_malformed_anthropic_def sample_loads_def malformed_entry_def)
  note th = malformed_arguments_end_the_run
    [where loads = sample_loads and m = "chat_client_manager sample_chat"
       and tm = "chat_tool_map sample_chat" and provider = "''openai''"
       and pre = "[good_entry]" and msgs = "[user_message]"
       and evs = good_entry_events
       and ?msgs1.0 = "[user_message, good_answer]" and call = malformed_entry
       and e = malformed_object and post = "[good_entry]"
       and pa = failing_pass and w = search_then_malformed and c = sample_chat and k = 2
       and stream = "[good_then_malformed]"
       and ftc = "[(0, good_entry), (1, malformed_entry)]" and ti = 2 and buf = "[]"
       and outs = "[Passthrough good_then_malformed]"
       and pre' = "[good_entry]" and call' = malformed_entry and post' = "[]"
       and pevs = good_entry_events
       and ?msgs2.0 = "p_before failing_pass @
          [assistant_tool_calls [(0, good_entry), (1, malformed_entry)], good_answer]"
       and e' = malformed_object
       and pb = failing_pass_anthropic and wb = search_then_malformed_anthropic
       and streamb = good_then_malformed_anthropic
       and ftcb = "[(0, good_entry), (1, malformed_entry)]" and tib = 2 and curb = "Some 1"
       and outsb = "map Passthrough good_then_malformed_anthropic"
       and preb = "[good_entry]" and callb = malformed_entry and postb = "[]"
       and eb = malformed_object]
  note c1 = th [THEN conjunct1, THEN mp, THEN mp, OF l b]
  note oc = th [THEN conjunct2, THEN conjunct1, THEN mp, THEN mp, THEN mp, THEN mp, THEN mp,
    THEN mp, OF h1 h2 h3 h4 h5 h6]
  note ac = th [THEN conjunct2, THEN conjunct2, THEN mp, THEN mp, THEN mp, THEN mp, THEN mp,
    THEN mp, OF g1 g2 g3 h4 g5 g6]
  show ?thesis
    by (intro conjI l
      b
      c1
      h1
      h1b
      h2
      h3
      h4
      h5
      h6
      ti
      g1
      g1b
      g2
      g3
      g5
      g6
      oc [THEN conjunct1]
      oc [THEN conjunct2, THEN conjunct1]
      oc [THEN conjunct2, THEN conjunct2, THEN conjunct1]
      oc [THEN conjunct2, THEN conjunct2, THEN conjunct2, THEN conjunct1]
      oc [THEN conjunct2, THEN conjunct2, THEN conjunct2, THEN conjunct2, THEN conjunct1]
      oc [THEN conjunct2, THEN conjunct2, THEN conjunct2, THEN conjunct2, THEN conjunct2, THEN conjunct1]
      oc [THEN conjunct2, THEN conjunct2, THEN conjunct2, THEN conjunct2, THEN conjunct2, THEN conjunct2]
      ac [THEN conjunct1]
      ac [THEN conjunct2, THEN conjunct1]
      ac [THEN conjunct2, THEN conjunct2, THEN conjunct1]
      ac [THEN conjunct2, THEN conjunct2, THEN conjunct2, THEN conjunct1]
      ac [THEN conjunct2, THEN conjunct2, THEN conjunct2, THEN conjunct2, THEN conjunct1]
      ac [THEN conjunct2, THEN conjunct2, THEN conjunct2, THEN conjunct2, THEN conjunct2, THEN conjunct1]
      ac [THEN conjunct2, THEN conjunct2, THEN conjunct2, THEN conjunct2, THEN conjunct2, THEN conjunct2])
qed

text \<open>
  C3 as stated fails: the first of two accumulated tool calls has malformed arguments;
  the second, whose arguments are well formed, is never invoked, and the output ends
  with the error chunk.
\<close>

theorem malformed_arguments_stop_later_tool_calls:
  "tool_invocations (process_openai_stream_chat malformed_first one_turn_chat) = [] \<and>
   length (model_calls (process_openai_stream_chat malformed_first one_turn_chat)) = 1 \<and>
   last (process_openai_stream_chat malformed_first one_turn_chat) =
     Yield (Custom (OpenAICompatibleChunk ERROR (''Error: '' @ str_of_error malformed_object)))"
  by (simp add: process_openai_stream_chat_def malformed_first_def one_turn_chat_def servers_of_def
      setup_sample openai_run_def openai_turn_def Let_def malformed_then_good_def
      process_openai_chunk_def accumulate_tool_call_def str_or_def
      process_tool_calls_def sample_loads_def openai_progress_def)

end
